theory Spec2Isabelle
  imports Complex_Main "HOL-Library.Log_Nat"
begin

section \<open>Python values and exceptions\<close>

text \<open>
  The constructors under \<^verbatim>\<open>src/o3seespy/command\<close> are dynamically typed: every
  argument is an arbitrary Python value. The values the model covers are \<^verbatim>\<open>None\<close>,
  integers (unbounded), finite floats (a double is represented by the real number it
  denotes), ASCII strings, lists, and plain objects given by their attributes (name and
  value, as \<^verbatim>\<open>getattr\<close> sees them). Booleans, tuples, \<^verbatim>\<open>nan\<close>, the
  infinities and objects with conversion methods are outside the model.
\<close>

datatype pyval =
    PNone
  | PInt int
  | PFloat real
  | PStr string
  | PList "pyval list"
  | PObj "(string \<times> pyval) list"

text \<open>
  The exceptions. The first four are the ones the Python operations used by the
  constructors raise. \<open>NotModelled\<close> is not a Python exception: it marks the
  conversion of a string that may be a numeric literal, whose outcome (a number or
  ValueError) the model does not compute. A construction that ends in \<open>NotModelled\<close>
  is one the model says nothing about. The last three are the error kinds named by the
  specification; no constructor of the sources raises them.
\<close>

datatype pyerr =
    TypeError
  | ValueError
  | OverflowError
  | AttributeError
  | NotModelled
  | ParameterOrderError
  | ReferenceError
  | ContextMismatchError

subsection \<open>\<^verbatim>\<open>float(x)\<close> and \<^verbatim>\<open>int(x)\<close>\<close>

text \<open>
  \<^verbatim>\<open>float(n)\<close> of an integer is the nearest double, ties to even, and raises
  OverflowError when that is not finite. Up to \<open>2^53\<close> every integer is a double.
\<close>

definition int_to_double :: "int \<Rightarrow> pyerr + real" where
  "int_to_double n =
     (let a = \<bar>n\<bar> in
      if a \<le> 2 ^ 53 then Inr (of_int n)
      else
        let k = nat (bitlen a - 53);
            q = a div 2 ^ k;
            r = a mod 2 ^ k;
            h = 2 ^ (k - 1);
            q' = (if h < r \<or> (r = h \<and> odd q) then q + 1 else q);
            v = q' * 2 ^ k
        in if 2 ^ 1024 \<le> v then Inl OverflowError else Inr (of_int (sgn n * v)))"

text \<open>
  A string that holds an ASCII letter other than those of \<^verbatim>\<open>inf\<close>, \<^verbatim>\<open>nan\<close>,
  \<^verbatim>\<open>infinity\<close> and the exponent mark cannot be a numeric literal: \<^verbatim>\<open>float\<close> and
  \<^verbatim>\<open>int\<close> raise ValueError on it. The option words of the commands
  (\<^verbatim>\<open>'noDamage'\<close>, \<^verbatim>\<open>'psi'\<close>, \<^verbatim>\<open>'strong'\<close>) are of this kind.
\<close>

definition non_numeric_text :: "string \<Rightarrow> bool" where
  "non_numeric_text s =
     list_ex (\<lambda>c. c \<in> set ''bcdghjklmopqrsuvwxzBCDGHJKLMOPQRSUVWXZ'') s"

definition str_to_number :: "string \<Rightarrow> pyerr + pyval" where
  "str_to_number s = (if non_numeric_text s then Inl ValueError else Inl NotModelled)"

fun py_float :: "pyval \<Rightarrow> pyerr + pyval" where
  "py_float (PFloat x) = Inr (PFloat x)"
| "py_float (PInt n) = (case int_to_double n of Inl e \<Rightarrow> Inl e | Inr x \<Rightarrow> Inr (PFloat x))"
| "py_float (PStr s) = str_to_number s"
| "py_float PNone = Inl TypeError"
| "py_float (PList xs) = Inl TypeError"
| "py_float (PObj attrs) = Inl TypeError"

text \<open>\<^verbatim>\<open>int(x)\<close> of a float truncates towards zero.\<close>

fun py_int :: "pyval \<Rightarrow> pyerr + pyval" where
  "py_int (PInt n) = Inr (PInt n)"
| "py_int (PFloat x) = Inr (PInt (if 0 \<le> x then \<lfloor>x\<rfloor> else \<lceil>x\<rceil>))"
| "py_int (PStr s) = str_to_number s"
| "py_int PNone = Inl TypeError"
| "py_int (PList xs) = Inl TypeError"
| "py_int (PObj attrs) = Inl TypeError"

subsection \<open>Iteration, attribute access, list displays\<close>

text \<open>
  \<^verbatim>\<open>*x\<close> inside a list display and \<^verbatim>\<open>lst += x\<close> iterate over \<^verbatim>\<open>x\<close>: a list
  gives its elements, a string its characters, anything else in the model is not
  iterable.
\<close>

fun py_iter :: "pyval \<Rightarrow> pyerr + pyval list" where
  "py_iter (PList xs) = Inr xs"
| "py_iter (PStr s) = Inr (map (\<lambda>c. PStr [c]) s)"
| "py_iter PNone = Inl TypeError"
| "py_iter (PInt n) = Inl TypeError"
| "py_iter (PFloat x) = Inl TypeError"
| "py_iter (PObj attrs) = Inl TypeError"

text \<open>\<^verbatim>\<open>x.tag\<close>: only objects carry the attribute.\<close>

fun py_tag_of :: "pyval \<Rightarrow> pyerr + pyval" where
  "py_tag_of (PObj attrs) =
     (case map_of attrs ''tag'' of None \<Rightarrow> Inl AttributeError | Some t \<Rightarrow> Inr t)"
| "py_tag_of PNone = Inl AttributeError"
| "py_tag_of (PInt n) = Inl AttributeError"
| "py_tag_of (PFloat x) = Inl AttributeError"
| "py_tag_of (PStr s) = Inl AttributeError"
| "py_tag_of (PList xs) = Inl AttributeError"

text \<open>
  A list display \<^verbatim>\<open>[e1, *e2, e3.tag, ...]\<close> evaluates its entries from left to right;
  the first exception ends the evaluation. Each entry contributes a list of elements.
\<close>

definition item :: "pyval \<Rightarrow> pyerr + pyval list" where
  "item v = Inr [v]"

definition star :: "pyval \<Rightarrow> pyerr + pyval list" where
  "star v = py_iter v"

definition attr_tag :: "pyval \<Rightarrow> pyerr + pyval list" where
  "attr_tag v = (case py_tag_of v of Inl e \<Rightarrow> Inl e | Inr t \<Rightarrow> Inr [t])"

text \<open>
  \<^verbatim>\<open>self.op_type\<close> in \<^verbatim>\<open>standard.py\<close>: the classes there set no \<^verbatim>\<open>op_type\<close>, so
  the lookup goes to the base class \<^verbatim>\<open>UniaxialMaterialBase\<close>, which is not among the
  sources. The inherited attribute is a parameter of these constructors: \<open>None\<close> when
  the base class has none.
\<close>

definition class_attr :: "pyval option \<Rightarrow> pyerr + pyval list" where
  "class_attr a = (case a of None \<Rightarrow> Inl AttributeError | Some v \<Rightarrow> Inr [v])"

fun py_list :: "(pyerr + pyval list) list \<Rightarrow> pyerr + pyval list" where
  "py_list [] = Inr []"
| "py_list (x # xs) =
     (case x of
        Inl e \<Rightarrow> Inl e
      | Inr a \<Rightarrow> (case py_list xs of Inl e \<Rightarrow> Inl e | Inr b \<Rightarrow> Inr (a @ b)))"

text \<open>\<^verbatim>\<open>self._parameters += x\<close>, with \<open>x\<close> the evaluated right-hand side.\<close>

definition py_iadd :: "pyval list \<Rightarrow> pyerr + pyval list \<Rightarrow> pyerr + pyval list" where
  "py_iadd parameters x = (case x of Inl e \<Rightarrow> Inl e | Inr xs \<Rightarrow> Inr (parameters @ xs))"

text \<open>
  The loop over the trailing optional parameters, as \<^verbatim>\<open>other.py\<close> has it:
  \<^verbatim>\<open>
  for i, pm in enumerate(special_pms):
      if getattr(self, pm) is not None:
          if packets[i]:
              self._parameters += [*getattr(self, pm)]
          else:
              self._parameters += [getattr(self, pm)]
      else:
          break
  \<close>
  The list argument pairs each attribute value with its \<^verbatim>\<open>packets\<close> entry.
\<close>

fun special_pms_break :: "(pyval \<times> bool) list \<Rightarrow> pyval list \<Rightarrow> pyerr + pyval list" where
  "special_pms_break [] parameters = Inr parameters"
| "special_pms_break ((v, packet) # rest) parameters =
     (if v \<noteq> PNone then
        (if packet then
           (case py_iter v of
              Inl e \<Rightarrow> Inl e
            | Inr xs \<Rightarrow> special_pms_break rest (parameters @ xs))
         else special_pms_break rest (parameters @ [v]))
      else Inr parameters)"

text \<open>The same loop in \<^verbatim>\<open>standard.py\<close> has no \<^verbatim>\<open>else: break\<close>.\<close>

fun special_pms_nobreak :: "(pyval \<times> bool) list \<Rightarrow> pyval list \<Rightarrow> pyerr + pyval list" where
  "special_pms_nobreak [] parameters = Inr parameters"
| "special_pms_nobreak ((v, packet) # rest) parameters =
     (if v \<noteq> PNone then
        (if packet then
           (case py_iter v of
              Inl e \<Rightarrow> Inl e
            | Inr xs \<Rightarrow> special_pms_nobreak rest (parameters @ xs))
         else special_pms_nobreak rest (parameters @ [v]))
      else special_pms_nobreak rest parameters)"

section \<open>The analysis context\<close>

text \<open>
  Modelled from the spec: the class of \<^verbatim>\<open>osi\<close> (\<^verbatim>\<open>o3seespy.OpenseesInstance\<close>) is not
  among the sources. The specification (section 3) gives the Analysis Context integer
  tag counters and a dispatch backend. The constructors read and write three of its
  attributes: \<^verbatim>\<open>n_mat\<close> (\<^verbatim>\<open>other.py\<close>, \<^verbatim>\<open>layer.py\<close>), \<^verbatim>\<open>n_mats\<close> and
  \<^verbatim>\<open>mats\<close> (\<^verbatim>\<open>standard.py\<close>). Each is a field that may be absent (\<open>None\<close>), in which
  case the access raises AttributeError. \<open>dispatched\<close> is the sequence of parameter
  lists handed to the dispatch backend so far.
\<close>

record osi =
  n_mat :: "int option"
  n_mats :: "int option"
  mats :: "pyval option"
  dispatched :: "pyval list list"

text \<open>
  A constructor runs on a context and ends with a new object or an exception; the
  context it leaves behind is returned in both cases, since an exception does not undo
  an increment that was already made.
\<close>

type_synonym 'a ctor = "osi \<Rightarrow> (pyerr + 'a) \<times> osi"

definition ret :: "'a \<Rightarrow> 'a ctor" where
  "ret x = (\<lambda>s. (Inr x, s))"

definition lift :: "pyerr + 'a \<Rightarrow> 'a ctor" where
  "lift r = (\<lambda>s. (r, s))"

definition bnd :: "'a ctor \<Rightarrow> ('a \<Rightarrow> 'b ctor) \<Rightarrow> 'b ctor" where
  "bnd m f = (\<lambda>s. case m s of (Inl e, s') \<Rightarrow> (Inl e, s') | (Inr a, s') \<Rightarrow> f a s')"

text \<open>\<^verbatim>\<open>osi.n_mat += 1\<close> and \<^verbatim>\<open>self._tag = osi.n_mat\<close>.\<close>

definition osi_incr_n_mat :: "unit ctor" where
  "osi_incr_n_mat =
     (\<lambda>s. case n_mat s of
             None \<Rightarrow> (Inl AttributeError, s)
           | Some n \<Rightarrow> (Inr (), s\<lparr>n_mat := Some (n + 1)\<rparr>))"

definition osi_get_n_mat :: "pyval ctor" where
  "osi_get_n_mat =
     (\<lambda>s. case n_mat s of
             None \<Rightarrow> (Inl AttributeError, s)
           | Some n \<Rightarrow> (Inr (PInt n), s))"

text \<open>\<^verbatim>\<open>osi.n_mats += 1\<close> and \<^verbatim>\<open>self._tag = osi.mats\<close>.\<close>

definition osi_incr_n_mats :: "unit ctor" where
  "osi_incr_n_mats =
     (\<lambda>s. case n_mats s of
             None \<Rightarrow> (Inl AttributeError, s)
           | Some n \<Rightarrow> (Inr (), s\<lparr>n_mats := Some (n + 1)\<rparr>))"

definition osi_get_mats :: "pyval ctor" where
  "osi_get_mats =
     (\<lambda>s. case mats s of
             None \<Rightarrow> (Inl AttributeError, s)
           | Some v \<Rightarrow> (Inr v, s))"

text \<open>
  Modelled from the spec: \<^verbatim>\<open>to_process\<close> is a method of the base class
  \<^verbatim>\<open>OpenSeesObject\<close> (\<^verbatim>\<open>o3seespy.base_model\<close>), which is not among the sources. By
  section 4.3 (d) it calls the context's dispatch backend with the parameter list, once,
  synchronously; the recording backend of section 4.5 appends the list to an append-only
  buffer and always reports success.
\<close>

definition to_process :: "pyval list \<Rightarrow> unit ctor" where
  "to_process parameters = (\<lambda>s. (Inr (), s\<lparr>dispatched := dispatched s @ [parameters]\<rparr>))"

text \<open>
  Modelled from the spec: the object a constructor leaves behind. The base class
  \<^verbatim>\<open>OpenSeesObject\<close> is not among the sources; by section 4.3 (e) the object keeps
  the tag as its public identity, so \<^verbatim>\<open>tag\<close> (a property of the base class) reads
  \<^verbatim>\<open>_tag\<close>. The other attributes are \<^verbatim>\<open>_tag\<close> and \<^verbatim>\<open>_parameters\<close>, which the
  constructor assigns last, and the fields it assigned before.
\<close>

definition OpenSeesObject :: "pyval \<Rightarrow> pyval list \<Rightarrow> (string \<times> pyval) list \<Rightarrow> pyval" where
  "OpenSeesObject self_tag parameters attrs =
     PObj ((''tag'', self_tag) # (''_tag'', self_tag) # (''_parameters'', PList parameters) # attrs)"

section \<open>The constructors\<close>

text \<open>
  One definition for each \<^verbatim>\<open>__init__\<close>, statement by statement. The Python signature
  is given before the definition; a caller that omits an optional parameter passes its
  default. The context \<^verbatim>\<open>osi\<close> is the state the constructor runs on (the last
  argument of the definition). \<open>self_x\<close> stands for \<^verbatim>\<open>self.x\<close>.
\<close>

text \<open>
  Class \<^verbatim>\<open>Hardening\<close> of \<^verbatim>\<open>uniaxial_material/other.py\<close>:
  \<^verbatim>\<open>
  def __init__(self, osi, big_e, sigma_y, h_iso, h_kin, eta=0.0)
  \<close>
\<close>

definition Hardening :: "pyval \<Rightarrow> pyval \<Rightarrow> pyval \<Rightarrow> pyval \<Rightarrow> pyval \<Rightarrow> pyval ctor" where
  "Hardening big_e sigma_y h_iso h_kin eta =
     bnd (lift (py_float big_e)) (\<lambda>self_big_e.
     bnd (lift (py_float sigma_y)) (\<lambda>self_sigma_y.
     bnd (lift (py_float h_iso)) (\<lambda>self_h_iso.
     bnd (lift (py_float h_kin)) (\<lambda>self_h_kin.
     bnd (lift (py_float eta)) (\<lambda>self_eta.
     bnd osi_incr_n_mat (\<lambda>_.
     bnd osi_get_n_mat (\<lambda>self_tag.
     bnd (lift
          (py_list
             [item (PStr ''Hardening''), item self_tag, item self_big_e, item self_sigma_y,
              item self_h_iso, item self_h_kin, item self_eta])) (\<lambda>parameters.
     bnd (to_process parameters) (\<lambda>_.
     ret (OpenSeesObject self_tag parameters
          [(''big_e'', self_big_e), (''sigma_y'', self_sigma_y), (''h_iso'', self_h_iso),
           (''h_kin'', self_h_kin), (''eta'', self_eta)]))))))))))"

text \<open>
  Class \<^verbatim>\<open>Cast\<close> of \<^verbatim>\<open>uniaxial_material/other.py\<close>:
  \<^verbatim>\<open>
  def __init__(self, osi, n, bo, h, fy, big_e, big_l, b, ro, c_r1, c_r2, a1=None,
               a2=1.0, a3=None, a4=1.0)
  \<close>
\<close>

definition Cast ::
  "pyval \<Rightarrow> pyval \<Rightarrow> pyval \<Rightarrow> pyval \<Rightarrow> pyval \<Rightarrow> pyval \<Rightarrow> pyval \<Rightarrow> pyval \<Rightarrow> pyval \<Rightarrow>
   pyval \<Rightarrow> pyval \<Rightarrow> pyval \<Rightarrow> pyval \<Rightarrow> pyval \<Rightarrow> pyval ctor" where
  "Cast n bo h fy big_e big_l b ro c_r1 c_r2 a1 a2 a3 a4 =
     bnd (lift (py_int n)) (\<lambda>self_n.
     bnd (lift (py_float bo)) (\<lambda>self_bo.
     bnd (lift (py_float h)) (\<lambda>self_h.
     bnd (lift (py_float fy)) (\<lambda>self_fy.
     bnd (lift (py_float big_e)) (\<lambda>self_big_e.
     bnd (lift (py_float big_l)) (\<lambda>self_big_l.
     bnd (lift (py_float b)) (\<lambda>self_b.
     bnd (lift (py_float ro)) (\<lambda>self_ro.
     bnd (lift (py_float c_r1)) (\<lambda>self_c_r1.
     bnd (lift (py_float c_r2)) (\<lambda>self_c_r2.
     bnd (lift (if a1 = PNone then Inr PNone else py_float a1)) (\<lambda>self_a1.
     bnd (lift (py_float a2)) (\<lambda>self_a2.
     bnd (lift (if a3 = PNone then Inr PNone else py_float a3)) (\<lambda>self_a3.
     bnd (lift (py_float a4)) (\<lambda>self_a4.
     bnd osi_incr_n_mat (\<lambda>_.
     bnd osi_get_n_mat (\<lambda>self_tag.
     bnd (lift
          (py_list
             [item (PStr ''Cast''), item self_tag, item self_n, item self_bo, item self_h,
              item self_fy, item self_big_e, item self_big_l, item self_b, item self_ro,
              item self_c_r1, item self_c_r2])) (\<lambda>parameters.
     bnd (lift (special_pms_break
          [(self_a1, False), (self_a2, False), (self_a3, False), (self_a4, False)]
          parameters)) (\<lambda>parameters.
     bnd (to_process parameters) (\<lambda>_.
     ret (OpenSeesObject self_tag parameters
          [(''n'', self_n), (''bo'', self_bo), (''h'', self_h), (''fy'', self_fy),
           (''big_e'', self_big_e), (''big_l'', self_big_l), (''b'', self_b), (''ro'', self_ro),
           (''c_r1'', self_c_r1), (''c_r2'', self_c_r2), (''a1'', self_a1), (''a2'', self_a2),
           (''a3'', self_a3), (''a4'', self_a4)]))))))))))))))))))))"

text \<open>
  Class \<^verbatim>\<open>ViscousDamper\<close> of \<^verbatim>\<open>uniaxial_material/other.py\<close>:
  \<^verbatim>\<open>
  def __init__(self, osi, big_k, cd, alpha, l_gap=0.0, nm=1, rel_tol=1e-06,
               abs_tol=1e-10, max_half=15)
  \<close>
\<close>

definition ViscousDamper :: "pyval \<Rightarrow> pyval \<Rightarrow> pyval \<Rightarrow> pyval \<Rightarrow> pyval \<Rightarrow> pyval \<Rightarrow> pyval \<Rightarrow> pyval \<Rightarrow> pyval ctor" where
  "ViscousDamper big_k cd alpha l_gap nm rel_tol abs_tol max_half =
     bnd (lift (py_float big_k)) (\<lambda>self_big_k.
     bnd (lift (py_float cd)) (\<lambda>self_cd.
     bnd (lift (py_float alpha)) (\<lambda>self_alpha.
     bnd (lift (py_float l_gap)) (\<lambda>self_l_gap.
     bnd (lift (py_int nm)) (\<lambda>self_nm.
     bnd (lift (py_float rel_tol)) (\<lambda>self_rel_tol.
     bnd (lift (py_float abs_tol)) (\<lambda>self_abs_tol.
     bnd (lift (py_int max_half)) (\<lambda>self_max_half.
     bnd osi_incr_n_mat (\<lambda>_.
     bnd osi_get_n_mat (\<lambda>self_tag.
     bnd (lift
          (py_list
             [item (PStr ''ViscousDamper''), item self_tag, item self_big_k, item self_cd,
              item self_alpha, item self_l_gap, item self_nm, item self_rel_tol,
              item self_abs_tol, item self_max_half])) (\<lambda>parameters.
     bnd (to_process parameters) (\<lambda>_.
     ret (OpenSeesObject self_tag parameters
          [(''big_k'', self_big_k), (''cd'', self_cd), (''alpha'', self_alpha),
           (''l_gap'', self_l_gap), (''nm'', self_nm), (''rel_tol'', self_rel_tol),
           (''abs_tol'', self_abs_tol), (''max_half'', self_max_half)])))))))))))))"

text \<open>
  Class \<^verbatim>\<open>BilinearOilDamper\<close> of \<^verbatim>\<open>uniaxial_material/other.py\<close>:
  \<^verbatim>\<open>
  def __init__(self, osi, big_k, cd, fr=1.0, p=1.0, l_gap=0.0, nm=1, rel_tol=1e-06,
               abs_tol=1e-10, max_half=15)
  \<close>
\<close>

definition BilinearOilDamper ::
  "pyval \<Rightarrow> pyval \<Rightarrow> pyval \<Rightarrow> pyval \<Rightarrow> pyval \<Rightarrow> pyval \<Rightarrow> pyval \<Rightarrow> pyval \<Rightarrow> pyval \<Rightarrow>
   pyval ctor" where
  "BilinearOilDamper big_k cd fr p l_gap nm rel_tol abs_tol max_half =
     bnd (lift (py_float big_k)) (\<lambda>self_big_k.
     bnd (lift (py_float cd)) (\<lambda>self_cd.
     bnd (lift (py_float fr)) (\<lambda>self_fr.
     bnd (lift (py_float p)) (\<lambda>self_p.
     bnd (lift (py_float l_gap)) (\<lambda>self_l_gap.
     bnd (lift (py_int nm)) (\<lambda>self_nm.
     bnd (lift (py_float rel_tol)) (\<lambda>self_rel_tol.
     bnd (lift (py_float abs_tol)) (\<lambda>self_abs_tol.
     bnd (lift (py_int max_half)) (\<lambda>self_max_half.
     bnd osi_incr_n_mat (\<lambda>_.
     bnd osi_get_n_mat (\<lambda>self_tag.
     bnd (lift
          (py_list
             [item (PStr ''BilinearOilDamper''), item self_tag, item self_big_k, item self_cd,
              item self_fr, item self_p, item self_l_gap, item self_nm, item self_rel_tol,
              item self_abs_tol, item self_max_half])) (\<lambda>parameters.
     bnd (to_process parameters) (\<lambda>_.
     ret (OpenSeesObject self_tag parameters
          [(''big_k'', self_big_k), (''cd'', self_cd), (''fr'', self_fr), (''p'', self_p),
           (''l_gap'', self_l_gap), (''nm'', self_nm), (''rel_tol'', self_rel_tol),
           (''abs_tol'', self_abs_tol), (''max_half'', self_max_half)]))))))))))))))"

text \<open>
  Class \<^verbatim>\<open>Bilin\<close> of \<^verbatim>\<open>uniaxial_material/other.py\<close>:
  \<^verbatim>\<open>
  def __init__(self, osi, k0, as__plus, as__neg, my__plus, my__neg, lamda_s, lamda_c,
               lamda_a, lamda_k, c_s, c_c, c_a, c_k, theta_p__plus, theta_p__neg,
               theta_pc__plus, theta_pc__neg, res__pos, res__neg, theta_u__plus,
               theta_u__neg, d__plus, d__neg, n_factor=0.0)
  \<close>
\<close>

definition Bilin ::
  "pyval \<Rightarrow> pyval \<Rightarrow> pyval \<Rightarrow> pyval \<Rightarrow> pyval \<Rightarrow> pyval \<Rightarrow> pyval \<Rightarrow> pyval \<Rightarrow> pyval \<Rightarrow>
   pyval \<Rightarrow> pyval \<Rightarrow> pyval \<Rightarrow> pyval \<Rightarrow> pyval \<Rightarrow> pyval \<Rightarrow> pyval \<Rightarrow> pyval \<Rightarrow> pyval \<Rightarrow>
   pyval \<Rightarrow> pyval \<Rightarrow> pyval \<Rightarrow> pyval \<Rightarrow> pyval \<Rightarrow> pyval \<Rightarrow> pyval ctor" where
  "Bilin k0 as__plus as__neg my__plus my__neg lamda_s lamda_c lamda_a lamda_k c_s c_c c_a c_k
      theta_p__plus theta_p__neg theta_pc__plus theta_pc__neg res__pos res__neg theta_u__plus
      theta_u__neg d__plus d__neg n_factor =
     bnd (lift (py_float k0)) (\<lambda>self_k0.
     bnd (lift (py_float as__plus)) (\<lambda>self_as__plus.
     bnd (lift (py_float as__neg)) (\<lambda>self_as__neg.
     bnd (lift (py_float my__plus)) (\<lambda>self_my__plus.
     bnd (lift (py_float my__neg)) (\<lambda>self_my__neg.
     bnd (lift (py_float lamda_s)) (\<lambda>self_lamda_s.
     bnd (lift (py_float lamda_c)) (\<lambda>self_lamda_c.
     bnd (lift (py_float lamda_a)) (\<lambda>self_lamda_a.
     bnd (lift (py_float lamda_k)) (\<lambda>self_lamda_k.
     bnd (lift (py_float c_s)) (\<lambda>self_c_s.
     bnd (lift (py_float c_c)) (\<lambda>self_c_c.
     bnd (lift (py_float c_a)) (\<lambda>self_c_a.
     bnd (lift (py_float c_k)) (\<lambda>self_c_k.
     bnd (lift (py_float theta_p__plus)) (\<lambda>self_theta_p__plus.
     bnd (lift (py_float theta_p__neg)) (\<lambda>self_theta_p__neg.
     bnd (lift (py_float theta_pc__plus)) (\<lambda>self_theta_pc__plus.
     bnd (lift (py_float theta_pc__neg)) (\<lambda>self_theta_pc__neg.
     bnd (lift (py_float res__pos)) (\<lambda>self_res__pos.
     bnd (lift (py_float res__neg)) (\<lambda>self_res__neg.
     bnd (lift (py_float theta_u__plus)) (\<lambda>self_theta_u__plus.
     bnd (lift (py_float theta_u__neg)) (\<lambda>self_theta_u__neg.
     bnd (lift (py_float d__plus)) (\<lambda>self_d__plus.
     bnd (lift (py_float d__neg)) (\<lambda>self_d__neg.
     bnd (lift (py_float n_factor)) (\<lambda>self_n_factor.
     bnd osi_incr_n_mat (\<lambda>_.
     bnd osi_get_n_mat (\<lambda>self_tag.
     bnd (lift
          (py_list
             [item (PStr ''Bilin''), item self_tag, item self_k0, item self_as__plus,
              item self_as__neg, item self_my__plus, item self_my__neg, item self_lamda_s,
              item self_lamda_c, item self_lamda_a, item self_lamda_k, item self_c_s,
              item self_c_c, item self_c_a, item self_c_k, item self_theta_p__plus,
              item self_theta_p__neg, item self_theta_pc__plus, item self_theta_pc__neg,
              item self_res__pos, item self_res__neg, item self_theta_u__plus,
              item self_theta_u__neg, item self_d__plus, item self_d__neg, item self_n_factor])) (\<lambda>parameters.
     bnd (to_process parameters) (\<lambda>_.
     ret (OpenSeesObject self_tag parameters
          [(''k0'', self_k0), (''as__plus'', self_as__plus), (''as__neg'', self_as__neg),
           (''my__plus'', self_my__plus), (''my__neg'', self_my__neg),
           (''lamda_s'', self_lamda_s), (''lamda_c'', self_lamda_c),
           (''lamda_a'', self_lamda_a), (''lamda_k'', self_lamda_k), (''c_s'', self_c_s),
           (''c_c'', self_c_c), (''c_a'', self_c_a), (''c_k'', self_c_k),
           (''theta_p__plus'', self_theta_p__plus), (''theta_p__neg'', self_theta_p__neg),
           (''theta_pc__plus'', self_theta_pc__plus), (''theta_pc__neg'', self_theta_pc__neg),
           (''res__pos'', self_res__pos), (''res__neg'', self_res__neg),
           (''theta_u__plus'', self_theta_u__plus), (''theta_u__neg'', self_theta_u__neg),
           (''d__plus'', self_d__plus), (''d__neg'', self_d__neg), (''n_factor'', self_n_factor)])))))))))))))))))))))))))))))"

text \<open>
  Class \<^verbatim>\<open>ModIMKPeakOriented\<close> of \<^verbatim>\<open>uniaxial_material/other.py\<close>:
  \<^verbatim>\<open>
  def __init__(self, osi, k0, as__plus, as__neg, my__plus, my__neg, lamda_s, lamda_c,
               lamda_a, lamda_k, c_s, c_c, c_a, c_k, theta_p__plus, theta_p__neg,
               theta_pc__plus, theta_pc__neg, res__pos, res__neg, theta_u__plus,
               theta_u__neg, d__plus, d__neg)
  \<close>
\<close>

definition ModIMKPeakOriented ::
  "pyval \<Rightarrow> pyval \<Rightarrow> pyval \<Rightarrow> pyval \<Rightarrow> pyval \<Rightarrow> pyval \<Rightarrow> pyval \<Rightarrow> pyval \<Rightarrow> pyval \<Rightarrow>
   pyval \<Rightarrow> pyval \<Rightarrow> pyval \<Rightarrow> pyval \<Rightarrow> pyval \<Rightarrow> pyval \<Rightarrow> pyval \<Rightarrow> pyval \<Rightarrow> pyval \<Rightarrow>
   pyval \<Rightarrow> pyval \<Rightarrow> pyval \<Rightarrow> pyval \<Rightarrow> pyval \<Rightarrow> pyval ctor" where
  "ModIMKPeakOriented k0 as__plus as__neg my__plus my__neg lamda_s lamda_c lamda_a lamda_k c_s
      c_c c_a c_k theta_p__plus theta_p__neg theta_pc__plus theta_pc__neg res__pos res__neg
      theta_u__plus theta_u__neg d__plus d__neg =
     bnd (lift (py_float k0)) (\<lambda>self_k0.
     bnd (lift (py_float as__plus)) (\<lambda>self_as__plus.
     bnd (lift (py_float as__neg)) (\<lambda>self_as__neg.
     bnd (lift (py_float my__plus)) (\<lambda>self_my__plus.
     bnd (lift (py_float my__neg)) (\<lambda>self_my__neg.
     bnd (lift (py_float lamda_s)) (\<lambda>self_lamda_s.
     bnd (lift (py_float lamda_c)) (\<lambda>self_lamda_c.
     bnd (lift (py_float lamda_a)) (\<lambda>self_lamda_a.
     bnd (lift (py_float lamda_k)) (\<lambda>self_lamda_k.
     bnd (lift (py_float c_s)) (\<lambda>self_c_s.
     bnd (lift (py_float c_c)) (\<lambda>self_c_c.
     bnd (lift (py_float c_a)) (\<lambda>self_c_a.
     bnd (lift (py_float c_k)) (\<lambda>self_c_k.
     bnd (lift (py_float theta_p__plus)) (\<lambda>self_theta_p__plus.
     bnd (lift (py_float theta_p__neg)) (\<lambda>self_theta_p__neg.
     bnd (lift (py_float theta_pc__plus)) (\<lambda>self_theta_pc__plus.
     bnd (lift (py_float theta_pc__neg)) (\<lambda>self_theta_pc__neg.
     bnd (lift (py_float res__pos)) (\<lambda>self_res__pos.
     bnd (lift (py_float res__neg)) (\<lambda>self_res__neg.
     bnd (lift (py_float theta_u__plus)) (\<lambda>self_theta_u__plus.
     bnd (lift (py_float theta_u__neg)) (\<lambda>self_theta_u__neg.
     bnd (lift (py_float d__plus)) (\<lambda>self_d__plus.
     bnd (lift (py_float d__neg)) (\<lambda>self_d__neg.
     bnd osi_incr_n_mat (\<lambda>_.
     bnd osi_get_n_mat (\<lambda>self_tag.
     bnd (lift
          (py_list
             [item (PStr ''ModIMKPeakOriented''), item self_tag, item self_k0,
              item self_as__plus, item self_as__neg, item self_my__plus, item self_my__neg,
              item self_lamda_s, item self_lamda_c, item self_lamda_a, item self_lamda_k,
              item self_c_s, item self_c_c, item self_c_a, item self_c_k,
              item self_theta_p__plus, item self_theta_p__neg, item self_theta_pc__plus,
              item self_theta_pc__neg, item self_res__pos, item self_res__neg,
              item self_theta_u__plus, item self_theta_u__neg, item self_d__plus,
              item self_d__neg])) (\<lambda>parameters.
     bnd (to_process parameters) (\<lambda>_.
     ret (OpenSeesObject self_tag parameters
          [(''k0'', self_k0), (''as__plus'', self_as__plus), (''as__neg'', self_as__neg),
           (''my__plus'', self_my__plus), (''my__neg'', self_my__neg),
           (''lamda_s'', self_lamda_s), (''lamda_c'', self_lamda_c),
           (''lamda_a'', self_lamda_a), (''lamda_k'', self_lamda_k), (''c_s'', self_c_s),
           (''c_c'', self_c_c), (''c_a'', self_c_a), (''c_k'', self_c_k),
           (''theta_p__plus'', self_theta_p__plus), (''theta_p__neg'', self_theta_p__neg),
           (''theta_pc__plus'', self_theta_pc__plus), (''theta_pc__neg'', self_theta_pc__neg),
           (''res__pos'', self_res__pos), (''res__neg'', self_res__neg),
           (''theta_u__plus'', self_theta_u__plus), (''theta_u__neg'', self_theta_u__neg),
           (''d__plus'', self_d__plus), (''d__neg'', self_d__neg)]))))))))))))))))))))))))))))"

text \<open>
  Class \<^verbatim>\<open>ModIMKPinching\<close> of \<^verbatim>\<open>uniaxial_material/other.py\<close>:
  \<^verbatim>\<open>
  def __init__(self, osi, k0, as__plus, as__neg, my__plus, my__neg, fpr_pos, fpr_neg,
               a_pinch, lamda_s, lamda_c, lamda_a, lamda_k, c_s, c_c, c_a, c_k,
               theta_p__plus, theta_p__neg, theta_pc__plus, theta_pc__neg, res__pos,
               res__neg, theta_u__plus, theta_u__neg, d__plus, d__neg)
  \<close>
\<close>

definition ModIMKPinching ::
  "pyval \<Rightarrow> pyval \<Rightarrow> pyval \<Rightarrow> pyval \<Rightarrow> pyval \<Rightarrow> pyval \<Rightarrow> pyval \<Rightarrow> pyval \<Rightarrow> pyval \<Rightarrow>
   pyval \<Rightarrow> pyval \<Rightarrow> pyval \<Rightarrow> pyval \<Rightarrow> pyval \<Rightarrow> pyval \<Rightarrow> pyval \<Rightarrow> pyval \<Rightarrow> pyval \<Rightarrow>
   pyval \<Rightarrow> pyval \<Rightarrow> pyval \<Rightarrow> pyval \<Rightarrow> pyval \<Rightarrow> pyval \<Rightarrow> pyval \<Rightarrow> pyval \<Rightarrow> pyval ctor" where
  "ModIMKPinching k0 as__plus as__neg my__plus my__neg fpr_pos fpr_neg a_pinch lamda_s lamda_c
      lamda_a lamda_k c_s c_c c_a c_k theta_p__plus theta_p__neg theta_pc__plus theta_pc__neg
      res__pos res__neg theta_u__plus theta_u__neg d__plus d__neg =
     bnd (lift (py_float k0)) (\<lambda>self_k0.
     bnd (lift (py_float as__plus)) (\<lambda>self_as__plus.
     bnd (lift (py_float as__neg)) (\<lambda>self_as__neg.
     bnd (lift (py_float my__plus)) (\<lambda>self_my__plus.
     bnd (lift (py_float my__neg)) (\<lambda>self_my__neg.
     bnd (lift (py_float fpr_pos)) (\<lambda>self_fpr_pos.
     bnd (lift (py_float fpr_neg)) (\<lambda>self_fpr_neg.
     bnd (lift (py_float a_pinch)) (\<lambda>self_a_pinch.
     bnd (lift (py_float lamda_s)) (\<lambda>self_lamda_s.
     bnd (lift (py_float lamda_c)) (\<lambda>self_lamda_c.
     bnd (lift (py_float lamda_a)) (\<lambda>self_lamda_a.
     bnd (lift (py_float lamda_k)) (\<lambda>self_lamda_k.
     bnd (lift (py_float c_s)) (\<lambda>self_c_s.
     bnd (lift (py_float c_c)) (\<lambda>self_c_c.
     bnd (lift (py_float c_a)) (\<lambda>self_c_a.
     bnd (lift (py_float c_k)) (\<lambda>self_c_k.
     bnd (lift (py_float theta_p__plus)) (\<lambda>self_theta_p__plus.
     bnd (lift (py_float theta_p__neg)) (\<lambda>self_theta_p__neg.
     bnd (lift (py_float theta_pc__plus)) (\<lambda>self_theta_pc__plus.
     bnd (lift (py_float theta_pc__neg)) (\<lambda>self_theta_pc__neg.
     bnd (lift (py_float res__pos)) (\<lambda>self_res__pos.
     bnd (lift (py_float res__neg)) (\<lambda>self_res__neg.
     bnd (lift (py_float theta_u__plus)) (\<lambda>self_theta_u__plus.
     bnd (lift (py_float theta_u__neg)) (\<lambda>self_theta_u__neg.
     bnd (lift (py_float d__plus)) (\<lambda>self_d__plus.
     bnd (lift (py_float d__neg)) (\<lambda>self_d__neg.
     bnd osi_incr_n_mat (\<lambda>_.
     bnd osi_get_n_mat (\<lambda>self_tag.
     bnd (lift
          (py_list
             [item (PStr ''ModIMKPinching''), item self_tag, item self_k0, item self_as__plus,
              item self_as__neg, item self_my__plus, item self_my__neg, item self_fpr_pos,
              item self_fpr_neg, item self_a_pinch, item self_lamda_s, item self_lamda_c,
              item self_lamda_a, item self_lamda_k, item self_c_s, item self_c_c, item self_c_a,
              item self_c_k, item self_theta_p__plus, item self_theta_p__neg,
              item self_theta_pc__plus, item self_theta_pc__neg, item self_res__pos,
              item self_res__neg, item self_theta_u__plus, item self_theta_u__neg,
              item self_d__plus, item self_d__neg])) (\<lambda>parameters.
     bnd (to_process parameters) (\<lambda>_.
     ret (OpenSeesObject self_tag parameters
          [(''k0'', self_k0), (''as__plus'', self_as__plus), (''as__neg'', self_as__neg),
           (''my__plus'', self_my__plus), (''my__neg'', self_my__neg),
           (''fpr_pos'', self_fpr_pos), (''fpr_neg'', self_fpr_neg),
           (''a_pinch'', self_a_pinch), (''lamda_s'', self_lamda_s),
           (''lamda_c'', self_lamda_c), (''lamda_a'', self_lamda_a),
           (''lamda_k'', self_lamda_k), (''c_s'', self_c_s), (''c_c'', self_c_c),
           (''c_a'', self_c_a), (''c_k'', self_c_k), (''theta_p__plus'', self_theta_p__plus),
           (''theta_p__neg'', self_theta_p__neg), (''theta_pc__plus'', self_theta_pc__plus),
           (''theta_pc__neg'', self_theta_pc__neg), (''res__pos'', self_res__pos),
           (''res__neg'', self_res__neg), (''theta_u__plus'', self_theta_u__plus),
           (''theta_u__neg'', self_theta_u__neg), (''d__plus'', self_d__plus),
           (''d__neg'', self_d__neg)])))))))))))))))))))))))))))))))"

text \<open>
  Class \<^verbatim>\<open>SAWS\<close> of \<^verbatim>\<open>uniaxial_material/other.py\<close>:
  \<^verbatim>\<open>
  def __init__(self, osi, f0, fi, du, s0, r1, r2, r3, r4, alpha, beta)
  \<close>
\<close>

definition SAWS ::
  "pyval \<Rightarrow> pyval \<Rightarrow> pyval \<Rightarrow> pyval \<Rightarrow> pyval \<Rightarrow> pyval \<Rightarrow> pyval \<Rightarrow> pyval \<Rightarrow> pyval \<Rightarrow>
   pyval \<Rightarrow> pyval ctor" where
  "SAWS f0 fi du s0 r1 r2 r3 r4 alpha beta =
     bnd (lift (py_float f0)) (\<lambda>self_f0.
     bnd (lift (py_float fi)) (\<lambda>self_fi.
     bnd (lift (py_float du)) (\<lambda>self_du.
     bnd (lift (py_float s0)) (\<lambda>self_s0.
     bnd (lift (py_float r1)) (\<lambda>self_r1.
     bnd (lift (py_float r2)) (\<lambda>self_r2.
     bnd (lift (py_float r3)) (\<lambda>self_r3.
     bnd (lift (py_float r4)) (\<lambda>self_r4.
     bnd (lift (py_float alpha)) (\<lambda>self_alpha.
     bnd (lift (py_float beta)) (\<lambda>self_beta.
     bnd osi_incr_n_mat (\<lambda>_.
     bnd osi_get_n_mat (\<lambda>self_tag.
     bnd (lift
          (py_list
             [item (PStr ''SAWS''), item self_tag, item self_f0, item self_fi, item self_du,
              item self_s0, item self_r1, item self_r2, item self_r3, item self_r4,
              item self_alpha, item self_beta])) (\<lambda>parameters.
     bnd (to_process parameters) (\<lambda>_.
     ret (OpenSeesObject self_tag parameters
          [(''f0'', self_f0), (''fi'', self_fi), (''du'', self_du), (''s0'', self_s0),
           (''r1'', self_r1), (''r2'', self_r2), (''r3'', self_r3), (''r4'', self_r4),
           (''alpha'', self_alpha), (''beta'', self_beta)])))))))))))))))"

text \<open>
  Class \<^verbatim>\<open>BarSlip\<close> of \<^verbatim>\<open>uniaxial_material/other.py\<close>:
  \<^verbatim>\<open>
  def __init__(self, osi, fc, fy, es, fu, eh, db, ld, nb, depth, height, bs_flag,
               otype, anc_lratio=1.0, damage='Damage', unit='psi')
  \<close>
\<close>

definition BarSlip ::
  "pyval \<Rightarrow> pyval \<Rightarrow> pyval \<Rightarrow> pyval \<Rightarrow> pyval \<Rightarrow> pyval \<Rightarrow> pyval \<Rightarrow> pyval \<Rightarrow> pyval \<Rightarrow>
   pyval \<Rightarrow> pyval \<Rightarrow> pyval \<Rightarrow> pyval \<Rightarrow> pyval \<Rightarrow> pyval \<Rightarrow> pyval ctor" where
  "BarSlip fc fy es fu eh db ld nb depth height bs_flag otype anc_lratio damage unit =
     bnd (lift (py_float fc)) (\<lambda>self_fc.
     bnd (lift (py_float fy)) (\<lambda>self_fy.
     bnd (lift (py_float es)) (\<lambda>self_es.
     bnd (lift (py_float fu)) (\<lambda>self_fu.
     bnd (lift (py_float eh)) (\<lambda>self_eh.
     bnd (lift (py_float db)) (\<lambda>self_db.
     bnd (lift (py_float ld)) (\<lambda>self_ld.
     bnd (lift (py_int nb)) (\<lambda>self_nb.
     bnd (lift (py_float depth)) (\<lambda>self_depth.
     bnd (lift (py_float height)) (\<lambda>self_height.
     bnd (lift (py_float anc_lratio)) (\<lambda>self_anc_lratio.
     bnd (ret bs_flag) (\<lambda>self_bs_flag.
     bnd (ret otype) (\<lambda>self_otype.
     bnd (ret damage) (\<lambda>self_damage.
     bnd (ret unit) (\<lambda>self_unit.
     bnd osi_incr_n_mat (\<lambda>_.
     bnd osi_get_n_mat (\<lambda>self_tag.
     bnd (lift
          (py_list
             [item (PStr ''BarSlip''), item self_tag, item self_fc, item self_fy, item self_es,
              item self_fu, item self_eh, item self_db, item self_ld, item self_nb,
              item self_depth, item self_height, item self_anc_lratio, item self_bs_flag,
              item self_otype, item self_damage, item self_unit])) (\<lambda>parameters.
     bnd (to_process parameters) (\<lambda>_.
     ret (OpenSeesObject self_tag parameters
          [(''fc'', self_fc), (''fy'', self_fy), (''es'', self_es), (''fu'', self_fu),
           (''eh'', self_eh), (''db'', self_db), (''ld'', self_ld), (''nb'', self_nb),
           (''depth'', self_depth), (''height'', self_height),
           (''anc_lratio'', self_anc_lratio), (''bs_flag'', self_bs_flag),
           (''otype'', self_otype), (''damage'', self_damage), (''unit'', self_unit)]))))))))))))))))))))"

text \<open>
  Class \<^verbatim>\<open>BondSP01\<close> of \<^verbatim>\<open>uniaxial_material/other.py\<close>:
  \<^verbatim>\<open>
  def __init__(self, osi, fy, sy, fu, su, b, big_r)
  \<close>
\<close>

definition BondSP01 :: "pyval \<Rightarrow> pyval \<Rightarrow> pyval \<Rightarrow> pyval \<Rightarrow> pyval \<Rightarrow> pyval \<Rightarrow> pyval ctor" where
  "BondSP01 fy sy fu su b big_r =
     bnd (lift (py_float fy)) (\<lambda>self_fy.
     bnd (lift (py_float sy)) (\<lambda>self_sy.
     bnd (lift (py_float fu)) (\<lambda>self_fu.
     bnd (lift (py_float su)) (\<lambda>self_su.
     bnd (lift (py_float b)) (\<lambda>self_b.
     bnd (lift (py_float big_r)) (\<lambda>self_big_r.
     bnd osi_incr_n_mat (\<lambda>_.
     bnd osi_get_n_mat (\<lambda>self_tag.
     bnd (lift
          (py_list
             [item (PStr ''Bond_SP01''), item self_tag, item self_fy, item self_sy,
              item self_fu, item self_su, item self_b, item self_big_r])) (\<lambda>parameters.
     bnd (to_process parameters) (\<lambda>_.
     ret (OpenSeesObject self_tag parameters
          [(''fy'', self_fy), (''sy'', self_sy), (''fu'', self_fu), (''su'', self_su),
           (''b'', self_b), (''big_r'', self_big_r)])))))))))))"

text \<open>
  Class \<^verbatim>\<open>Fatigue\<close> of \<^verbatim>\<open>uniaxial_material/other.py\<close>:
  \<^verbatim>\<open>
  def __init__(self, osi, other, e0=None, m=None, min=None, max=None)
  \<close>
\<close>

definition Fatigue :: "pyval \<Rightarrow> pyval \<Rightarrow> pyval \<Rightarrow> pyval \<Rightarrow> pyval \<Rightarrow> pyval ctor" where
  "Fatigue other e0 m min' max' =
     bnd (ret other) (\<lambda>self_other.
     bnd (lift (if e0 = PNone then Inr PNone else py_float e0)) (\<lambda>self_e0.
     bnd (lift (if m = PNone then Inr PNone else py_float m)) (\<lambda>self_m.
     bnd (lift (if min' = PNone then Inr PNone else py_float min')) (\<lambda>self_min.
     bnd (lift (if max' = PNone then Inr PNone else py_float max')) (\<lambda>self_max.
     bnd osi_incr_n_mat (\<lambda>_.
     bnd osi_get_n_mat (\<lambda>self_tag.
     bnd (lift
          (py_list
             [item (PStr ''Fatigue''), item self_tag, attr_tag self_other])) (\<lambda>parameters.
     bnd (lift (if self_e0 \<noteq> PNone
               then py_iadd parameters (py_list [item (PStr ''-E0''), item self_e0])
               else Inr parameters)) (\<lambda>parameters.
     bnd (lift (if self_m \<noteq> PNone
               then py_iadd parameters (py_list [item (PStr ''-m''), item self_m])
               else Inr parameters)) (\<lambda>parameters.
     bnd (lift (if self_min \<noteq> PNone
               then py_iadd parameters (py_list [item (PStr ''-min''), item self_min])
               else Inr parameters)) (\<lambda>parameters.
     bnd (lift (if self_max \<noteq> PNone
               then py_iadd parameters (py_list [item (PStr ''-max''), item self_max])
               else Inr parameters)) (\<lambda>parameters.
     bnd (to_process parameters) (\<lambda>_.
     ret (OpenSeesObject self_tag parameters
          [(''other'', self_other), (''e0'', self_e0), (''m'', self_m), (''min'', self_min),
           (''max'', self_max)]))))))))))))))"

text \<open>
  Class \<^verbatim>\<open>ImpactMaterial\<close> of \<^verbatim>\<open>uniaxial_material/other.py\<close>:
  \<^verbatim>\<open>
  def __init__(self, osi, k1, k2, sigy, gap)
  \<close>
\<close>

definition ImpactMaterial :: "pyval \<Rightarrow> pyval \<Rightarrow> pyval \<Rightarrow> pyval \<Rightarrow> pyval ctor" where
  "ImpactMaterial k1 k2 sigy gap =
     bnd (lift (py_float k1)) (\<lambda>self_k1.
     bnd (lift (py_float k2)) (\<lambda>self_k2.
     bnd (lift (py_float sigy)) (\<lambda>self_sigy.
     bnd (lift (py_float gap)) (\<lambda>self_gap.
     bnd osi_incr_n_mat (\<lambda>_.
     bnd osi_get_n_mat (\<lambda>self_tag.
     bnd (lift
          (py_list
             [item (PStr ''ImpactMaterial''), item self_tag, item self_k1, item self_k2,
              item self_sigy, item self_gap])) (\<lambda>parameters.
     bnd (to_process parameters) (\<lambda>_.
     ret (OpenSeesObject self_tag parameters
          [(''k1'', self_k1), (''k2'', self_k2), (''sigy'', self_sigy), (''gap'', self_gap)])))))))))"

text \<open>
  Class \<^verbatim>\<open>HyperbolicGapMaterial\<close> of \<^verbatim>\<open>uniaxial_material/other.py\<close>:
  \<^verbatim>\<open>
  def __init__(self, osi, kmax, kur, rf, fult, gap)
  \<close>
\<close>

definition HyperbolicGapMaterial :: "pyval \<Rightarrow> pyval \<Rightarrow> pyval \<Rightarrow> pyval \<Rightarrow> pyval \<Rightarrow> pyval ctor" where
  "HyperbolicGapMaterial kmax kur rf fult gap =
     bnd (lift (py_float kmax)) (\<lambda>self_kmax.
     bnd (lift (py_float kur)) (\<lambda>self_kur.
     bnd (lift (py_float rf)) (\<lambda>self_rf.
     bnd (lift (py_float fult)) (\<lambda>self_fult.
     bnd (lift (py_float gap)) (\<lambda>self_gap.
     bnd osi_incr_n_mat (\<lambda>_.
     bnd osi_get_n_mat (\<lambda>self_tag.
     bnd (lift
          (py_list
             [item (PStr ''HyperbolicGapMaterial''), item self_tag, item self_kmax,
              item self_kur, item self_rf, item self_fult, item self_gap])) (\<lambda>parameters.
     bnd (to_process parameters) (\<lambda>_.
     ret (OpenSeesObject self_tag parameters
          [(''kmax'', self_kmax), (''kur'', self_kur), (''rf'', self_rf), (''fult'', self_fult),
           (''gap'', self_gap)]))))))))))"

text \<open>
  Class \<^verbatim>\<open>LimitState\<close> of \<^verbatim>\<open>uniaxial_material/other.py\<close>:
  \<^verbatim>\<open>
  def __init__(self, osi, s1p, e1p, s2p, e2p, s3p, e3p, s1n, e1n, s2n, e2n, s3n, e3n,
               pinch_x, pinch_y, damage1, damage2, beta, curve, curve_type)
  \<close>
\<close>

definition LimitState ::
  "pyval \<Rightarrow> pyval \<Rightarrow> pyval \<Rightarrow> pyval \<Rightarrow> pyval \<Rightarrow> pyval \<Rightarrow> pyval \<Rightarrow> pyval \<Rightarrow> pyval \<Rightarrow>
   pyval \<Rightarrow> pyval \<Rightarrow> pyval \<Rightarrow> pyval \<Rightarrow> pyval \<Rightarrow> pyval \<Rightarrow> pyval \<Rightarrow> pyval \<Rightarrow> pyval \<Rightarrow>
   pyval \<Rightarrow> pyval ctor" where
  "LimitState s1p e1p s2p e2p s3p e3p s1n e1n s2n e2n s3n e3n pinch_x pinch_y damage1 damage2
      beta curve curve_type =
     bnd (lift (py_float s1p)) (\<lambda>self_s1p.
     bnd (lift (py_float e1p)) (\<lambda>self_e1p.
     bnd (lift (py_float s2p)) (\<lambda>self_s2p.
     bnd (lift (py_float e2p)) (\<lambda>self_e2p.
     bnd (lift (py_float s3p)) (\<lambda>self_s3p.
     bnd (lift (py_float e3p)) (\<lambda>self_e3p.
     bnd (lift (py_float s1n)) (\<lambda>self_s1n.
     bnd (lift (py_float e1n)) (\<lambda>self_e1n.
     bnd (lift (py_float s2n)) (\<lambda>self_s2n.
     bnd (lift (py_float e2n)) (\<lambda>self_e2n.
     bnd (lift (py_float s3n)) (\<lambda>self_s3n.
     bnd (lift (py_float e3n)) (\<lambda>self_e3n.
     bnd (lift (py_float pinch_x)) (\<lambda>self_pinch_x.
     bnd (lift (py_float pinch_y)) (\<lambda>self_pinch_y.
     bnd (lift (py_float damage1)) (\<lambda>self_damage1.
     bnd (lift (py_float damage2)) (\<lambda>self_damage2.
     bnd (lift (py_float beta)) (\<lambda>self_beta.
     bnd (ret curve) (\<lambda>self_curve.
     bnd (lift (py_int curve_type)) (\<lambda>self_curve_type.
     bnd osi_incr_n_mat (\<lambda>_.
     bnd osi_get_n_mat (\<lambda>self_tag.
     bnd (lift
          (py_list
             [item (PStr ''LimitState''), item self_tag, item self_s1p, item self_e1p,
              item self_s2p, item self_e2p, item self_s3p, item self_e3p, item self_s1n,
              item self_e1n, item self_s2n, item self_e2n, item self_s3n, item self_e3n,
              item self_pinch_x, item self_pinch_y, item self_damage1, item self_damage2,
              item self_beta, attr_tag self_curve, item self_curve_type])) (\<lambda>parameters.
     bnd (to_process parameters) (\<lambda>_.
     ret (OpenSeesObject self_tag parameters
          [(''s1p'', self_s1p), (''e1p'', self_e1p), (''s2p'', self_s2p), (''e2p'', self_e2p),
           (''s3p'', self_s3p), (''e3p'', self_e3p), (''s1n'', self_s1n), (''e1n'', self_e1n),
           (''s2n'', self_s2n), (''e2n'', self_e2n), (''s3n'', self_s3n), (''e3n'', self_e3n),
           (''pinch_x'', self_pinch_x), (''pinch_y'', self_pinch_y),
           (''damage1'', self_damage1), (''damage2'', self_damage2), (''beta'', self_beta),
           (''curve'', self_curve), (''curve_type'', self_curve_type)]))))))))))))))))))))))))"

text \<open>
  Class \<^verbatim>\<open>MinMax\<close> of \<^verbatim>\<open>uniaxial_material/other.py\<close>:
  \<^verbatim>\<open>
  def __init__(self, osi, other, min_strain=None, max_strain=None)
  \<close>
\<close>

definition MinMax :: "pyval \<Rightarrow> pyval \<Rightarrow> pyval \<Rightarrow> pyval ctor" where
  "MinMax other min_strain max_strain =
     bnd (ret other) (\<lambda>self_other.
     bnd (lift (if min_strain = PNone then Inr PNone else py_float min_strain)) (\<lambda>self_min_strain.
     bnd (lift (if max_strain = PNone then Inr PNone else py_float max_strain)) (\<lambda>self_max_strain.
     bnd osi_incr_n_mat (\<lambda>_.
     bnd osi_get_n_mat (\<lambda>self_tag.
     bnd (lift (py_list [item (PStr ''MinMax''), item self_tag, attr_tag self_other])) (\<lambda>parameters.
     bnd (lift (if self_min_strain \<noteq> PNone
               then py_iadd parameters (py_list [item (PStr ''-min''), item self_min_strain])
               else Inr parameters)) (\<lambda>parameters.
     bnd (lift (if self_max_strain \<noteq> PNone
               then py_iadd parameters (py_list [item (PStr ''-max''), item self_max_strain])
               else Inr parameters)) (\<lambda>parameters.
     bnd (to_process parameters) (\<lambda>_.
     ret (OpenSeesObject self_tag parameters
          [(''other'', self_other), (''min_strain'', self_min_strain),
           (''max_strain'', self_max_strain)]))))))))))"

text \<open>
  Class \<^verbatim>\<open>ElasticBilin\<close> of \<^verbatim>\<open>uniaxial_material/other.py\<close>:
  \<^verbatim>\<open>
  def __init__(self, osi, ep1, ep2, eps_p2, en1=None, en2=None, eps_n2=None)
  \<close>
\<close>

definition ElasticBilin :: "pyval \<Rightarrow> pyval \<Rightarrow> pyval \<Rightarrow> pyval \<Rightarrow> pyval \<Rightarrow> pyval \<Rightarrow> pyval ctor" where
  "ElasticBilin ep1 ep2 eps_p2 en1 en2 eps_n2 =
     bnd (lift (py_float ep1)) (\<lambda>self_ep1.
     bnd (lift (py_float ep2)) (\<lambda>self_ep2.
     bnd (lift (py_float eps_p2)) (\<lambda>self_eps_p2.
     bnd (lift (if en1 = PNone then Inr PNone else py_float en1)) (\<lambda>self_en1.
     bnd (lift (if en2 = PNone then Inr PNone else py_float en2)) (\<lambda>self_en2.
     bnd (lift (if eps_n2 = PNone then Inr PNone else py_float eps_n2)) (\<lambda>self_eps_n2.
     bnd osi_incr_n_mat (\<lambda>_.
     bnd osi_get_n_mat (\<lambda>self_tag.
     bnd (lift
          (py_list
             [item (PStr ''ElasticBilin''), item self_tag, item self_ep1, item self_ep2,
              item self_eps_p2])) (\<lambda>parameters.
     bnd (lift (special_pms_break
          [(self_en1, False), (self_en2, False), (self_eps_n2, False)]
          parameters)) (\<lambda>parameters.
     bnd (to_process parameters) (\<lambda>_.
     ret (OpenSeesObject self_tag parameters
          [(''ep1'', self_ep1), (''ep2'', self_ep2), (''eps_p2'', self_eps_p2),
           (''en1'', self_en1), (''en2'', self_en2), (''eps_n2'', self_eps_n2)]))))))))))))"

text \<open>
  Class \<^verbatim>\<open>ElasticMultiLinear\<close> of \<^verbatim>\<open>uniaxial_material/other.py\<close>:
  \<^verbatim>\<open>
  def __init__(self, osi, eta=0.0, strain=None, stress=None)
  \<close>
\<close>

definition ElasticMultiLinear :: "pyval \<Rightarrow> pyval \<Rightarrow> pyval \<Rightarrow> pyval ctor" where
  "ElasticMultiLinear eta strain stress =
     bnd (lift (py_float eta)) (\<lambda>self_eta.
     bnd (ret strain) (\<lambda>self_strain.
     bnd (ret stress) (\<lambda>self_stress.
     bnd osi_incr_n_mat (\<lambda>_.
     bnd osi_get_n_mat (\<lambda>self_tag.
     bnd (lift
          (py_list
             [item (PStr ''ElasticMultiLinear''), item self_tag, item self_eta])) (\<lambda>parameters.
     bnd (lift (if self_strain \<noteq> PNone
               then py_iadd parameters (py_list [item (PStr ''-strain''), star self_strain])
               else Inr parameters)) (\<lambda>parameters.
     bnd (lift (if self_stress \<noteq> PNone
               then py_iadd parameters (py_list [item (PStr ''-stress''), star self_stress])
               else Inr parameters)) (\<lambda>parameters.
     bnd (to_process parameters) (\<lambda>_.
     ret (OpenSeesObject self_tag parameters
          [(''eta'', self_eta), (''strain'', self_strain), (''stress'', self_stress)]))))))))))"

text \<open>
  Class \<^verbatim>\<open>MultiLinear\<close> of \<^verbatim>\<open>uniaxial_material/other.py\<close>:
  \<^verbatim>\<open>
  def __init__(self, osi, pts)
  \<close>
\<close>

definition MultiLinear :: "pyval \<Rightarrow> pyval ctor" where
  "MultiLinear pts =
     bnd (ret pts) (\<lambda>self_pts.
     bnd osi_incr_n_mat (\<lambda>_.
     bnd osi_get_n_mat (\<lambda>self_tag.
     bnd (lift (py_list [item (PStr ''MultiLinear''), item self_tag, star self_pts])) (\<lambda>parameters.
     bnd (to_process parameters) (\<lambda>_.
     ret (OpenSeesObject self_tag parameters
          [(''pts'', self_pts)]))))))"

text \<open>
  Class \<^verbatim>\<open>InitStrainMaterial\<close> of \<^verbatim>\<open>uniaxial_material/other.py\<close>:
  \<^verbatim>\<open>
  def __init__(self, osi, other, init_strain)
  \<close>
\<close>

definition InitStrainMaterial :: "pyval \<Rightarrow> pyval \<Rightarrow> pyval ctor" where
  "InitStrainMaterial other init_strain =
     bnd (ret other) (\<lambda>self_other.
     bnd (lift (py_float init_strain)) (\<lambda>self_init_strain.
     bnd osi_incr_n_mat (\<lambda>_.
     bnd osi_get_n_mat (\<lambda>self_tag.
     bnd (lift
          (py_list
             [item (PStr ''InitStrainMaterial''), item self_tag, attr_tag self_other,
              item self_init_strain])) (\<lambda>parameters.
     bnd (to_process parameters) (\<lambda>_.
     ret (OpenSeesObject self_tag parameters
          [(''other'', self_other), (''init_strain'', self_init_strain)])))))))"

text \<open>
  Class \<^verbatim>\<open>InitStressMaterial\<close> of \<^verbatim>\<open>uniaxial_material/other.py\<close>:
  \<^verbatim>\<open>
  def __init__(self, osi, other, init_stress)
  \<close>
\<close>

definition InitStressMaterial :: "pyval \<Rightarrow> pyval \<Rightarrow> pyval ctor" where
  "InitStressMaterial other init_stress =
     bnd (ret other) (\<lambda>self_other.
     bnd (lift (py_float init_stress)) (\<lambda>self_init_stress.
     bnd osi_incr_n_mat (\<lambda>_.
     bnd osi_get_n_mat (\<lambda>self_tag.
     bnd (lift
          (py_list
             [item (PStr ''InitStressMaterial''), item self_tag, attr_tag self_other,
              item self_init_stress])) (\<lambda>parameters.
     bnd (to_process parameters) (\<lambda>_.
     ret (OpenSeesObject self_tag parameters
          [(''other'', self_other), (''init_stress'', self_init_stress)])))))))"

text \<open>
  Class \<^verbatim>\<open>PathIndependent\<close> of \<^verbatim>\<open>uniaxial_material/other.py\<close>:
  \<^verbatim>\<open>
  def __init__(self, osi, other)
  \<close>
\<close>

definition PathIndependent :: "pyval \<Rightarrow> pyval ctor" where
  "PathIndependent other =
     bnd (ret other) (\<lambda>self_other.
     bnd osi_incr_n_mat (\<lambda>_.
     bnd osi_get_n_mat (\<lambda>self_tag.
     bnd (lift
          (py_list
             [item (PStr ''PathIndependent''), item self_tag, attr_tag self_other])) (\<lambda>parameters.
     bnd (to_process parameters) (\<lambda>_.
     ret (OpenSeesObject self_tag parameters
          [(''other'', self_other)]))))))"

text \<open>
  Class \<^verbatim>\<open>ECC01\<close> of \<^verbatim>\<open>uniaxial_material/other.py\<close>:
  \<^verbatim>\<open>
  def __init__(self, osi, sigt0, epst0, sigt1, epst1, epst2, sigc0, epsc0, epsc1,
               alpha_t1, alpha_t2, alpha_c, alpha_cu, beta_t, beta_c)
  \<close>
\<close>

definition ECC01 ::
  "pyval \<Rightarrow> pyval \<Rightarrow> pyval \<Rightarrow> pyval \<Rightarrow> pyval \<Rightarrow> pyval \<Rightarrow> pyval \<Rightarrow> pyval \<Rightarrow> pyval \<Rightarrow>
   pyval \<Rightarrow> pyval \<Rightarrow> pyval \<Rightarrow> pyval \<Rightarrow> pyval \<Rightarrow> pyval ctor" where
  "ECC01 sigt0 epst0 sigt1 epst1 epst2 sigc0 epsc0 epsc1 alpha_t1 alpha_t2 alpha_c alpha_cu
      beta_t beta_c =
     bnd (lift (py_float sigt0)) (\<lambda>self_sigt0.
     bnd (lift (py_float epst0)) (\<lambda>self_epst0.
     bnd (lift (py_float sigt1)) (\<lambda>self_sigt1.
     bnd (lift (py_float epst1)) (\<lambda>self_epst1.
     bnd (lift (py_float epst2)) (\<lambda>self_epst2.
     bnd (lift (py_float sigc0)) (\<lambda>self_sigc0.
     bnd (lift (py_float epsc0)) (\<lambda>self_epsc0.
     bnd (lift (py_float epsc1)) (\<lambda>self_epsc1.
     bnd (lift (py_float alpha_t1)) (\<lambda>self_alpha_t1.
     bnd (lift (py_float alpha_t2)) (\<lambda>self_alpha_t2.
     bnd (lift (py_float alpha_c)) (\<lambda>self_alpha_c.
     bnd (lift (py_float alpha_cu)) (\<lambda>self_alpha_cu.
     bnd (lift (py_float beta_t)) (\<lambda>self_beta_t.
     bnd (lift (py_float beta_c)) (\<lambda>self_beta_c.
     bnd osi_incr_n_mat (\<lambda>_.
     bnd osi_get_n_mat (\<lambda>self_tag.
     bnd (lift
          (py_list
             [item (PStr ''ECC01''), item self_tag, item self_sigt0, item self_epst0,
              item self_sigt1, item self_epst1, item self_epst2, item self_sigc0,
              item self_epsc0, item self_epsc1, item self_alpha_t1, item self_alpha_t2,
              item self_alpha_c, item self_alpha_cu, item self_beta_t, item self_beta_c])) (\<lambda>parameters.
     bnd (to_process parameters) (\<lambda>_.
     ret (OpenSeesObject self_tag parameters
          [(''sigt0'', self_sigt0), (''epst0'', self_epst0), (''sigt1'', self_sigt1),
           (''epst1'', self_epst1), (''epst2'', self_epst2), (''sigc0'', self_sigc0),
           (''epsc0'', self_epsc0), (''epsc1'', self_epsc1), (''alpha_t1'', self_alpha_t1),
           (''alpha_t2'', self_alpha_t2), (''alpha_c'', self_alpha_c),
           (''alpha_cu'', self_alpha_cu), (''beta_t'', self_beta_t), (''beta_c'', self_beta_c)])))))))))))))))))))"

text \<open>
  Class \<^verbatim>\<open>SelfCentering\<close> of \<^verbatim>\<open>uniaxial_material/other.py\<close>:
  \<^verbatim>\<open>
  def __init__(self, osi, k1, k2, sig_act, beta, eps_slip=0, eps_bear=0, r_bear=None)
  \<close>
\<close>

definition SelfCentering :: "pyval \<Rightarrow> pyval \<Rightarrow> pyval \<Rightarrow> pyval \<Rightarrow> pyval \<Rightarrow> pyval \<Rightarrow> pyval \<Rightarrow> pyval ctor" where
  "SelfCentering k1 k2 sig_act beta eps_slip eps_bear r_bear =
     bnd (lift (py_float k1)) (\<lambda>self_k1.
     bnd (lift (py_float k2)) (\<lambda>self_k2.
     bnd (lift (py_float sig_act)) (\<lambda>self_sig_act.
     bnd (lift (py_float beta)) (\<lambda>self_beta.
     bnd (lift (py_float eps_slip)) (\<lambda>self_eps_slip.
     bnd (lift (py_float eps_bear)) (\<lambda>self_eps_bear.
     bnd (lift (if r_bear = PNone then Inr PNone else py_float r_bear)) (\<lambda>self_r_bear.
     bnd osi_incr_n_mat (\<lambda>_.
     bnd osi_get_n_mat (\<lambda>self_tag.
     bnd (lift
          (py_list
             [item (PStr ''SelfCentering''), item self_tag, item self_k1, item self_k2,
              item self_sig_act, item self_beta, item self_eps_slip, item self_eps_bear])) (\<lambda>parameters.
     bnd (lift (special_pms_break [(self_r_bear, False)] parameters)) (\<lambda>parameters.
     bnd (to_process parameters) (\<lambda>_.
     ret (OpenSeesObject self_tag parameters
          [(''k1'', self_k1), (''k2'', self_k2), (''sig_act'', self_sig_act),
           (''beta'', self_beta), (''eps_slip'', self_eps_slip), (''eps_bear'', self_eps_bear),
           (''r_bear'', self_r_bear)])))))))))))))"

text \<open>
  Class \<^verbatim>\<open>Viscous\<close> of \<^verbatim>\<open>uniaxial_material/other.py\<close>:
  \<^verbatim>\<open>
  def __init__(self, osi, big_c, alpha)
  \<close>
\<close>

definition Viscous :: "pyval \<Rightarrow> pyval \<Rightarrow> pyval ctor" where
  "Viscous big_c alpha =
     bnd (lift (py_float big_c)) (\<lambda>self_big_c.
     bnd (lift (py_float alpha)) (\<lambda>self_alpha.
     bnd osi_incr_n_mat (\<lambda>_.
     bnd osi_get_n_mat (\<lambda>self_tag.
     bnd (lift
          (py_list
             [item (PStr ''Viscous''), item self_tag, item self_big_c, item self_alpha])) (\<lambda>parameters.
     bnd (to_process parameters) (\<lambda>_.
     ret (OpenSeesObject self_tag parameters
          [(''big_c'', self_big_c), (''alpha'', self_alpha)])))))))"

text \<open>
  Class \<^verbatim>\<open>BoucWen\<close> of \<^verbatim>\<open>uniaxial_material/other.py\<close>:
  \<^verbatim>\<open>
  def __init__(self, osi, alpha, ko, n, gamma, beta, ao, delta_a, delta_nu, delta_eta)
  \<close>
\<close>

definition BoucWen ::
  "pyval \<Rightarrow> pyval \<Rightarrow> pyval \<Rightarrow> pyval \<Rightarrow> pyval \<Rightarrow> pyval \<Rightarrow> pyval \<Rightarrow> pyval \<Rightarrow> pyval \<Rightarrow>
   pyval ctor" where
  "BoucWen alpha ko n gamma beta ao delta_a delta_nu delta_eta =
     bnd (lift (py_float alpha)) (\<lambda>self_alpha.
     bnd (lift (py_float ko)) (\<lambda>self_ko.
     bnd (lift (py_float n)) (\<lambda>self_n.
     bnd (lift (py_float gamma)) (\<lambda>self_gamma.
     bnd (lift (py_float beta)) (\<lambda>self_beta.
     bnd (lift (py_float ao)) (\<lambda>self_ao.
     bnd (lift (py_float delta_a)) (\<lambda>self_delta_a.
     bnd (lift (py_float delta_nu)) (\<lambda>self_delta_nu.
     bnd (lift (py_float delta_eta)) (\<lambda>self_delta_eta.
     bnd osi_incr_n_mat (\<lambda>_.
     bnd osi_get_n_mat (\<lambda>self_tag.
     bnd (lift
          (py_list
             [item (PStr ''BoucWen''), item self_tag, item self_alpha, item self_ko,
              item self_n, item self_gamma, item self_beta, item self_ao, item self_delta_a,
              item self_delta_nu, item self_delta_eta])) (\<lambda>parameters.
     bnd (to_process parameters) (\<lambda>_.
     ret (OpenSeesObject self_tag parameters
          [(''alpha'', self_alpha), (''ko'', self_ko), (''n'', self_n), (''gamma'', self_gamma),
           (''beta'', self_beta), (''ao'', self_ao), (''delta_a'', self_delta_a),
           (''delta_nu'', self_delta_nu), (''delta_eta'', self_delta_eta)]))))))))))))))"

text \<open>
  Class \<^verbatim>\<open>BWBN\<close> of \<^verbatim>\<open>uniaxial_material/other.py\<close>:
  \<^verbatim>\<open>
  def __init__(self, osi, alpha, ko, n, gamma, beta, ao, q, zetas, p, shi, delta_shi,
               lamb, tol, max_iter)
  \<close>
\<close>

definition BWBN ::
  "pyval \<Rightarrow> pyval \<Rightarrow> pyval \<Rightarrow> pyval \<Rightarrow> pyval \<Rightarrow> pyval \<Rightarrow> pyval \<Rightarrow> pyval \<Rightarrow> pyval \<Rightarrow>
   pyval \<Rightarrow> pyval \<Rightarrow> pyval \<Rightarrow> pyval \<Rightarrow> pyval \<Rightarrow> pyval ctor" where
  "BWBN alpha ko n gamma beta ao q zetas p shi delta_shi lamb tol max_iter =
     bnd (lift (py_float alpha)) (\<lambda>self_alpha.
     bnd (lift (py_float ko)) (\<lambda>self_ko.
     bnd (lift (py_float n)) (\<lambda>self_n.
     bnd (lift (py_float gamma)) (\<lambda>self_gamma.
     bnd (lift (py_float beta)) (\<lambda>self_beta.
     bnd (lift (py_float ao)) (\<lambda>self_ao.
     bnd (lift (py_float q)) (\<lambda>self_q.
     bnd (lift (py_float zetas)) (\<lambda>self_zetas.
     bnd (lift (py_float p)) (\<lambda>self_p.
     bnd (lift (py_float shi)) (\<lambda>self_shi.
     bnd (lift (py_float delta_shi)) (\<lambda>self_delta_shi.
     bnd (lift (py_float lamb)) (\<lambda>self_lamb.
     bnd (lift (py_float tol)) (\<lambda>self_tol.
     bnd (lift (py_float max_iter)) (\<lambda>self_max_iter.
     bnd osi_incr_n_mat (\<lambda>_.
     bnd osi_get_n_mat (\<lambda>self_tag.
     bnd (lift
          (py_list
             [item (PStr ''BWBN''), item self_tag, item self_alpha, item self_ko, item self_n,
              item self_gamma, item self_beta, item self_ao, item self_q, item self_zetas,
              item self_p, item self_shi, item self_delta_shi, item self_lamb, item self_tol,
              item self_max_iter])) (\<lambda>parameters.
     bnd (to_process parameters) (\<lambda>_.
     ret (OpenSeesObject self_tag parameters
          [(''alpha'', self_alpha), (''ko'', self_ko), (''n'', self_n), (''gamma'', self_gamma),
           (''beta'', self_beta), (''ao'', self_ao), (''q'', self_q), (''zetas'', self_zetas),
           (''p'', self_p), (''shi'', self_shi), (''delta_shi'', self_delta_shi),
           (''lamb'', self_lamb), (''tol'', self_tol), (''max_iter'', self_max_iter)])))))))))))))))))))"

text \<open>
  Class \<^verbatim>\<open>AxialSp\<close> of \<^verbatim>\<open>uniaxial_material/other.py\<close>:
  \<^verbatim>\<open>
  def __init__(self, osi, sce, fty, fcy, bte, bty, bcy, fcr)
  \<close>
\<close>

definition AxialSp :: "pyval \<Rightarrow> pyval \<Rightarrow> pyval \<Rightarrow> pyval \<Rightarrow> pyval \<Rightarrow> pyval \<Rightarrow> pyval \<Rightarrow> pyval ctor" where
  "AxialSp sce fty fcy bte bty bcy fcr =
     bnd (lift (py_float sce)) (\<lambda>self_sce.
     bnd (lift (py_float fty)) (\<lambda>self_fty.
     bnd (lift (py_float fcy)) (\<lambda>self_fcy.
     bnd (lift (py_float bte)) (\<lambda>self_bte.
     bnd (lift (py_float bty)) (\<lambda>self_bty.
     bnd (lift (py_float bcy)) (\<lambda>self_bcy.
     bnd (lift (py_float fcr)) (\<lambda>self_fcr.
     bnd osi_incr_n_mat (\<lambda>_.
     bnd osi_get_n_mat (\<lambda>self_tag.
     bnd (lift
          (py_list
             [item (PStr ''AxialSp''), item self_tag, item self_sce, item self_fty,
              item self_fcy, item self_bte, item self_bty, item self_bcy, item self_fcr])) (\<lambda>parameters.
     bnd (to_process parameters) (\<lambda>_.
     ret (OpenSeesObject self_tag parameters
          [(''sce'', self_sce), (''fty'', self_fty), (''fcy'', self_fcy), (''bte'', self_bte),
           (''bty'', self_bty), (''bcy'', self_bcy), (''fcr'', self_fcr)]))))))))))))"

text \<open>
  Class \<^verbatim>\<open>AxialSpHD\<close> of \<^verbatim>\<open>uniaxial_material/other.py\<close>:
  \<^verbatim>\<open>
  def __init__(self, osi, sce, fty, fcy, bte, bty, bth, bcy, fcr, ath)
  \<close>
\<close>

definition AxialSpHD ::
  "pyval \<Rightarrow> pyval \<Rightarrow> pyval \<Rightarrow> pyval \<Rightarrow> pyval \<Rightarrow> pyval \<Rightarrow> pyval \<Rightarrow> pyval \<Rightarrow> pyval \<Rightarrow>
   pyval ctor" where
  "AxialSpHD sce fty fcy bte bty bth bcy fcr ath =
     bnd (lift (py_float sce)) (\<lambda>self_sce.
     bnd (lift (py_float fty)) (\<lambda>self_fty.
     bnd (lift (py_float fcy)) (\<lambda>self_fcy.
     bnd (lift (py_float bte)) (\<lambda>self_bte.
     bnd (lift (py_float bty)) (\<lambda>self_bty.
     bnd (lift (py_float bth)) (\<lambda>self_bth.
     bnd (lift (py_float bcy)) (\<lambda>self_bcy.
     bnd (lift (py_float fcr)) (\<lambda>self_fcr.
     bnd (lift (py_float ath)) (\<lambda>self_ath.
     bnd osi_incr_n_mat (\<lambda>_.
     bnd osi_get_n_mat (\<lambda>self_tag.
     bnd (lift
          (py_list
             [item (PStr ''AxialSpHD''), item self_tag, item self_sce, item self_fty,
              item self_fcy, item self_bte, item self_bty, item self_bth, item self_bcy,
              item self_fcr, item self_ath])) (\<lambda>parameters.
     bnd (to_process parameters) (\<lambda>_.
     ret (OpenSeesObject self_tag parameters
          [(''sce'', self_sce), (''fty'', self_fty), (''fcy'', self_fcy), (''bte'', self_bte),
           (''bty'', self_bty), (''bth'', self_bth), (''bcy'', self_bcy), (''fcr'', self_fcr),
           (''ath'', self_ath)]))))))))))))))"

text \<open>
  Class \<^verbatim>\<open>CFSWSWP\<close> of \<^verbatim>\<open>uniaxial_material/other.py\<close>:
  \<^verbatim>\<open>
  def __init__(self, osi, height, width, fut, tf, ife, ifi, ts, np, ds, vs, sc, nc,
               otype, opening_area, opening_length)
  \<close>
\<close>

definition CFSWSWP ::
  "pyval \<Rightarrow> pyval \<Rightarrow> pyval \<Rightarrow> pyval \<Rightarrow> pyval \<Rightarrow> pyval \<Rightarrow> pyval \<Rightarrow> pyval \<Rightarrow> pyval \<Rightarrow>
   pyval \<Rightarrow> pyval \<Rightarrow> pyval \<Rightarrow> pyval \<Rightarrow> pyval \<Rightarrow> pyval \<Rightarrow> pyval ctor" where
  "CFSWSWP height width fut tf ife ifi ts np ds vs sc nc otype opening_area opening_length =
     bnd (lift (py_float height)) (\<lambda>self_height.
     bnd (lift (py_float width)) (\<lambda>self_width.
     bnd (lift (py_float fut)) (\<lambda>self_fut.
     bnd (lift (py_float tf)) (\<lambda>self_tf.
     bnd (lift (py_float ife)) (\<lambda>self_ife.
     bnd (lift (py_float ifi)) (\<lambda>self_ifi.
     bnd (lift (py_float ts)) (\<lambda>self_ts.
     bnd (lift (py_float np)) (\<lambda>self_np.
     bnd (lift (py_float ds)) (\<lambda>self_ds.
     bnd (lift (py_float vs)) (\<lambda>self_vs.
     bnd (lift (py_float sc)) (\<lambda>self_sc.
     bnd (lift (py_float nc)) (\<lambda>self_nc.
     bnd (lift (py_int otype)) (\<lambda>self_otype.
     bnd (lift (py_float opening_area)) (\<lambda>self_opening_area.
     bnd (lift (py_float opening_length)) (\<lambda>self_opening_length.
     bnd osi_incr_n_mat (\<lambda>_.
     bnd osi_get_n_mat (\<lambda>self_tag.
     bnd (lift
          (py_list
             [item (PStr ''CFSWSWP''), item self_tag, item self_height, item self_width,
              item self_fut, item self_tf, item self_ife, item self_ifi, item self_ts,
              item self_np, item self_ds, item self_vs, item self_sc, item self_nc,
              item self_otype, item self_opening_area, item self_opening_length])) (\<lambda>parameters.
     bnd (to_process parameters) (\<lambda>_.
     ret (OpenSeesObject self_tag parameters
          [(''height'', self_height), (''width'', self_width), (''fut'', self_fut),
           (''tf'', self_tf), (''ife'', self_ife), (''ifi'', self_ifi), (''ts'', self_ts),
           (''np'', self_np), (''ds'', self_ds), (''vs'', self_vs), (''sc'', self_sc),
           (''nc'', self_nc), (''otype'', self_otype), (''opening_area'', self_opening_area),
           (''opening_length'', self_opening_length)]))))))))))))))))))))"

text \<open>
  Class \<^verbatim>\<open>CFSSSWP\<close> of \<^verbatim>\<open>uniaxial_material/other.py\<close>:
  \<^verbatim>\<open>
  def __init__(self, osi, height, width, fuf, fyf, tf, af, fus, fys, ts, np, ds, vs,
               sc, dt, opening_area, opening_length)
  \<close>
\<close>

definition CFSSSWP ::
  "pyval \<Rightarrow> pyval \<Rightarrow> pyval \<Rightarrow> pyval \<Rightarrow> pyval \<Rightarrow> pyval \<Rightarrow> pyval \<Rightarrow> pyval \<Rightarrow> pyval \<Rightarrow>
   pyval \<Rightarrow> pyval \<Rightarrow> pyval \<Rightarrow> pyval \<Rightarrow> pyval \<Rightarrow> pyval \<Rightarrow> pyval \<Rightarrow> pyval ctor" where
  "CFSSSWP height width fuf fyf tf af fus fys ts np ds vs sc dt opening_area opening_length =
     bnd (lift (py_float height)) (\<lambda>self_height.
     bnd (lift (py_float width)) (\<lambda>self_width.
     bnd (lift (py_float fuf)) (\<lambda>self_fuf.
     bnd (lift (py_float fyf)) (\<lambda>self_fyf.
     bnd (lift (py_float tf)) (\<lambda>self_tf.
     bnd (lift (py_float af)) (\<lambda>self_af.
     bnd (lift (py_float fus)) (\<lambda>self_fus.
     bnd (lift (py_float fys)) (\<lambda>self_fys.
     bnd (lift (py_float ts)) (\<lambda>self_ts.
     bnd (lift (py_float np)) (\<lambda>self_np.
     bnd (lift (py_float ds)) (\<lambda>self_ds.
     bnd (lift (py_float vs)) (\<lambda>self_vs.
     bnd (lift (py_float sc)) (\<lambda>self_sc.
     bnd (lift (py_float dt)) (\<lambda>self_dt.
     bnd (lift (py_float opening_area)) (\<lambda>self_opening_area.
     bnd (lift (py_float opening_length)) (\<lambda>self_opening_length.
     bnd osi_incr_n_mat (\<lambda>_.
     bnd osi_get_n_mat (\<lambda>self_tag.
     bnd (lift
          (py_list
             [item (PStr ''CFSSSWP''), item self_tag, item self_height, item self_width,
              item self_fuf, item self_fyf, item self_tf, item self_af, item self_fus,
              item self_fys, item self_ts, item self_np, item self_ds, item self_vs,
              item self_sc, item self_dt, item self_opening_area, item self_opening_length])) (\<lambda>parameters.
     bnd (to_process parameters) (\<lambda>_.
     ret (OpenSeesObject self_tag parameters
          [(''height'', self_height), (''width'', self_width), (''fuf'', self_fuf),
           (''fyf'', self_fyf), (''tf'', self_tf), (''af'', self_af), (''fus'', self_fus),
           (''fys'', self_fys), (''ts'', self_ts), (''np'', self_np), (''ds'', self_ds),
           (''vs'', self_vs), (''sc'', self_sc), (''dt'', self_dt),
           (''opening_area'', self_opening_area), (''opening_length'', self_opening_length)])))))))))))))))))))))"

text \<open>
  Class \<^verbatim>\<open>Elastic\<close> of \<^verbatim>\<open>uniaxial_material/standard.py\<close>:
  \<^verbatim>\<open>
  def __init__(self, osi, big_e, eta=0.0, eneg=None)
  \<close>
\<close>

definition Elastic :: "pyval option \<Rightarrow> pyval \<Rightarrow> pyval \<Rightarrow> pyval \<Rightarrow> pyval ctor" where
  "Elastic op_type big_e eta eneg =
     bnd (lift (py_float big_e)) (\<lambda>self_big_e.
     bnd (lift (py_float eta)) (\<lambda>self_eta.
     bnd (lift (py_float eneg)) (\<lambda>self_eneg.
     bnd osi_incr_n_mats (\<lambda>_.
     bnd osi_get_mats (\<lambda>self_tag.
     bnd (lift
          (py_list
             [class_attr op_type, item self_tag, item self_big_e, item self_eta])) (\<lambda>parameters.
     bnd (lift (special_pms_nobreak [(self_eneg, False)] parameters)) (\<lambda>parameters.
     bnd (to_process parameters) (\<lambda>_.
     ret (OpenSeesObject self_tag parameters
          [(''big_e'', self_big_e), (''eta'', self_eta), (''eneg'', self_eneg)])))))))))"

text \<open>
  Class \<^verbatim>\<open>ElasticPP\<close> of \<^verbatim>\<open>uniaxial_material/standard.py\<close>:
  \<^verbatim>\<open>
  def __init__(self, osi, big_e, epsy_p, epsy_n=None, eps0=0.0)
  \<close>
\<close>

definition ElasticPP :: "pyval option \<Rightarrow> pyval \<Rightarrow> pyval \<Rightarrow> pyval \<Rightarrow> pyval \<Rightarrow> pyval ctor" where
  "ElasticPP op_type big_e epsy_p epsy_n eps0 =
     bnd (lift (py_float big_e)) (\<lambda>self_big_e.
     bnd (lift (py_float epsy_p)) (\<lambda>self_epsy_p.
     bnd (lift (py_float epsy_n)) (\<lambda>self_epsy_n.
     bnd (lift (py_float eps0)) (\<lambda>self_eps0.
     bnd osi_incr_n_mats (\<lambda>_.
     bnd osi_get_mats (\<lambda>self_tag.
     bnd (lift
          (py_list
             [class_attr op_type, item self_tag, item self_big_e, item self_epsy_p])) (\<lambda>parameters.
     bnd (lift (special_pms_nobreak [(self_epsy_n, False), (self_eps0, False)] parameters)) (\<lambda>parameters.
     bnd (to_process parameters) (\<lambda>_.
     ret (OpenSeesObject self_tag parameters
          [(''big_e'', self_big_e), (''epsy_p'', self_epsy_p), (''epsy_n'', self_epsy_n),
           (''eps0'', self_eps0)]))))))))))"

text \<open>
  Class \<^verbatim>\<open>ElasticPPGap\<close> of \<^verbatim>\<open>uniaxial_material/standard.py\<close>:
  \<^verbatim>\<open>
  def __init__(self, osi, big_e, fy, gap, eta=0.0, damage='noDamage')
  \<close>
\<close>

definition ElasticPPGap :: "pyval option \<Rightarrow> pyval \<Rightarrow> pyval \<Rightarrow> pyval \<Rightarrow> pyval \<Rightarrow> pyval \<Rightarrow> pyval ctor" where
  "ElasticPPGap op_type big_e fy gap eta damage =
     bnd (lift (py_float big_e)) (\<lambda>self_big_e.
     bnd (lift (py_float fy)) (\<lambda>self_fy.
     bnd (lift (py_float gap)) (\<lambda>self_gap.
     bnd (lift (py_float eta)) (\<lambda>self_eta.
     bnd (ret damage) (\<lambda>self_damage.
     bnd osi_incr_n_mats (\<lambda>_.
     bnd osi_get_mats (\<lambda>self_tag.
     bnd (lift
          (py_list
             [class_attr op_type, item self_tag, item self_big_e, item self_fy, item self_gap,
              item self_eta, item self_damage])) (\<lambda>parameters.
     bnd (to_process parameters) (\<lambda>_.
     ret (OpenSeesObject self_tag parameters
          [(''big_e'', self_big_e), (''fy'', self_fy), (''gap'', self_gap), (''eta'', self_eta),
           (''damage'', self_damage)]))))))))))"

text \<open>
  Class \<^verbatim>\<open>ENT\<close> of \<^verbatim>\<open>uniaxial_material/standard.py\<close>:
  \<^verbatim>\<open>
  def __init__(self, osi, big_e)
  \<close>
\<close>

definition ENT :: "pyval option \<Rightarrow> pyval \<Rightarrow> pyval ctor" where
  "ENT op_type big_e =
     bnd (lift (py_float big_e)) (\<lambda>self_big_e.
     bnd osi_incr_n_mats (\<lambda>_.
     bnd osi_get_mats (\<lambda>self_tag.
     bnd (lift (py_list [class_attr op_type, item self_tag, item self_big_e])) (\<lambda>parameters.
     bnd (to_process parameters) (\<lambda>_.
     ret (OpenSeesObject self_tag parameters
          [(''big_e'', self_big_e)]))))))"

text \<open>
  Class \<^verbatim>\<open>Parallel\<close> of \<^verbatim>\<open>uniaxial_material/standard.py\<close>:
  \<^verbatim>\<open>
  def __init__(self, osi, tags, factor_args=None)
  \<close>
\<close>

definition Parallel :: "pyval option \<Rightarrow> pyval \<Rightarrow> pyval \<Rightarrow> pyval ctor" where
  "Parallel op_type tags factor_args =
     bnd (ret tags) (\<lambda>self_tags.
     bnd (ret factor_args) (\<lambda>self_factor_args.
     bnd osi_incr_n_mats (\<lambda>_.
     bnd osi_get_mats (\<lambda>self_tag.
     bnd (lift (py_list [class_attr op_type, item self_tag, star self_tags])) (\<lambda>parameters.
     bnd (lift (if self_factor_args \<noteq> PNone
               then py_iadd parameters (py_list [item (PStr ''-factor''), star self_factor_args])
               else Inr parameters)) (\<lambda>parameters.
     bnd (to_process parameters) (\<lambda>_.
     ret (OpenSeesObject self_tag parameters
          [(''tags'', self_tags), (''factor_args'', self_factor_args)]))))))))"

text \<open>
  Class \<^verbatim>\<open>Series\<close> of \<^verbatim>\<open>uniaxial_material/standard.py\<close>:
  \<^verbatim>\<open>
  def __init__(self, osi, tags)
  \<close>
\<close>

definition Series :: "pyval option \<Rightarrow> pyval \<Rightarrow> pyval ctor" where
  "Series op_type tags =
     bnd (ret tags) (\<lambda>self_tags.
     bnd osi_incr_n_mats (\<lambda>_.
     bnd osi_get_mats (\<lambda>self_tag.
     bnd (lift (py_list [class_attr op_type, item self_tag, star self_tags])) (\<lambda>parameters.
     bnd (to_process parameters) (\<lambda>_.
     ret (OpenSeesObject self_tag parameters
          [(''tags'', self_tags)]))))))"

text \<open>
  Class \<^verbatim>\<open>Straight\<close> of \<^verbatim>\<open>layer.py\<close>:
  \<^verbatim>\<open>
  def __init__(self, osi, num_fiber, area_fiber, start, end)
  \<close>
\<close>

definition Straight :: "pyval \<Rightarrow> pyval \<Rightarrow> pyval \<Rightarrow> pyval \<Rightarrow> pyval ctor" where
  "Straight num_fiber area_fiber start end =
     bnd (lift (py_int num_fiber)) (\<lambda>self_num_fiber.
     bnd (lift (py_float area_fiber)) (\<lambda>self_area_fiber.
     bnd (ret start) (\<lambda>self_start.
     bnd (ret end) (\<lambda>self_end.
     bnd osi_incr_n_mat (\<lambda>_.
     bnd osi_get_n_mat (\<lambda>self_tag.
     bnd (lift
          (py_list
             [item (PStr ''straight''), item self_tag, item self_num_fiber,
              item self_area_fiber, star self_start, star self_end])) (\<lambda>parameters.
     bnd (to_process parameters) (\<lambda>_.
     ret (OpenSeesObject self_tag parameters
          [(''num_fiber'', self_num_fiber), (''area_fiber'', self_area_fiber),
           (''start'', self_start), (''end'', self_end)])))))))))"

text \<open>
  Class \<^verbatim>\<open>Circ\<close> of \<^verbatim>\<open>layer.py\<close>:
  \<^verbatim>\<open>
  def __init__(self, osi, num_fiber, area_fiber, center, radius, ang=None)
  \<close>
\<close>

definition Circ :: "pyval \<Rightarrow> pyval \<Rightarrow> pyval \<Rightarrow> pyval \<Rightarrow> pyval \<Rightarrow> pyval ctor" where
  "Circ num_fiber area_fiber center radius ang =
     bnd (lift (py_int num_fiber)) (\<lambda>self_num_fiber.
     bnd (lift (py_float area_fiber)) (\<lambda>self_area_fiber.
     bnd (ret center) (\<lambda>self_center.
     bnd (lift (py_float radius)) (\<lambda>self_radius.
     bnd (ret ang) (\<lambda>self_ang.
     bnd osi_incr_n_mat (\<lambda>_.
     bnd osi_get_n_mat (\<lambda>self_tag.
     bnd (lift
          (py_list
             [item (PStr ''circ''), item self_tag, item self_num_fiber, item self_area_fiber,
              star self_center, item self_radius])) (\<lambda>parameters.
     bnd (lift (if self_ang \<noteq> PNone
               then py_iadd parameters (py_iter self_ang)
               else Inr parameters)) (\<lambda>parameters.
     bnd (to_process parameters) (\<lambda>_.
     ret (OpenSeesObject self_tag parameters
          [(''num_fiber'', self_num_fiber), (''area_fiber'', self_area_fiber),
           (''center'', self_center), (''radius'', self_radius), (''ang'', self_ang)])))))))))))"

section \<open>Classes, calls and sequences of constructions\<close>

text \<open>The classes of \<^verbatim>\<open>other.py\<close>, \<^verbatim>\<open>standard.py\<close> and \<^verbatim>\<open>layer.py\<close>.\<close>

datatype cls =
    Hardening_cls
  | Cast_cls
  | ViscousDamper_cls
  | BilinearOilDamper_cls
  | Bilin_cls
  | ModIMKPeakOriented_cls
  | ModIMKPinching_cls
  | SAWS_cls
  | BarSlip_cls
  | BondSP01_cls
  | Fatigue_cls
  | ImpactMaterial_cls
  | HyperbolicGapMaterial_cls
  | LimitState_cls
  | MinMax_cls
  | ElasticBilin_cls
  | ElasticMultiLinear_cls
  | MultiLinear_cls
  | InitStrainMaterial_cls
  | InitStressMaterial_cls
  | PathIndependent_cls
  | ECC01_cls
  | SelfCentering_cls
  | Viscous_cls
  | BoucWen_cls
  | BWBN_cls
  | AxialSp_cls
  | AxialSpHD_cls
  | CFSWSWP_cls
  | CFSSSWP_cls
  | Elastic_cls
  | ElasticPP_cls
  | ElasticPPGap_cls
  | ENT_cls
  | Parallel_cls
  | Series_cls
  | Straight_cls
  | Circ_cls

text \<open>
  How a constructor treats a parameter: converted by \<^verbatim>\<open>float\<close> or \<^verbatim>\<open>int\<close>;
  stored as it is and emitted as one token, expanded in place (\<^verbatim>\<open>*x\<close>), or replaced
  by \<^verbatim>\<open>x.tag\<close>; converted by \<^verbatim>\<open>float\<close> unless it is \<^verbatim>\<open>None\<close> and emitted
  either positionally by the \<^verbatim>\<open>special_pms\<close> loop that stops at the first
  \<^verbatim>\<open>None\<close>, or after its flag; a list emitted after its flag; a list appended when
  it is not \<^verbatim>\<open>None\<close>.
\<close>

datatype kind =
    Float_field
  | Int_field
  | Plain_field
  | Packet_field
  | Reference_field
  | Optional_float
  | Flag_float string
  | Flag_packet string
  | Optional_packet

text \<open>
  The parameters of each \<^verbatim>\<open>__init__\<close> after \<^verbatim>\<open>osi\<close>, in the order of the
  signature, each with the treatment the body gives it.
\<close>

definition signature :: "cls \<Rightarrow> (string \<times> kind) list" where
  "signature k =
     (case k of
         Hardening_cls \<Rightarrow>
           [(''big_e'', Float_field), (''sigma_y'', Float_field), (''h_iso'', Float_field),
            (''h_kin'', Float_field), (''eta'', Float_field)]
       | Cast_cls \<Rightarrow>
           [(''n'', Int_field), (''bo'', Float_field), (''h'', Float_field),
            (''fy'', Float_field), (''big_e'', Float_field), (''big_l'', Float_field),
            (''b'', Float_field), (''ro'', Float_field), (''c_r1'', Float_field),
            (''c_r2'', Float_field), (''a1'', Optional_float), (''a2'', Float_field),
            (''a3'', Optional_float), (''a4'', Float_field)]
       | ViscousDamper_cls \<Rightarrow>
           [(''big_k'', Float_field), (''cd'', Float_field), (''alpha'', Float_field),
            (''l_gap'', Float_field), (''nm'', Int_field), (''rel_tol'', Float_field),
            (''abs_tol'', Float_field), (''max_half'', Int_field)]
       | BilinearOilDamper_cls \<Rightarrow>
           [(''big_k'', Float_field), (''cd'', Float_field), (''fr'', Float_field),
            (''p'', Float_field), (''l_gap'', Float_field), (''nm'', Int_field),
            (''rel_tol'', Float_field), (''abs_tol'', Float_field), (''max_half'', Int_field)]
       | Bilin_cls \<Rightarrow>
           [(''k0'', Float_field), (''as__plus'', Float_field), (''as__neg'', Float_field),
            (''my__plus'', Float_field), (''my__neg'', Float_field), (''lamda_s'', Float_field),
            (''lamda_c'', Float_field), (''lamda_a'', Float_field), (''lamda_k'', Float_field),
            (''c_s'', Float_field), (''c_c'', Float_field), (''c_a'', Float_field),
            (''c_k'', Float_field), (''theta_p__plus'', Float_field),
            (''theta_p__neg'', Float_field), (''theta_pc__plus'', Float_field),
            (''theta_pc__neg'', Float_field), (''res__pos'', Float_field),
            (''res__neg'', Float_field), (''theta_u__plus'', Float_field),
            (''theta_u__neg'', Float_field), (''d__plus'', Float_field),
            (''d__neg'', Float_field), (''n_factor'', Float_field)]
       | ModIMKPeakOriented_cls \<Rightarrow>
           [(''k0'', Float_field), (''as__plus'', Float_field), (''as__neg'', Float_field),
            (''my__plus'', Float_field), (''my__neg'', Float_field), (''lamda_s'', Float_field),
            (''lamda_c'', Float_field), (''lamda_a'', Float_field), (''lamda_k'', Float_field),
            (''c_s'', Float_field), (''c_c'', Float_field), (''c_a'', Float_field),
            (''c_k'', Float_field), (''theta_p__plus'', Float_field),
            (''theta_p__neg'', Float_field), (''theta_pc__plus'', Float_field),
            (''theta_pc__neg'', Float_field), (''res__pos'', Float_field),
            (''res__neg'', Float_field), (''theta_u__plus'', Float_field),
            (''theta_u__neg'', Float_field), (''d__plus'', Float_field),
            (''d__neg'', Float_field)]
       | ModIMKPinching_cls \<Rightarrow>
           [(''k0'', Float_field), (''as__plus'', Float_field), (''as__neg'', Float_field),
            (''my__plus'', Float_field), (''my__neg'', Float_field), (''fpr_pos'', Float_field),
            (''fpr_neg'', Float_field), (''a_pinch'', Float_field), (''lamda_s'', Float_field),
            (''lamda_c'', Float_field), (''lamda_a'', Float_field), (''lamda_k'', Float_field),
            (''c_s'', Float_field), (''c_c'', Float_field), (''c_a'', Float_field),
            (''c_k'', Float_field), (''theta_p__plus'', Float_field),
            (''theta_p__neg'', Float_field), (''theta_pc__plus'', Float_field),
            (''theta_pc__neg'', Float_field), (''res__pos'', Float_field),
            (''res__neg'', Float_field), (''theta_u__plus'', Float_field),
            (''theta_u__neg'', Float_field), (''d__plus'', Float_field),
            (''d__neg'', Float_field)]
       | SAWS_cls \<Rightarrow>
           [(''f0'', Float_field), (''fi'', Float_field), (''du'', Float_field),
            (''s0'', Float_field), (''r1'', Float_field), (''r2'', Float_field),
            (''r3'', Float_field), (''r4'', Float_field), (''alpha'', Float_field),
            (''beta'', Float_field)]
       | BarSlip_cls \<Rightarrow>
           [(''fc'', Float_field), (''fy'', Float_field), (''es'', Float_field),
            (''fu'', Float_field), (''eh'', Float_field), (''db'', Float_field),
            (''ld'', Float_field), (''nb'', Int_field), (''depth'', Float_field),
            (''height'', Float_field), (''bs_flag'', Plain_field), (''otype'', Plain_field),
            (''anc_lratio'', Float_field), (''damage'', Plain_field), (''unit'', Plain_field)]
       | BondSP01_cls \<Rightarrow>
           [(''fy'', Float_field), (''sy'', Float_field), (''fu'', Float_field),
            (''su'', Float_field), (''b'', Float_field), (''big_r'', Float_field)]
       | Fatigue_cls \<Rightarrow>
           [(''other'', Reference_field), (''e0'', (Flag_float ''-E0'')),
            (''m'', (Flag_float ''-m'')), (''min'', (Flag_float ''-min'')),
            (''max'', (Flag_float ''-max''))]
       | ImpactMaterial_cls \<Rightarrow>
           [(''k1'', Float_field), (''k2'', Float_field), (''sigy'', Float_field),
            (''gap'', Float_field)]
       | HyperbolicGapMaterial_cls \<Rightarrow>
           [(''kmax'', Float_field), (''kur'', Float_field), (''rf'', Float_field),
            (''fult'', Float_field), (''gap'', Float_field)]
       | LimitState_cls \<Rightarrow>
           [(''s1p'', Float_field), (''e1p'', Float_field), (''s2p'', Float_field),
            (''e2p'', Float_field), (''s3p'', Float_field), (''e3p'', Float_field),
            (''s1n'', Float_field), (''e1n'', Float_field), (''s2n'', Float_field),
            (''e2n'', Float_field), (''s3n'', Float_field), (''e3n'', Float_field),
            (''pinch_x'', Float_field), (''pinch_y'', Float_field), (''damage1'', Float_field),
            (''damage2'', Float_field), (''beta'', Float_field), (''curve'', Reference_field),
            (''curve_type'', Int_field)]
       | MinMax_cls \<Rightarrow>
           [(''other'', Reference_field), (''min_strain'', (Flag_float ''-min'')),
            (''max_strain'', (Flag_float ''-max''))]
       | ElasticBilin_cls \<Rightarrow>
           [(''ep1'', Float_field), (''ep2'', Float_field), (''eps_p2'', Float_field),
            (''en1'', Optional_float), (''en2'', Optional_float), (''eps_n2'', Optional_float)]
       | ElasticMultiLinear_cls \<Rightarrow>
           [(''eta'', Float_field), (''strain'', (Flag_packet ''-strain'')),
            (''stress'', (Flag_packet ''-stress''))]
       | MultiLinear_cls \<Rightarrow>
           [(''pts'', Packet_field)]
       | InitStrainMaterial_cls \<Rightarrow>
           [(''other'', Reference_field), (''init_strain'', Float_field)]
       | InitStressMaterial_cls \<Rightarrow>
           [(''other'', Reference_field), (''init_stress'', Float_field)]
       | PathIndependent_cls \<Rightarrow>
           [(''other'', Reference_field)]
       | ECC01_cls \<Rightarrow>
           [(''sigt0'', Float_field), (''epst0'', Float_field), (''sigt1'', Float_field),
            (''epst1'', Float_field), (''epst2'', Float_field), (''sigc0'', Float_field),
            (''epsc0'', Float_field), (''epsc1'', Float_field), (''alpha_t1'', Float_field),
            (''alpha_t2'', Float_field), (''alpha_c'', Float_field),
            (''alpha_cu'', Float_field), (''beta_t'', Float_field), (''beta_c'', Float_field)]
       | SelfCentering_cls \<Rightarrow>
           [(''k1'', Float_field), (''k2'', Float_field), (''sig_act'', Float_field),
            (''beta'', Float_field), (''eps_slip'', Float_field), (''eps_bear'', Float_field),
            (''r_bear'', Optional_float)]
       | Viscous_cls \<Rightarrow>
           [(''big_c'', Float_field), (''alpha'', Float_field)]
       | BoucWen_cls \<Rightarrow>
           [(''alpha'', Float_field), (''ko'', Float_field), (''n'', Float_field),
            (''gamma'', Float_field), (''beta'', Float_field), (''ao'', Float_field),
            (''delta_a'', Float_field), (''delta_nu'', Float_field),
            (''delta_eta'', Float_field)]
       | BWBN_cls \<Rightarrow>
           [(''alpha'', Float_field), (''ko'', Float_field), (''n'', Float_field),
            (''gamma'', Float_field), (''beta'', Float_field), (''ao'', Float_field),
            (''q'', Float_field), (''zetas'', Float_field), (''p'', Float_field),
            (''shi'', Float_field), (''delta_shi'', Float_field), (''lamb'', Float_field),
            (''tol'', Float_field), (''max_iter'', Float_field)]
       | AxialSp_cls \<Rightarrow>
           [(''sce'', Float_field), (''fty'', Float_field), (''fcy'', Float_field),
            (''bte'', Float_field), (''bty'', Float_field), (''bcy'', Float_field),
            (''fcr'', Float_field)]
       | AxialSpHD_cls \<Rightarrow>
           [(''sce'', Float_field), (''fty'', Float_field), (''fcy'', Float_field),
            (''bte'', Float_field), (''bty'', Float_field), (''bth'', Float_field),
            (''bcy'', Float_field), (''fcr'', Float_field), (''ath'', Float_field)]
       | CFSWSWP_cls \<Rightarrow>
           [(''height'', Float_field), (''width'', Float_field), (''fut'', Float_field),
            (''tf'', Float_field), (''ife'', Float_field), (''ifi'', Float_field),
            (''ts'', Float_field), (''np'', Float_field), (''ds'', Float_field),
            (''vs'', Float_field), (''sc'', Float_field), (''nc'', Float_field),
            (''otype'', Int_field), (''opening_area'', Float_field),
            (''opening_length'', Float_field)]
       | CFSSSWP_cls \<Rightarrow>
           [(''height'', Float_field), (''width'', Float_field), (''fuf'', Float_field),
            (''fyf'', Float_field), (''tf'', Float_field), (''af'', Float_field),
            (''fus'', Float_field), (''fys'', Float_field), (''ts'', Float_field),
            (''np'', Float_field), (''ds'', Float_field), (''vs'', Float_field),
            (''sc'', Float_field), (''dt'', Float_field), (''opening_area'', Float_field),
            (''opening_length'', Float_field)]
       | Elastic_cls \<Rightarrow>
           [(''big_e'', Float_field), (''eta'', Float_field), (''eneg'', Float_field)]
       | ElasticPP_cls \<Rightarrow>
           [(''big_e'', Float_field), (''epsy_p'', Float_field), (''epsy_n'', Float_field),
            (''eps0'', Float_field)]
       | ElasticPPGap_cls \<Rightarrow>
           [(''big_e'', Float_field), (''fy'', Float_field), (''gap'', Float_field),
            (''eta'', Float_field), (''damage'', Plain_field)]
       | ENT_cls \<Rightarrow>
           [(''big_e'', Float_field)]
       | Parallel_cls \<Rightarrow>
           [(''tags'', Packet_field), (''factor_args'', (Flag_packet ''-factor''))]
       | Series_cls \<Rightarrow>
           [(''tags'', Packet_field)]
       | Straight_cls \<Rightarrow>
           [(''num_fiber'', Int_field), (''area_fiber'', Float_field),
            (''start'', Packet_field), (''end'', Packet_field)]
       | Circ_cls \<Rightarrow>
           [(''num_fiber'', Int_field), (''area_fiber'', Float_field),
            (''center'', Packet_field), (''radius'', Float_field), (''ang'', Optional_packet)]
     )"

text \<open>
  The order in which the body assigns and emits the fields. It is the order of the
  signature in every class but \<^verbatim>\<open>BarSlip\<close>, which takes \<^verbatim>\<open>anc_lratio\<close> (the
  thirteenth parameter) before \<^verbatim>\<open>bs_flag\<close> and \<^verbatim>\<open>otype\<close>.
\<close>

definition assigned :: "cls \<Rightarrow> 'a list \<Rightarrow> 'a list" where
  "assigned k xs =
     (if k = BarSlip_cls then take 10 xs @ [xs ! 12, xs ! 10, xs ! 11] @ drop 13 xs else xs)"

text \<open>The class attribute \<^verbatim>\<open>op_type\<close>; the classes of \<^verbatim>\<open>standard.py\<close> set none.\<close>

definition class_op_type :: "cls \<Rightarrow> string option" where
  "class_op_type k =
     (case k of
         Hardening_cls \<Rightarrow> Some ''Hardening''
       | Cast_cls \<Rightarrow> Some ''Cast''
       | ViscousDamper_cls \<Rightarrow> Some ''ViscousDamper''
       | BilinearOilDamper_cls \<Rightarrow> Some ''BilinearOilDamper''
       | Bilin_cls \<Rightarrow> Some ''Bilin''
       | ModIMKPeakOriented_cls \<Rightarrow> Some ''ModIMKPeakOriented''
       | ModIMKPinching_cls \<Rightarrow> Some ''ModIMKPinching''
       | SAWS_cls \<Rightarrow> Some ''SAWS''
       | BarSlip_cls \<Rightarrow> Some ''BarSlip''
       | BondSP01_cls \<Rightarrow> Some ''Bond_SP01''
       | Fatigue_cls \<Rightarrow> Some ''Fatigue''
       | ImpactMaterial_cls \<Rightarrow> Some ''ImpactMaterial''
       | HyperbolicGapMaterial_cls \<Rightarrow> Some ''HyperbolicGapMaterial''
       | LimitState_cls \<Rightarrow> Some ''LimitState''
       | MinMax_cls \<Rightarrow> Some ''MinMax''
       | ElasticBilin_cls \<Rightarrow> Some ''ElasticBilin''
       | ElasticMultiLinear_cls \<Rightarrow> Some ''ElasticMultiLinear''
       | MultiLinear_cls \<Rightarrow> Some ''MultiLinear''
       | InitStrainMaterial_cls \<Rightarrow> Some ''InitStrainMaterial''
       | InitStressMaterial_cls \<Rightarrow> Some ''InitStressMaterial''
       | PathIndependent_cls \<Rightarrow> Some ''PathIndependent''
       | ECC01_cls \<Rightarrow> Some ''ECC01''
       | SelfCentering_cls \<Rightarrow> Some ''SelfCentering''
       | Viscous_cls \<Rightarrow> Some ''Viscous''
       | BoucWen_cls \<Rightarrow> Some ''BoucWen''
       | BWBN_cls \<Rightarrow> Some ''BWBN''
       | AxialSp_cls \<Rightarrow> Some ''AxialSp''
       | AxialSpHD_cls \<Rightarrow> Some ''AxialSpHD''
       | CFSWSWP_cls \<Rightarrow> Some ''CFSWSWP''
       | CFSSSWP_cls \<Rightarrow> Some ''CFSSSWP''
       | Elastic_cls \<Rightarrow> None
       | ElasticPP_cls \<Rightarrow> None
       | ElasticPPGap_cls \<Rightarrow> None
       | ENT_cls \<Rightarrow> None
       | Parallel_cls \<Rightarrow> None
       | Series_cls \<Rightarrow> None
       | Straight_cls \<Rightarrow> Some ''straight''
       | Circ_cls \<Rightarrow> Some ''circ''
     )"

text \<open>The module a class lives in, and its base class.\<close>

definition in_standard :: "cls \<Rightarrow> bool" where
  "in_standard k = (k \<in> set [Elastic_cls, ElasticPP_cls, ElasticPPGap_cls, ENT_cls, Parallel_cls, Series_cls])"

definition is_layer :: "cls \<Rightarrow> bool" where
  "is_layer k = (k \<in> set [Straight_cls, Circ_cls])"

text \<open>
  A call gives the class and the arguments after \<^verbatim>\<open>osi\<close>, defaults filled in. A
  call with the wrong number of arguments raises TypeError before the body runs.
  \<open>op_type\<close> is the attribute inherited from the absent base class (see
  \<open>class_attr\<close>).
\<close>

datatype call = Call cls "pyval list"

definition construct :: "pyval option \<Rightarrow> call \<Rightarrow> pyval ctor" where
  "construct op_type c =
     (case c of Call k a \<Rightarrow>
        if length a \<noteq> length (signature k) then lift (Inl TypeError)
        else (case k of
            Hardening_cls \<Rightarrow>
              Hardening
                (a ! 0) (a ! 1) (a ! 2) (a ! 3) (a ! 4)
          | Cast_cls \<Rightarrow>
              Cast
                (a ! 0) (a ! 1) (a ! 2) (a ! 3) (a ! 4) (a ! 5) (a ! 6) (a ! 7) (a ! 8) (a ! 9)
                (a ! 10) (a ! 11) (a ! 12) (a ! 13)
          | ViscousDamper_cls \<Rightarrow>
              ViscousDamper
                (a ! 0) (a ! 1) (a ! 2) (a ! 3) (a ! 4) (a ! 5) (a ! 6) (a ! 7)
          | BilinearOilDamper_cls \<Rightarrow>
              BilinearOilDamper
                (a ! 0) (a ! 1) (a ! 2) (a ! 3) (a ! 4) (a ! 5) (a ! 6) (a ! 7) (a ! 8)
          | Bilin_cls \<Rightarrow>
              Bilin
                (a ! 0) (a ! 1) (a ! 2) (a ! 3) (a ! 4) (a ! 5) (a ! 6) (a ! 7) (a ! 8) (a ! 9)
                (a ! 10) (a ! 11) (a ! 12) (a ! 13) (a ! 14) (a ! 15) (a ! 16) (a ! 17) (a ! 18)
                (a ! 19) (a ! 20) (a ! 21) (a ! 22) (a ! 23)
          | ModIMKPeakOriented_cls \<Rightarrow>
              ModIMKPeakOriented
                (a ! 0) (a ! 1) (a ! 2) (a ! 3) (a ! 4) (a ! 5) (a ! 6) (a ! 7) (a ! 8) (a ! 9)
                (a ! 10) (a ! 11) (a ! 12) (a ! 13) (a ! 14) (a ! 15) (a ! 16) (a ! 17) (a ! 18)
                (a ! 19) (a ! 20) (a ! 21) (a ! 22)
          | ModIMKPinching_cls \<Rightarrow>
              ModIMKPinching
                (a ! 0) (a ! 1) (a ! 2) (a ! 3) (a ! 4) (a ! 5) (a ! 6) (a ! 7) (a ! 8) (a ! 9)
                (a ! 10) (a ! 11) (a ! 12) (a ! 13) (a ! 14) (a ! 15) (a ! 16) (a ! 17) (a ! 18)
                (a ! 19) (a ! 20) (a ! 21) (a ! 22) (a ! 23) (a ! 24) (a ! 25)
          | SAWS_cls \<Rightarrow>
              SAWS
                (a ! 0) (a ! 1) (a ! 2) (a ! 3) (a ! 4) (a ! 5) (a ! 6) (a ! 7) (a ! 8) (a ! 9)
          | BarSlip_cls \<Rightarrow>
              BarSlip
                (a ! 0) (a ! 1) (a ! 2) (a ! 3) (a ! 4) (a ! 5) (a ! 6) (a ! 7) (a ! 8) (a ! 9)
                (a ! 10) (a ! 11) (a ! 12) (a ! 13) (a ! 14)
          | BondSP01_cls \<Rightarrow>
              BondSP01
                (a ! 0) (a ! 1) (a ! 2) (a ! 3) (a ! 4) (a ! 5)
          | Fatigue_cls \<Rightarrow>
              Fatigue
                (a ! 0) (a ! 1) (a ! 2) (a ! 3) (a ! 4)
          | ImpactMaterial_cls \<Rightarrow>
              ImpactMaterial
                (a ! 0) (a ! 1) (a ! 2) (a ! 3)
          | HyperbolicGapMaterial_cls \<Rightarrow>
              HyperbolicGapMaterial
                (a ! 0) (a ! 1) (a ! 2) (a ! 3) (a ! 4)
          | LimitState_cls \<Rightarrow>
              LimitState
                (a ! 0) (a ! 1) (a ! 2) (a ! 3) (a ! 4) (a ! 5) (a ! 6) (a ! 7) (a ! 8) (a ! 9)
                (a ! 10) (a ! 11) (a ! 12) (a ! 13) (a ! 14) (a ! 15) (a ! 16) (a ! 17) (a ! 18)
          | MinMax_cls \<Rightarrow>
              MinMax
                (a ! 0) (a ! 1) (a ! 2)
          | ElasticBilin_cls \<Rightarrow>
              ElasticBilin
                (a ! 0) (a ! 1) (a ! 2) (a ! 3) (a ! 4) (a ! 5)
          | ElasticMultiLinear_cls \<Rightarrow>
              ElasticMultiLinear
                (a ! 0) (a ! 1) (a ! 2)
          | MultiLinear_cls \<Rightarrow>
              MultiLinear
                (a ! 0)
          | InitStrainMaterial_cls \<Rightarrow>
              InitStrainMaterial
                (a ! 0) (a ! 1)
          | InitStressMaterial_cls \<Rightarrow>
              InitStressMaterial
                (a ! 0) (a ! 1)
          | PathIndependent_cls \<Rightarrow>
              PathIndependent
                (a ! 0)
          | ECC01_cls \<Rightarrow>
              ECC01
                (a ! 0) (a ! 1) (a ! 2) (a ! 3) (a ! 4) (a ! 5) (a ! 6) (a ! 7) (a ! 8) (a ! 9)
                (a ! 10) (a ! 11) (a ! 12) (a ! 13)
          | SelfCentering_cls \<Rightarrow>
              SelfCentering
                (a ! 0) (a ! 1) (a ! 2) (a ! 3) (a ! 4) (a ! 5) (a ! 6)
          | Viscous_cls \<Rightarrow>
              Viscous
                (a ! 0) (a ! 1)
          | BoucWen_cls \<Rightarrow>
              BoucWen
                (a ! 0) (a ! 1) (a ! 2) (a ! 3) (a ! 4) (a ! 5) (a ! 6) (a ! 7) (a ! 8)
          | BWBN_cls \<Rightarrow>
              BWBN
                (a ! 0) (a ! 1) (a ! 2) (a ! 3) (a ! 4) (a ! 5) (a ! 6) (a ! 7) (a ! 8) (a ! 9)
                (a ! 10) (a ! 11) (a ! 12) (a ! 13)
          | AxialSp_cls \<Rightarrow>
              AxialSp
                (a ! 0) (a ! 1) (a ! 2) (a ! 3) (a ! 4) (a ! 5) (a ! 6)
          | AxialSpHD_cls \<Rightarrow>
              AxialSpHD
                (a ! 0) (a ! 1) (a ! 2) (a ! 3) (a ! 4) (a ! 5) (a ! 6) (a ! 7) (a ! 8)
          | CFSWSWP_cls \<Rightarrow>
              CFSWSWP
                (a ! 0) (a ! 1) (a ! 2) (a ! 3) (a ! 4) (a ! 5) (a ! 6) (a ! 7) (a ! 8) (a ! 9)
                (a ! 10) (a ! 11) (a ! 12) (a ! 13) (a ! 14)
          | CFSSSWP_cls \<Rightarrow>
              CFSSSWP
                (a ! 0) (a ! 1) (a ! 2) (a ! 3) (a ! 4) (a ! 5) (a ! 6) (a ! 7) (a ! 8) (a ! 9)
                (a ! 10) (a ! 11) (a ! 12) (a ! 13) (a ! 14) (a ! 15)
          | Elastic_cls \<Rightarrow>
              Elastic
                op_type (a ! 0) (a ! 1) (a ! 2)
          | ElasticPP_cls \<Rightarrow>
              ElasticPP
                op_type (a ! 0) (a ! 1) (a ! 2) (a ! 3)
          | ElasticPPGap_cls \<Rightarrow>
              ElasticPPGap
                op_type (a ! 0) (a ! 1) (a ! 2) (a ! 3) (a ! 4)
          | ENT_cls \<Rightarrow>
              ENT
                op_type (a ! 0)
          | Parallel_cls \<Rightarrow>
              Parallel
                op_type (a ! 0) (a ! 1)
          | Series_cls \<Rightarrow>
              Series
                op_type (a ! 0)
          | Straight_cls \<Rightarrow>
              Straight
                (a ! 0) (a ! 1) (a ! 2) (a ! 3)
          | Circ_cls \<Rightarrow>
              Circ
                (a ! 0) (a ! 1) (a ! 2) (a ! 3) (a ! 4)
        ))"

text \<open>
  A sequence of constructions against one context. An exception ends the construction
  it occurs in; the caller goes on with the next one.
\<close>

fun run :: "pyval option \<Rightarrow> call list \<Rightarrow> osi \<Rightarrow> (pyerr + pyval) list \<times> osi" where
  "run op_type [] s = ([], s)"
| "run op_type (c # cs) s =
     (case construct op_type c s of
        (r, s1) \<Rightarrow> (case run op_type cs s1 of (rs, s2) \<Rightarrow> (r # rs, s2)))"

section \<open>The common shape of the constructors\<close>

text \<open>
  All constructors have one shape, which sections 4.2 and 4.3 of the specification
  describe as a generic framework run on the description of an entity: (a) convert the
  fields, (b) request a tag, (c) encode the parameter list, (d) hand it to the dispatch
  backend, (e) keep the tag. The definitions of this section give that shape once, over
  the kinds of the parameters of a class; below, every constructor of the source is
  proved equal to it. Where the specification and the sources differ (a positional
  optional field that is absent), the definitions follow the sources.
\<close>

text \<open>Step (a): the conversion a field of each kind goes through.\<close>

fun coerce_field :: "kind \<Rightarrow> pyval \<Rightarrow> pyerr + pyval" where
  "coerce_field Float_field a = py_float a"
| "coerce_field Int_field a = py_int a"
| "coerce_field Optional_float a = (if a = PNone then Inr PNone else py_float a)"
| "coerce_field (Flag_float flag) a = (if a = PNone then Inr PNone else py_float a)"
| "coerce_field Plain_field a = Inr a"
| "coerce_field Packet_field a = Inr a"
| "coerce_field Reference_field a = Inr a"
| "coerce_field (Flag_packet flag) a = Inr a"
| "coerce_field Optional_packet a = Inr a"

fun coerce_fields :: "(kind \<times> pyval) list \<Rightarrow> pyerr + pyval list" where
  "coerce_fields [] = Inr []"
| "coerce_fields ((k, a) # fs) =
     (case coerce_field k a of
        Inl e \<Rightarrow> Inl e
      | Inr v \<Rightarrow> (case coerce_fields fs of Inl e \<Rightarrow> Inl e | Inr vs \<Rightarrow> Inr (v # vs)))"

text \<open>
  Step (c): the tokens of the converted fields, in order. A scalar is one token, a
  packet its elements, a reference the tag of the object referred to. A flagged block
  is the flag followed by the value or by the elements; an absent optional field
  contributes nothing.
\<close>

definition then_tokens :: "pyerr + pyval list \<Rightarrow> pyerr + pyval list \<Rightarrow> pyerr + pyval list" where
  "then_tokens x rest =
     (case x of
        Inl e \<Rightarrow> Inl e
      | Inr a \<Rightarrow> (case rest of Inl e \<Rightarrow> Inl e | Inr b \<Rightarrow> Inr (a @ b)))"

fun field_tokens :: "kind \<Rightarrow> pyval \<Rightarrow> pyerr + pyval list" where
  "field_tokens Float_field v = Inr [v]"
| "field_tokens Int_field v = Inr [v]"
| "field_tokens Plain_field v = Inr [v]"
| "field_tokens Packet_field v = py_iter v"
| "field_tokens Reference_field v = attr_tag v"
| "field_tokens Optional_float v = (if v = PNone then Inr [] else Inr [v])"
| "field_tokens (Flag_float flag) v = (if v = PNone then Inr [] else Inr [PStr flag, v])"
| "field_tokens (Flag_packet flag) v =
     (if v = PNone then Inr [] else then_tokens (Inr [PStr flag]) (py_iter v))"
| "field_tokens Optional_packet v = (if v = PNone then Inr [] else py_iter v)"

text \<open>
  The fields are encoded one after the other. A positional optional field that is
  absent ends the parameter list: nothing after it is emitted.
\<close>

fun encode_fields :: "(kind \<times> pyval) list \<Rightarrow> pyerr + pyval list" where
  "encode_fields [] = Inr []"
| "encode_fields ((k, v) # fs) =
     (if k = Optional_float \<and> v = PNone then Inr []
      else then_tokens (field_tokens k v) (encode_fields fs))"

text \<open>Step (b): the next tag. The two counters the sources use.\<close>

datatype counter = N_mat | N_mats

fun next_tag :: "counter \<Rightarrow> pyval ctor" where
  "next_tag N_mat = bnd osi_incr_n_mat (\<lambda>_. osi_get_n_mat)"
| "next_tag N_mats = bnd osi_incr_n_mats (\<lambda>_. osi_get_mats)"

text \<open>
  Steps (a) to (e) together. \<open>op\<close> is the lookup of \<^verbatim>\<open>self.op_type\<close>, \<open>sig\<close> the
  names and kinds of the fields, \<open>args\<close> the arguments.
\<close>

definition finish :: "counter \<Rightarrow> pyerr + pyval list \<Rightarrow> (string \<times> kind) list \<Rightarrow> pyval list \<Rightarrow> pyval ctor" where
  "finish ctr op sig vals =
     bnd (next_tag ctr) (\<lambda>tag.
     bnd (lift (py_list [op, item tag, encode_fields (zip (map snd sig) vals)])) (\<lambda>parameters.
     bnd (to_process parameters) (\<lambda>_.
     ret (OpenSeesObject tag parameters (zip (map fst sig) vals)))))"

definition command :: "counter \<Rightarrow> pyerr + pyval list \<Rightarrow> (string \<times> kind) list \<Rightarrow> pyval list \<Rightarrow> pyval ctor" where
  "command ctr op sig args =
     bnd (lift (coerce_fields (zip (map snd sig) args))) (\<lambda>vals. finish ctr op sig vals)"

text \<open>The entity description of a class: its counter and its \<^verbatim>\<open>op_type\<close> lookup.\<close>

definition counter_of :: "cls \<Rightarrow> counter" where
  "counter_of k = (if in_standard k then N_mats else N_mat)"

definition op_item :: "pyval option \<Rightarrow> cls \<Rightarrow> pyerr + pyval list" where
  "op_item op_type k =
     (case class_op_type k of None \<Rightarrow> class_attr op_type | Some s \<Rightarrow> item (PStr s))"

definition command_of :: "pyval option \<Rightarrow> cls \<Rightarrow> pyval list \<Rightarrow> pyval ctor" where
  "command_of op_type k args =
     command (counter_of k) (op_item op_type k) (assigned k (signature k)) (assigned k args)"

text \<open>
  The same framework with the conversions split off one at a time: \<open>done\<close> are the
  values converted so far, \<open>ks\<close> and \<open>as\<close> the kinds and arguments still to go.
\<close>

definition command_acc ::
  "counter \<Rightarrow> pyerr + pyval list \<Rightarrow> (string \<times> kind) list \<Rightarrow> pyval list \<Rightarrow> kind list \<Rightarrow> pyval list \<Rightarrow> pyval ctor" where
  "command_acc ctr op sig done ks as =
     bnd (lift (coerce_fields (zip ks as))) (\<lambda>vs. finish ctr op sig (done @ vs))"

section \<open>Notions used by the properties\<close>

text \<open>The parameters that have a default value in the signature.\<close>

definition defaulted :: "cls \<Rightarrow> string list" where
  "defaulted k =
     (case k of
         Hardening_cls \<Rightarrow> [''eta'']
       | Cast_cls \<Rightarrow> [''a1'', ''a2'', ''a3'', ''a4'']
       | ViscousDamper_cls \<Rightarrow> [''l_gap'', ''nm'', ''rel_tol'', ''abs_tol'', ''max_half'']
       | BilinearOilDamper_cls \<Rightarrow> [''fr'', ''p'', ''l_gap'', ''nm'', ''rel_tol'', ''abs_tol'', ''max_half'']
       | Bilin_cls \<Rightarrow> [''n_factor'']
       | ModIMKPeakOriented_cls \<Rightarrow> []
       | ModIMKPinching_cls \<Rightarrow> []
       | SAWS_cls \<Rightarrow> []
       | BarSlip_cls \<Rightarrow> [''anc_lratio'', ''damage'', ''unit'']
       | BondSP01_cls \<Rightarrow> []
       | Fatigue_cls \<Rightarrow> [''e0'', ''m'', ''min'', ''max'']
       | ImpactMaterial_cls \<Rightarrow> []
       | HyperbolicGapMaterial_cls \<Rightarrow> []
       | LimitState_cls \<Rightarrow> []
       | MinMax_cls \<Rightarrow> [''min_strain'', ''max_strain'']
       | ElasticBilin_cls \<Rightarrow> [''en1'', ''en2'', ''eps_n2'']
       | ElasticMultiLinear_cls \<Rightarrow> [''eta'', ''strain'', ''stress'']
       | MultiLinear_cls \<Rightarrow> []
       | InitStrainMaterial_cls \<Rightarrow> []
       | InitStressMaterial_cls \<Rightarrow> []
       | PathIndependent_cls \<Rightarrow> []
       | ECC01_cls \<Rightarrow> []
       | SelfCentering_cls \<Rightarrow> [''eps_slip'', ''eps_bear'', ''r_bear'']
       | Viscous_cls \<Rightarrow> []
       | BoucWen_cls \<Rightarrow> []
       | BWBN_cls \<Rightarrow> []
       | AxialSp_cls \<Rightarrow> []
       | AxialSpHD_cls \<Rightarrow> []
       | CFSWSWP_cls \<Rightarrow> []
       | CFSSSWP_cls \<Rightarrow> []
       | Elastic_cls \<Rightarrow> [''eta'', ''eneg'']
       | ElasticPP_cls \<Rightarrow> [''epsy_n'', ''eps0'']
       | ElasticPPGap_cls \<Rightarrow> [''eta'', ''damage'']
       | ENT_cls \<Rightarrow> []
       | Parallel_cls \<Rightarrow> [''factor_args'']
       | Series_cls \<Rightarrow> []
       | Straight_cls \<Rightarrow> []
       | Circ_cls \<Rightarrow> [''ang'']
     )"

definition all_required :: "cls \<Rightarrow> bool" where
  "all_required k = (defaulted k = [])"

text \<open>The kinds of the parameters of a class, in the order of the signature.\<close>

definition kinds :: "cls \<Rightarrow> kind list" where
  "kinds k = map snd (signature k)"

fun is_scalar :: "kind \<Rightarrow> bool" where
  "is_scalar Float_field = True"
| "is_scalar Int_field = True"
| "is_scalar Plain_field = True"
| "is_scalar Packet_field = False"
| "is_scalar Reference_field = False"
| "is_scalar Optional_float = False"
| "is_scalar (Flag_float flag) = False"
| "is_scalar (Flag_packet flag) = False"
| "is_scalar Optional_packet = False"

fun is_flag :: "kind \<Rightarrow> bool" where
  "is_flag (Flag_float flag) = True"
| "is_flag (Flag_packet flag) = True"
| "is_flag Float_field = False"
| "is_flag Int_field = False"
| "is_flag Plain_field = False"
| "is_flag Packet_field = False"
| "is_flag Reference_field = False"
| "is_flag Optional_float = False"
| "is_flag Optional_packet = False"

text \<open>What a finished object shows: its \<^verbatim>\<open>_parameters\<close>.\<close>

definition obj_parameters :: "pyval \<Rightarrow> pyval list" where
  "obj_parameters obj =
     (case obj of
        PObj attrs \<Rightarrow> (case map_of attrs ''_parameters'' of Some (PList ps) \<Rightarrow> ps | _ \<Rightarrow> [])
      | _ \<Rightarrow> [])"

text \<open>The objects of the constructions that did not raise, in order.\<close>

fun successes :: "(pyerr + 'a) list \<Rightarrow> 'a list" where
  "successes [] = []"
| "successes (Inl e # rs) = successes rs"
| "successes (Inr x # rs) = x # successes rs"

text \<open>
  Modelled from the spec: a fresh Analysis Context. The class of \<^verbatim>\<open>osi\<close> is not
  among the sources; by section 4.1 tags start at 1, so the counters start at 0. The
  three attributes are present, and nothing was dispatched yet.
\<close>

definition fresh_osi :: osi where
  "fresh_osi = \<lparr>n_mat = Some 0, n_mats = Some 0, mats = Some (PInt 0), dispatched = []\<rparr>"

text \<open>
  The kinds whose tokens are computed without iterating over a value or reading an
  attribute: encoding a field of such a kind cannot raise.
\<close>

fun never_fails :: "kind \<Rightarrow> bool" where
  "never_fails Float_field = True"
| "never_fails Int_field = True"
| "never_fails Plain_field = True"
| "never_fails Optional_float = True"
| "never_fails (Flag_float flag) = True"
| "never_fails Packet_field = False"
| "never_fails Reference_field = False"
| "never_fails (Flag_packet flag) = False"
| "never_fails Optional_packet = False"

text \<open>
  The layout of the classes that hold a reference: scalar fields, then the reference,
  then only fields whose encoding cannot raise. A list of kinds without a reference
  has the layout as well.
\<close>

fun reference_layout :: "kind list \<Rightarrow> bool" where
  "reference_layout [] = True"
| "reference_layout (kd # ks) =
     (if kd = Reference_field then list_all never_fails ks
      else if is_scalar kd then reference_layout ks
      else Reference_field \<notin> set ks)"

text \<open>
  The layout of the classes with positional optional fields: scalar fields and
  positional optional fields only.
\<close>

fun positional :: "kind \<Rightarrow> bool" where
  "positional Optional_float = True"
| "positional Float_field = True"
| "positional Int_field = True"
| "positional Plain_field = True"
| "positional Packet_field = False"
| "positional Reference_field = False"
| "positional (Flag_float flag) = False"
| "positional (Flag_packet flag) = False"
| "positional Optional_packet = False"

section \<open>The constructors of the source run the framework\<close>

subsection \<open>Laws of sequencing\<close>

lemma bnd_ret: "bnd (ret x) f = f x"
  by (simp add: bnd_def ret_def)

lemma bnd_assoc: "bnd (bnd m f) g = bnd m (\<lambda>a. bnd (f a) g)"
  by (auto simp: bnd_def fun_eq_iff split: sum.splits prod.splits)

lemma bnd_lift_Inr: "bnd (lift (Inr x)) f = f x"
  by (simp add: bnd_def lift_def)

lemma bnd_lift_Inl: "bnd (lift (Inl e)) f = lift (Inl e)"
  by (simp add: bnd_def lift_def)

lemma bnd_lift_lift:
  "bnd (lift r) (\<lambda>a. bnd (lift (h a)) g) =
   bnd (lift (case r of Inl e \<Rightarrow> Inl e | Inr a \<Rightarrow> h a)) g"
  by (auto simp: bnd_def lift_def fun_eq_iff split: sum.splits)

lemma py_list_item:
  "py_list (item v # xs) = (case py_list xs of Inl e \<Rightarrow> Inl e | Inr b \<Rightarrow> Inr (v # b))"
  by (simp add: item_def split: sum.splits)

lemma py_float_not_None: "py_float a = Inr v \<Longrightarrow> v \<noteq> PNone"
  by (cases a) (auto simp: str_to_number_def split: sum.splits if_splits)

lemma py_int_not_None: "py_int a = Inr v \<Longrightarrow> v \<noteq> PNone"
  by (cases a) (auto simp: str_to_number_def split: sum.splits if_splits)

subsection \<open>One conversion at a time\<close>

lemma command_start: "command ctr op sig args = command_acc ctr op sig [] (map snd sig) args"
  by (simp add: command_def command_acc_def)

lemma acc_step:
  assumes "\<And>v. coerce_field k a = Inr v \<Longrightarrow> g v = command_acc ctr op sig (done @ [v]) ks as"
  shows "bnd (lift (coerce_field k a)) g = command_acc ctr op sig done (k # ks) (a # as)"
  using assms
  by (auto simp: command_acc_def bnd_def lift_def fun_eq_iff split: sum.splits)

lemma acc_float:
  assumes "\<And>v. v \<noteq> PNone \<Longrightarrow> g v = command_acc ctr op sig (done @ [v]) ks as"
  shows "bnd (lift (py_float a)) g = command_acc ctr op sig done (Float_field # ks) (a # as)"
  using acc_step[of Float_field a g ctr op sig "done" ks as] assms
  by (simp add: py_float_not_None)

lemma acc_int:
  assumes "\<And>v. v \<noteq> PNone \<Longrightarrow> g v = command_acc ctr op sig (done @ [v]) ks as"
  shows "bnd (lift (py_int a)) g = command_acc ctr op sig done (Int_field # ks) (a # as)"
  using acc_step[of Int_field a g ctr op sig "done" ks as] assms
  by (simp add: py_int_not_None)

lemma acc_opt:
  assumes "\<And>v. g v = command_acc ctr op sig (done @ [v]) ks as"
  shows "bnd (lift (if a = PNone then Inr PNone else py_float a)) g =
         command_acc ctr op sig done (Optional_float # ks) (a # as)"
  using acc_step[of Optional_float a g ctr op sig "done" ks as] assms by simp

lemma acc_flag:
  assumes "\<And>v. g v = command_acc ctr op sig (done @ [v]) ks as"
  shows "bnd (lift (if a = PNone then Inr PNone else py_float a)) g =
         command_acc ctr op sig done (Flag_float fl # ks) (a # as)"
  using acc_step[of "Flag_float fl" a g ctr op sig "done" ks as] assms by simp

lemma acc_ret:
  assumes "coerce_field k a = Inr a"
    and "\<And>v. g v = command_acc ctr op sig (done @ [v]) ks as"
  shows "bnd (ret a) g = command_acc ctr op sig done (k # ks) (a # as)"
  using acc_step[of k a g ctr op sig "done" ks as] assms
  by (simp add: bnd_ret bnd_lift_Inr)

lemmas acc_plain = acc_ret[where k=Plain_field, simplified]
lemmas acc_packet = acc_ret[where k=Packet_field, simplified]
lemmas acc_ref = acc_ret[where k=Reference_field, simplified]
lemmas acc_flag_packet = acc_ret[where k="Flag_packet fl", simplified] for fl
lemmas acc_opt_packet = acc_ret[where k=Optional_packet, simplified]

lemma acc_done: "g = finish ctr op sig done \<Longrightarrow> g = command_acc ctr op sig done [] []"
  by (simp add: command_acc_def bnd_lift_Inr)

lemmas acc_rules =
  acc_float acc_int acc_opt acc_flag acc_plain acc_packet acc_ref acc_flag_packet
  acc_opt_packet acc_done

lemmas descr_simps =
  command_of_def assigned_def signature_def counter_of_def in_standard_def op_item_def
  class_op_type_def cls.case cls.distinct list.set insert_iff empty_iff if_False if_True
  simp_thms option.case command_start list.map snd_conv fst_conv

lemmas tail_simps =
  finish_def bnd_assoc bnd_lift_lift py_list_item then_tokens_def item_def star_def
  py_iadd_def class_attr_def

subsection \<open>Each constructor is the framework run on its description\<close>


lemma Hardening_command:
  "Hardening big_e sigma_y h_iso h_kin eta =
     command_of op_type Hardening_cls
       [big_e, sigma_y, h_iso, h_kin, eta]"
  unfolding Hardening_def
  apply (simp only: descr_simps)
  apply (intro acc_rules)
  apply (simp add: tail_simps split: sum.splits if_splits option.splits)
  done

lemma Cast_command:
  "Cast n bo h fy big_e big_l b ro c_r1 c_r2 a1 a2 a3 a4 =
     command_of op_type Cast_cls
       [n, bo, h, fy, big_e, big_l, b, ro, c_r1, c_r2, a1, a2, a3, a4]"
  unfolding Cast_def
  apply (simp only: descr_simps)
  apply (intro acc_rules)
  apply (simp add: tail_simps split: sum.splits if_splits option.splits)
  done

lemma ViscousDamper_command:
  "ViscousDamper big_k cd alpha l_gap nm rel_tol abs_tol max_half =
     command_of op_type ViscousDamper_cls
       [big_k, cd, alpha, l_gap, nm, rel_tol, abs_tol, max_half]"
  unfolding ViscousDamper_def
  apply (simp only: descr_simps)
  apply (intro acc_rules)
  apply (simp add: tail_simps split: sum.splits if_splits option.splits)
  done

lemma BilinearOilDamper_command:
  "BilinearOilDamper big_k cd fr p l_gap nm rel_tol abs_tol max_half =
     command_of op_type BilinearOilDamper_cls
       [big_k, cd, fr, p, l_gap, nm, rel_tol, abs_tol, max_half]"
  unfolding BilinearOilDamper_def
  apply (simp only: descr_simps)
  apply (intro acc_rules)
  apply (simp add: tail_simps split: sum.splits if_splits option.splits)
  done

lemma Bilin_command:
  "Bilin k0 as__plus as__neg my__plus my__neg lamda_s lamda_c lamda_a lamda_k c_s c_c c_a c_k
      theta_p__plus theta_p__neg theta_pc__plus theta_pc__neg res__pos res__neg theta_u__plus
      theta_u__neg d__plus d__neg n_factor =
     command_of op_type Bilin_cls
       [k0, as__plus, as__neg, my__plus, my__neg, lamda_s, lamda_c, lamda_a, lamda_k, c_s, c_c,
        c_a, c_k, theta_p__plus, theta_p__neg, theta_pc__plus, theta_pc__neg, res__pos,
        res__neg, theta_u__plus, theta_u__neg, d__plus, d__neg, n_factor]"
  unfolding Bilin_def
  apply (simp only: descr_simps)
  apply (intro acc_rules)
  apply (simp add: tail_simps split: sum.splits if_splits option.splits)
  done

lemma ModIMKPeakOriented_command:
  "ModIMKPeakOriented k0 as__plus as__neg my__plus my__neg lamda_s lamda_c lamda_a lamda_k c_s
      c_c c_a c_k theta_p__plus theta_p__neg theta_pc__plus theta_pc__neg res__pos res__neg
      theta_u__plus theta_u__neg d__plus d__neg =
     command_of op_type ModIMKPeakOriented_cls
       [k0, as__plus, as__neg, my__plus, my__neg, lamda_s, lamda_c, lamda_a, lamda_k, c_s, c_c,
        c_a, c_k, theta_p__plus, theta_p__neg, theta_pc__plus, theta_pc__neg, res__pos,
        res__neg, theta_u__plus, theta_u__neg, d__plus, d__neg]"
  unfolding ModIMKPeakOriented_def
  apply (simp only: descr_simps)
  apply (intro acc_rules)
  apply (simp add: tail_simps split: sum.splits if_splits option.splits)
  done

lemma ModIMKPinching_command:
  "ModIMKPinching k0 as__plus as__neg my__plus my__neg fpr_pos fpr_neg a_pinch lamda_s lamda_c
      lamda_a lamda_k c_s c_c c_a c_k theta_p__plus theta_p__neg theta_pc__plus theta_pc__neg
      res__pos res__neg theta_u__plus theta_u__neg d__plus d__neg =
     command_of op_type ModIMKPinching_cls
       [k0, as__plus, as__neg, my__plus, my__neg, fpr_pos, fpr_neg, a_pinch, lamda_s, lamda_c,
        lamda_a, lamda_k, c_s, c_c, c_a, c_k, theta_p__plus, theta_p__neg, theta_pc__plus,
        theta_pc__neg, res__pos, res__neg, theta_u__plus, theta_u__neg, d__plus, d__neg]"
  unfolding ModIMKPinching_def
  apply (simp only: descr_simps)
  apply (intro acc_rules)
  apply (simp add: tail_simps split: sum.splits if_splits option.splits)
  done

lemma SAWS_command:
  "SAWS f0 fi du s0 r1 r2 r3 r4 alpha beta =
     command_of op_type SAWS_cls
       [f0, fi, du, s0, r1, r2, r3, r4, alpha, beta]"
  unfolding SAWS_def
  apply (simp only: descr_simps)
  apply (intro acc_rules)
  apply (simp add: tail_simps split: sum.splits if_splits option.splits)
  done

lemma BarSlip_command:
  "BarSlip fc fy es fu eh db ld nb depth height bs_flag otype anc_lratio damage unit =
     command_of op_type BarSlip_cls
       [fc, fy, es, fu, eh, db, ld, nb, depth, height, bs_flag, otype, anc_lratio, damage, unit]"
  unfolding BarSlip_def
  apply (simp add: descr_simps)
  apply (intro acc_rules)
  apply (simp add: tail_simps split: sum.splits if_splits option.splits)
  done

lemma BondSP01_command:
  "BondSP01 fy sy fu su b big_r =
     command_of op_type BondSP01_cls
       [fy, sy, fu, su, b, big_r]"
  unfolding BondSP01_def
  apply (simp only: descr_simps)
  apply (intro acc_rules)
  apply (simp add: tail_simps split: sum.splits if_splits option.splits)
  done

lemma Fatigue_command:
  "Fatigue other e0 m min' max' =
     command_of op_type Fatigue_cls
       [other, e0, m, min', max']"
  unfolding Fatigue_def
  apply (simp only: descr_simps)
  apply (intro acc_rules)
  apply (simp add: tail_simps split: sum.splits if_splits option.splits)
  done

lemma ImpactMaterial_command:
  "ImpactMaterial k1 k2 sigy gap =
     command_of op_type ImpactMaterial_cls
       [k1, k2, sigy, gap]"
  unfolding ImpactMaterial_def
  apply (simp only: descr_simps)
  apply (intro acc_rules)
  apply (simp add: tail_simps split: sum.splits if_splits option.splits)
  done

lemma HyperbolicGapMaterial_command:
  "HyperbolicGapMaterial kmax kur rf fult gap =
     command_of op_type HyperbolicGapMaterial_cls
       [kmax, kur, rf, fult, gap]"
  unfolding HyperbolicGapMaterial_def
  apply (simp only: descr_simps)
  apply (intro acc_rules)
  apply (simp add: tail_simps split: sum.splits if_splits option.splits)
  done

lemma LimitState_command:
  "LimitState s1p e1p s2p e2p s3p e3p s1n e1n s2n e2n s3n e3n pinch_x pinch_y damage1 damage2
      beta curve curve_type =
     command_of op_type LimitState_cls
       [s1p, e1p, s2p, e2p, s3p, e3p, s1n, e1n, s2n, e2n, s3n, e3n, pinch_x, pinch_y, damage1,
        damage2, beta, curve, curve_type]"
  unfolding LimitState_def
  apply (simp only: descr_simps)
  apply (intro acc_rules)
  apply (simp add: tail_simps split: sum.splits if_splits option.splits)
  done

lemma MinMax_command:
  "MinMax other min_strain max_strain =
     command_of op_type MinMax_cls
       [other, min_strain, max_strain]"
  unfolding MinMax_def
  apply (simp only: descr_simps)
  apply (intro acc_rules)
  apply (simp add: tail_simps split: sum.splits if_splits option.splits)
  done

lemma ElasticBilin_command:
  "ElasticBilin ep1 ep2 eps_p2 en1 en2 eps_n2 =
     command_of op_type ElasticBilin_cls
       [ep1, ep2, eps_p2, en1, en2, eps_n2]"
  unfolding ElasticBilin_def
  apply (simp only: descr_simps)
  apply (intro acc_rules)
  apply (simp add: tail_simps split: sum.splits if_splits option.splits)
  done

lemma ElasticMultiLinear_command:
  "ElasticMultiLinear eta strain stress =
     command_of op_type ElasticMultiLinear_cls
       [eta, strain, stress]"
  unfolding ElasticMultiLinear_def
  apply (simp only: descr_simps)
  apply (intro acc_rules)
  apply (simp add: tail_simps split: sum.splits if_splits option.splits)
  done

lemma MultiLinear_command:
  "MultiLinear pts =
     command_of op_type MultiLinear_cls
       [pts]"
  unfolding MultiLinear_def
  apply (simp only: descr_simps)
  apply (intro acc_rules)
  apply (simp add: tail_simps split: sum.splits if_splits option.splits)
  done

lemma InitStrainMaterial_command:
  "InitStrainMaterial other init_strain =
     command_of op_type InitStrainMaterial_cls
       [other, init_strain]"
  unfolding InitStrainMaterial_def
  apply (simp only: descr_simps)
  apply (intro acc_rules)
  apply (simp add: tail_simps split: sum.splits if_splits option.splits)
  done

lemma InitStressMaterial_command:
  "InitStressMaterial other init_stress =
     command_of op_type InitStressMaterial_cls
       [other, init_stress]"
  unfolding InitStressMaterial_def
  apply (simp only: descr_simps)
  apply (intro acc_rules)
  apply (simp add: tail_simps split: sum.splits if_splits option.splits)
  done

lemma PathIndependent_command:
  "PathIndependent other =
     command_of op_type PathIndependent_cls
       [other]"
  unfolding PathIndependent_def
  apply (simp only: descr_simps)
  apply (intro acc_rules)
  apply (simp add: tail_simps split: sum.splits if_splits option.splits)
  done

lemma ECC01_command:
  "ECC01 sigt0 epst0 sigt1 epst1 epst2 sigc0 epsc0 epsc1 alpha_t1 alpha_t2 alpha_c alpha_cu
      beta_t beta_c =
     command_of op_type ECC01_cls
       [sigt0, epst0, sigt1, epst1, epst2, sigc0, epsc0, epsc1, alpha_t1, alpha_t2, alpha_c,
        alpha_cu, beta_t, beta_c]"
  unfolding ECC01_def
  apply (simp only: descr_simps)
  apply (intro acc_rules)
  apply (simp add: tail_simps split: sum.splits if_splits option.splits)
  done

lemma SelfCentering_command:
  "SelfCentering k1 k2 sig_act beta eps_slip eps_bear r_bear =
     command_of op_type SelfCentering_cls
       [k1, k2, sig_act, beta, eps_slip, eps_bear, r_bear]"
  unfolding SelfCentering_def
  apply (simp only: descr_simps)
  apply (intro acc_rules)
  apply (simp add: tail_simps split: sum.splits if_splits option.splits)
  done

lemma Viscous_command:
  "Viscous big_c alpha =
     command_of op_type Viscous_cls
       [big_c, alpha]"
  unfolding Viscous_def
  apply (simp only: descr_simps)
  apply (intro acc_rules)
  apply (simp add: tail_simps split: sum.splits if_splits option.splits)
  done

lemma BoucWen_command:
  "BoucWen alpha ko n gamma beta ao delta_a delta_nu delta_eta =
     command_of op_type BoucWen_cls
       [alpha, ko, n, gamma, beta, ao, delta_a, delta_nu, delta_eta]"
  unfolding BoucWen_def
  apply (simp only: descr_simps)
  apply (intro acc_rules)
  apply (simp add: tail_simps split: sum.splits if_splits option.splits)
  done

lemma BWBN_command:
  "BWBN alpha ko n gamma beta ao q zetas p shi delta_shi lamb tol max_iter =
     command_of op_type BWBN_cls
       [alpha, ko, n, gamma, beta, ao, q, zetas, p, shi, delta_shi, lamb, tol, max_iter]"
  unfolding BWBN_def
  apply (simp only: descr_simps)
  apply (intro acc_rules)
  apply (simp add: tail_simps split: sum.splits if_splits option.splits)
  done

lemma AxialSp_command:
  "AxialSp sce fty fcy bte bty bcy fcr =
     command_of op_type AxialSp_cls
       [sce, fty, fcy, bte, bty, bcy, fcr]"
  unfolding AxialSp_def
  apply (simp only: descr_simps)
  apply (intro acc_rules)
  apply (simp add: tail_simps split: sum.splits if_splits option.splits)
  done

lemma AxialSpHD_command:
  "AxialSpHD sce fty fcy bte bty bth bcy fcr ath =
     command_of op_type AxialSpHD_cls
       [sce, fty, fcy, bte, bty, bth, bcy, fcr, ath]"
  unfolding AxialSpHD_def
  apply (simp only: descr_simps)
  apply (intro acc_rules)
  apply (simp add: tail_simps split: sum.splits if_splits option.splits)
  done

lemma CFSWSWP_command:
  "CFSWSWP height width fut tf ife ifi ts np ds vs sc nc otype opening_area opening_length =
     command_of op_type CFSWSWP_cls
       [height, width, fut, tf, ife, ifi, ts, np, ds, vs, sc, nc, otype, opening_area,
        opening_length]"
  unfolding CFSWSWP_def
  apply (simp only: descr_simps)
  apply (intro acc_rules)
  apply (simp add: tail_simps split: sum.splits if_splits option.splits)
  done

lemma CFSSSWP_command:
  "CFSSSWP height width fuf fyf tf af fus fys ts np ds vs sc dt opening_area opening_length =
     command_of op_type CFSSSWP_cls
       [height, width, fuf, fyf, tf, af, fus, fys, ts, np, ds, vs, sc, dt, opening_area,
        opening_length]"
  unfolding CFSSSWP_def
  apply (simp only: descr_simps)
  apply (intro acc_rules)
  apply (simp add: tail_simps split: sum.splits if_splits option.splits)
  done

lemma Elastic_command:
  "Elastic op_type big_e eta eneg =
     command_of op_type Elastic_cls
       [big_e, eta, eneg]"
  unfolding Elastic_def
  apply (simp only: descr_simps)
  apply (intro acc_rules)
  apply (simp add: tail_simps split: sum.splits if_splits option.splits)
  done

lemma ElasticPP_command:
  "ElasticPP op_type big_e epsy_p epsy_n eps0 =
     command_of op_type ElasticPP_cls
       [big_e, epsy_p, epsy_n, eps0]"
  unfolding ElasticPP_def
  apply (simp only: descr_simps)
  apply (intro acc_rules)
  apply (simp add: tail_simps split: sum.splits if_splits option.splits)
  done

lemma ElasticPPGap_command:
  "ElasticPPGap op_type big_e fy gap eta damage =
     command_of op_type ElasticPPGap_cls
       [big_e, fy, gap, eta, damage]"
  unfolding ElasticPPGap_def
  apply (simp only: descr_simps)
  apply (intro acc_rules)
  apply (simp add: tail_simps split: sum.splits if_splits option.splits)
  done

lemma ENT_command:
  "ENT op_type big_e =
     command_of op_type ENT_cls
       [big_e]"
  unfolding ENT_def
  apply (simp only: descr_simps)
  apply (intro acc_rules)
  apply (simp add: tail_simps split: sum.splits if_splits option.splits)
  done

lemma Parallel_command:
  "Parallel op_type tags factor_args =
     command_of op_type Parallel_cls
       [tags, factor_args]"
  unfolding Parallel_def
  apply (simp only: descr_simps)
  apply (intro acc_rules)
  apply (simp add: tail_simps split: sum.splits if_splits option.splits)
  done

lemma Series_command:
  "Series op_type tags =
     command_of op_type Series_cls
       [tags]"
  unfolding Series_def
  apply (simp only: descr_simps)
  apply (intro acc_rules)
  apply (simp add: tail_simps split: sum.splits if_splits option.splits)
  done

lemma Straight_command:
  "Straight num_fiber area_fiber start end =
     command_of op_type Straight_cls
       [num_fiber, area_fiber, start, end]"
  unfolding Straight_def
  apply (simp only: descr_simps)
  apply (intro acc_rules)
  apply (simp add: tail_simps split: sum.splits if_splits option.splits)
  done

lemma Circ_command:
  "Circ num_fiber area_fiber center radius ang =
     command_of op_type Circ_cls
       [num_fiber, area_fiber, center, radius, ang]"
  unfolding Circ_def
  apply (simp only: descr_simps)
  apply (intro acc_rules)
  apply (simp add: tail_simps split: sum.splits if_splits option.splits)
  done

lemma arity:
  "length (signature Hardening_cls) = 5"
  "length (signature Cast_cls) = 14"
  "length (signature ViscousDamper_cls) = 8"
  "length (signature BilinearOilDamper_cls) = 9"
  "length (signature Bilin_cls) = 24"
  "length (signature ModIMKPeakOriented_cls) = 23"
  "length (signature ModIMKPinching_cls) = 26"
  "length (signature SAWS_cls) = 10"
  "length (signature BarSlip_cls) = 15"
  "length (signature BondSP01_cls) = 6"
  "length (signature Fatigue_cls) = 5"
  "length (signature ImpactMaterial_cls) = 4"
  "length (signature HyperbolicGapMaterial_cls) = 5"
  "length (signature LimitState_cls) = 19"
  "length (signature MinMax_cls) = 3"
  "length (signature ElasticBilin_cls) = 6"
  "length (signature ElasticMultiLinear_cls) = 3"
  "length (signature MultiLinear_cls) = 1"
  "length (signature InitStrainMaterial_cls) = 2"
  "length (signature InitStressMaterial_cls) = 2"
  "length (signature PathIndependent_cls) = 1"
  "length (signature ECC01_cls) = 14"
  "length (signature SelfCentering_cls) = 7"
  "length (signature Viscous_cls) = 2"
  "length (signature BoucWen_cls) = 9"
  "length (signature BWBN_cls) = 14"
  "length (signature AxialSp_cls) = 7"
  "length (signature AxialSpHD_cls) = 9"
  "length (signature CFSWSWP_cls) = 15"
  "length (signature CFSSSWP_cls) = 16"
  "length (signature Elastic_cls) = 3"
  "length (signature ElasticPP_cls) = 4"
  "length (signature ElasticPPGap_cls) = 5"
  "length (signature ENT_cls) = 1"
  "length (signature Parallel_cls) = 2"
  "length (signature Series_cls) = 1"
  "length (signature Straight_cls) = 4"
  "length (signature Circ_cls) = 5"
  by (simp_all add: signature_def)

lemma construct_command:
  "construct op_type (Call k a) =
     (if length a \<noteq> length (signature k) then lift (Inl TypeError) else command_of op_type k a)"
proof (cases "length a = length (signature k)")
  case False
  then show ?thesis by (simp add: construct_def)
next
  case len: True
  show ?thesis
  proof (cases k)
    case Hardening_cls
    with len have "length a = 5" by (simp add: arity)
    with map_nth[of a] show ?thesis
      by (simp add: Hardening_cls construct_def arity Hardening_command[where op_type=op_type] upt_conv_Cons eval_nat_numeral)
    next
    case Cast_cls
    with len have "length a = 14" by (simp add: arity)
    with map_nth[of a] show ?thesis
      by (simp add: Cast_cls construct_def arity Cast_command[where op_type=op_type] upt_conv_Cons eval_nat_numeral)
    next
    case ViscousDamper_cls
    with len have "length a = 8" by (simp add: arity)
    with map_nth[of a] show ?thesis
      by (simp add: ViscousDamper_cls construct_def arity ViscousDamper_command[where op_type=op_type] upt_conv_Cons eval_nat_numeral)
    next
    case BilinearOilDamper_cls
    with len have "length a = 9" by (simp add: arity)
    with map_nth[of a] show ?thesis
      by (simp add: BilinearOilDamper_cls construct_def arity BilinearOilDamper_command[where op_type=op_type] upt_conv_Cons eval_nat_numeral)
    next
    case Bilin_cls
    with len have "length a = 24" by (simp add: arity)
    with map_nth[of a] show ?thesis
      by (simp add: Bilin_cls construct_def arity Bilin_command[where op_type=op_type] upt_conv_Cons eval_nat_numeral)
    next
    case ModIMKPeakOriented_cls
    with len have "length a = 23" by (simp add: arity)
    with map_nth[of a] show ?thesis
      by (simp add: ModIMKPeakOriented_cls construct_def arity ModIMKPeakOriented_command[where op_type=op_type] upt_conv_Cons eval_nat_numeral)
    next
    case ModIMKPinching_cls
    with len have "length a = 26" by (simp add: arity)
    with map_nth[of a] show ?thesis
      by (simp add: ModIMKPinching_cls construct_def arity ModIMKPinching_command[where op_type=op_type] upt_conv_Cons eval_nat_numeral)
    next
    case SAWS_cls
    with len have "length a = 10" by (simp add: arity)
    with map_nth[of a] show ?thesis
      by (simp add: SAWS_cls construct_def arity SAWS_command[where op_type=op_type] upt_conv_Cons eval_nat_numeral)
    next
    case BarSlip_cls
    with len have "length a = 15" by (simp add: arity)
    with map_nth[of a] show ?thesis
      by (simp add: BarSlip_cls construct_def arity BarSlip_command[where op_type=op_type] upt_conv_Cons eval_nat_numeral)
    next
    case BondSP01_cls
    with len have "length a = 6" by (simp add: arity)
    with map_nth[of a] show ?thesis
      by (simp add: BondSP01_cls construct_def arity BondSP01_command[where op_type=op_type] upt_conv_Cons eval_nat_numeral)
    next
    case Fatigue_cls
    with len have "length a = 5" by (simp add: arity)
    with map_nth[of a] show ?thesis
      by (simp add: Fatigue_cls construct_def arity Fatigue_command[where op_type=op_type] upt_conv_Cons eval_nat_numeral)
    next
    case ImpactMaterial_cls
    with len have "length a = 4" by (simp add: arity)
    with map_nth[of a] show ?thesis
      by (simp add: ImpactMaterial_cls construct_def arity ImpactMaterial_command[where op_type=op_type] upt_conv_Cons eval_nat_numeral)
    next
    case HyperbolicGapMaterial_cls
    with len have "length a = 5" by (simp add: arity)
    with map_nth[of a] show ?thesis
      by (simp add: HyperbolicGapMaterial_cls construct_def arity HyperbolicGapMaterial_command[where op_type=op_type] upt_conv_Cons eval_nat_numeral)
    next
    case LimitState_cls
    with len have "length a = 19" by (simp add: arity)
    with map_nth[of a] show ?thesis
      by (simp add: LimitState_cls construct_def arity LimitState_command[where op_type=op_type] upt_conv_Cons eval_nat_numeral)
    next
    case MinMax_cls
    with len have "length a = 3" by (simp add: arity)
    with map_nth[of a] show ?thesis
      by (simp add: MinMax_cls construct_def arity MinMax_command[where op_type=op_type] upt_conv_Cons eval_nat_numeral)
    next
    case ElasticBilin_cls
    with len have "length a = 6" by (simp add: arity)
    with map_nth[of a] show ?thesis
      by (simp add: ElasticBilin_cls construct_def arity ElasticBilin_command[where op_type=op_type] upt_conv_Cons eval_nat_numeral)
    next
    case ElasticMultiLinear_cls
    with len have "length a = 3" by (simp add: arity)
    with map_nth[of a] show ?thesis
      by (simp add: ElasticMultiLinear_cls construct_def arity ElasticMultiLinear_command[where op_type=op_type] upt_conv_Cons eval_nat_numeral)
    next
    case MultiLinear_cls
    with len have "length a = 1" by (simp add: arity)
    with map_nth[of a] show ?thesis
      by (simp add: MultiLinear_cls construct_def arity MultiLinear_command[where op_type=op_type] upt_conv_Cons eval_nat_numeral)
    next
    case InitStrainMaterial_cls
    with len have "length a = 2" by (simp add: arity)
    with map_nth[of a] show ?thesis
      by (simp add: InitStrainMaterial_cls construct_def arity InitStrainMaterial_command[where op_type=op_type] upt_conv_Cons eval_nat_numeral)
    next
    case InitStressMaterial_cls
    with len have "length a = 2" by (simp add: arity)
    with map_nth[of a] show ?thesis
      by (simp add: InitStressMaterial_cls construct_def arity InitStressMaterial_command[where op_type=op_type] upt_conv_Cons eval_nat_numeral)
    next
    case PathIndependent_cls
    with len have "length a = 1" by (simp add: arity)
    with map_nth[of a] show ?thesis
      by (simp add: PathIndependent_cls construct_def arity PathIndependent_command[where op_type=op_type] upt_conv_Cons eval_nat_numeral)
    next
    case ECC01_cls
    with len have "length a = 14" by (simp add: arity)
    with map_nth[of a] show ?thesis
      by (simp add: ECC01_cls construct_def arity ECC01_command[where op_type=op_type] upt_conv_Cons eval_nat_numeral)
    next
    case SelfCentering_cls
    with len have "length a = 7" by (simp add: arity)
    with map_nth[of a] show ?thesis
      by (simp add: SelfCentering_cls construct_def arity SelfCentering_command[where op_type=op_type] upt_conv_Cons eval_nat_numeral)
    next
    case Viscous_cls
    with len have "length a = 2" by (simp add: arity)
    with map_nth[of a] show ?thesis
      by (simp add: Viscous_cls construct_def arity Viscous_command[where op_type=op_type] upt_conv_Cons eval_nat_numeral)
    next
    case BoucWen_cls
    with len have "length a = 9" by (simp add: arity)
    with map_nth[of a] show ?thesis
      by (simp add: BoucWen_cls construct_def arity BoucWen_command[where op_type=op_type] upt_conv_Cons eval_nat_numeral)
    next
    case BWBN_cls
    with len have "length a = 14" by (simp add: arity)
    with map_nth[of a] show ?thesis
      by (simp add: BWBN_cls construct_def arity BWBN_command[where op_type=op_type] upt_conv_Cons eval_nat_numeral)
    next
    case AxialSp_cls
    with len have "length a = 7" by (simp add: arity)
    with map_nth[of a] show ?thesis
      by (simp add: AxialSp_cls construct_def arity AxialSp_command[where op_type=op_type] upt_conv_Cons eval_nat_numeral)
    next
    case AxialSpHD_cls
    with len have "length a = 9" by (simp add: arity)
    with map_nth[of a] show ?thesis
      by (simp add: AxialSpHD_cls construct_def arity AxialSpHD_command[where op_type=op_type] upt_conv_Cons eval_nat_numeral)
    next
    case CFSWSWP_cls
    with len have "length a = 15" by (simp add: arity)
    with map_nth[of a] show ?thesis
      by (simp add: CFSWSWP_cls construct_def arity CFSWSWP_command[where op_type=op_type] upt_conv_Cons eval_nat_numeral)
    next
    case CFSSSWP_cls
    with len have "length a = 16" by (simp add: arity)
    with map_nth[of a] show ?thesis
      by (simp add: CFSSSWP_cls construct_def arity CFSSSWP_command[where op_type=op_type] upt_conv_Cons eval_nat_numeral)
    next
    case Elastic_cls
    with len have "length a = 3" by (simp add: arity)
    with map_nth[of a] show ?thesis
      by (simp add: Elastic_cls construct_def arity Elastic_command[where op_type=op_type] upt_conv_Cons eval_nat_numeral)
    next
    case ElasticPP_cls
    with len have "length a = 4" by (simp add: arity)
    with map_nth[of a] show ?thesis
      by (simp add: ElasticPP_cls construct_def arity ElasticPP_command[where op_type=op_type] upt_conv_Cons eval_nat_numeral)
    next
    case ElasticPPGap_cls
    with len have "length a = 5" by (simp add: arity)
    with map_nth[of a] show ?thesis
      by (simp add: ElasticPPGap_cls construct_def arity ElasticPPGap_command[where op_type=op_type] upt_conv_Cons eval_nat_numeral)
    next
    case ENT_cls
    with len have "length a = 1" by (simp add: arity)
    with map_nth[of a] show ?thesis
      by (simp add: ENT_cls construct_def arity ENT_command[where op_type=op_type] upt_conv_Cons eval_nat_numeral)
    next
    case Parallel_cls
    with len have "length a = 2" by (simp add: arity)
    with map_nth[of a] show ?thesis
      by (simp add: Parallel_cls construct_def arity Parallel_command[where op_type=op_type] upt_conv_Cons eval_nat_numeral)
    next
    case Series_cls
    with len have "length a = 1" by (simp add: arity)
    with map_nth[of a] show ?thesis
      by (simp add: Series_cls construct_def arity Series_command[where op_type=op_type] upt_conv_Cons eval_nat_numeral)
    next
    case Straight_cls
    with len have "length a = 4" by (simp add: arity)
    with map_nth[of a] show ?thesis
      by (simp add: Straight_cls construct_def arity Straight_command[where op_type=op_type] upt_conv_Cons eval_nat_numeral)
    next
    case Circ_cls
    with len have "length a = 5" by (simp add: arity)
    with map_nth[of a] show ?thesis
      by (simp add: Circ_cls construct_def arity Circ_command[where op_type=op_type] upt_conv_Cons eval_nat_numeral)
  qed
qed

subsection \<open>What a run of the framework does\<close>

declare next_tag.simps [simp del]

lemma next_tag_N_mat:
  "next_tag N_mat s =
     (case n_mat s of
        None \<Rightarrow> (Inl AttributeError, s)
      | Some n \<Rightarrow> (Inr (PInt (n + 1)), s\<lparr>n_mat := Some (n + 1)\<rparr>))"
  by (simp add: next_tag.simps bnd_def osi_incr_n_mat_def osi_get_n_mat_def split: option.splits)

lemma next_tag_N_mats:
  "next_tag N_mats s =
     (case n_mats s of
        None \<Rightarrow> (Inl AttributeError, s)
      | Some n \<Rightarrow>
          (case mats s of
             None \<Rightarrow> (Inl AttributeError, s\<lparr>n_mats := Some (n + 1)\<rparr>)
           | Some t \<Rightarrow> (Inr t, s\<lparr>n_mats := Some (n + 1)\<rparr>)))"
  by (simp add: next_tag.simps bnd_def osi_incr_n_mats_def osi_get_mats_def split: option.splits)

lemma next_tag_dispatched: "next_tag ctr s = (r, s1) \<Longrightarrow> dispatched s1 = dispatched s"
  by (cases ctr) (auto simp: next_tag_N_mat next_tag_N_mats split: option.splits)

lemma command_unfold:
  "command ctr op sig args s =
     (case coerce_fields (zip (map snd sig) args) of
        Inl e \<Rightarrow> (Inl e, s)
      | Inr vals \<Rightarrow>
          (case next_tag ctr s of
             (Inl e, s1) \<Rightarrow> (Inl e, s1)
           | (Inr tag, s1) \<Rightarrow>
               (case py_list [op, item tag, encode_fields (zip (map snd sig) vals)] of
                  Inl e \<Rightarrow> (Inl e, s1)
                | Inr ps \<Rightarrow>
                    (Inr (OpenSeesObject tag ps (zip (map fst sig) vals)),
                     s1\<lparr>dispatched := dispatched s1 @ [ps]\<rparr>))))"
  by (simp add: command_def finish_def bnd_def lift_def ret_def to_process_def
      split: sum.splits prod.splits)

lemma obj_parameters_OpenSeesObject [simp]:
  "obj_parameters (OpenSeesObject tag ps attrs) = ps"
  by (simp add: obj_parameters_def OpenSeesObject_def)

lemma py_tag_of_OpenSeesObject [simp]:
  "py_tag_of (OpenSeesObject tag ps attrs) = Inr tag"
  by (simp add: OpenSeesObject_def)

lemma command_Inr:
  assumes "command ctr op sig args s = (Inr obj, s')"
  obtains vals tag s1 opv toks where
    "coerce_fields (zip (map snd sig) args) = Inr vals"
    "next_tag ctr s = (Inr tag, s1)"
    "op = Inr opv"
    "encode_fields (zip (map snd sig) vals) = Inr toks"
    "obj = OpenSeesObject tag (opv @ tag # toks) (zip (map fst sig) vals)"
    "s' = s1\<lparr>dispatched := dispatched s1 @ [opv @ tag # toks]\<rparr>"
  using assms unfolding command_unfold
  by (auto split: sum.splits prod.splits simp: item_def)

lemma command_Inl:
  assumes "command ctr op sig args s = (Inl e, s')"
  shows "dispatched s' = dispatched s"
  using assms unfolding command_unfold
  by (auto split: sum.splits prod.splits dest: next_tag_dispatched)

lemma command_coerce_Inl:
  assumes "coerce_fields (zip (map snd sig) args) = Inl e"
  shows "command ctr op sig args s = (Inl e, s)"
  using assms by (simp add: command_unfold)

lemma op_item_Inr: "op_item op_type k = Inr opv \<Longrightarrow> \<exists>op. opv = [op]"
  by (auto simp: op_item_def item_def class_attr_def split: option.splits)

lemma assigned_id: "k \<noteq> BarSlip_cls \<Longrightarrow> assigned k xs = xs"
  by (simp add: assigned_def)

lemma construct_Inr:
  assumes "construct op_type (Call k a) s = (Inr obj, s')"
  obtains vals tag s1 op toks where
    "length a = length (signature k)"
    "coerce_fields (zip (map snd (assigned k (signature k))) (assigned k a)) = Inr vals"
    "next_tag (counter_of k) s = (Inr tag, s1)"
    "op_item op_type k = Inr [op]"
    "encode_fields (zip (map snd (assigned k (signature k))) vals) = Inr toks"
    "obj = OpenSeesObject tag (op # tag # toks) (zip (map fst (assigned k (signature k))) vals)"
    "s' = s1\<lparr>dispatched := dispatched s1 @ [op # tag # toks]\<rparr>"
proof -
  from assms have len: "length a = length (signature k)"
    by (auto simp: construct_command lift_def split: if_splits)
  with assms have "command_of op_type k a s = (Inr obj, s')"
    by (simp add: construct_command)
  then obtain vals tag s1 opv toks where *:
    "coerce_fields (zip (map snd (assigned k (signature k))) (assigned k a)) = Inr vals"
    "next_tag (counter_of k) s = (Inr tag, s1)"
    "op_item op_type k = Inr opv"
    "encode_fields (zip (map snd (assigned k (signature k))) vals) = Inr toks"
    "obj = OpenSeesObject tag (opv @ tag # toks) (zip (map fst (assigned k (signature k))) vals)"
    "s' = s1\<lparr>dispatched := dispatched s1 @ [opv @ tag # toks]\<rparr>"
    unfolding command_of_def by (elim command_Inr)
  from *(3) obtain op where "opv = [op]" by (auto dest: op_item_Inr)
  with * len show thesis by (intro that[of vals tag s1 op toks]) simp_all
qed

lemma construct_dispatched:
  assumes "construct op_type c s = (r, s')"
  shows "dispatched s' = dispatched s @ (case r of Inl e \<Rightarrow> [] | Inr obj \<Rightarrow> [obj_parameters obj])"
proof (cases c)
  case (Call k a)
  show ?thesis
  proof (cases r)
    case (Inl e)
    with assms Call show ?thesis
      by (auto simp: construct_command lift_def command_of_def split: if_splits dest: command_Inl)
  next
    case (Inr obj)
    with assms Call show ?thesis
      by (auto elim!: construct_Inr dest: next_tag_dispatched)
  qed
qed

section \<open>Conversions and tokens, field by field\<close>

lemma coerce_fields_length:
  "coerce_fields fs = Inr vals \<Longrightarrow> length vals = length fs"
  by (induction fs arbitrary: vals) (auto split: sum.splits)

lemma coerce_fields_nth:
  "coerce_fields fs = Inr vals \<Longrightarrow> i < length fs \<Longrightarrow>
     coerce_field (fst (fs ! i)) (snd (fs ! i)) = Inr (vals ! i)"
proof (induction fs arbitrary: vals i)
  case Nil
  then show ?case by simp
next
  case (Cons f fs)
  then show ?case
    by (cases f; cases i) (auto split: sum.splits)
qed

lemma encode_fields_blocks:
  assumes "encode_fields fs = Inr toks" and "Optional_float \<notin> fst ` set fs"
  shows "\<exists>blocks. map (\<lambda>(kd, v). field_tokens kd v) fs = map Inr blocks \<and> toks = concat blocks"
  using assms
proof (induction fs arbitrary: toks)
  case Nil
  then show ?case by simp
next
  case (Cons f fs)
  obtain kd v where f: "f = (kd, v)" by (cases f)
  from Cons.prems f obtain b rest where b: "field_tokens kd v = Inr b"
    and rest: "encode_fields fs = Inr rest" and toks: "toks = b @ rest"
    by (auto simp: then_tokens_def split: sum.splits if_splits)
  from Cons.IH[OF rest] Cons.prems(2) obtain blocks where
    "map (\<lambda>(kd, v). field_tokens kd v) fs = map Inr blocks" "rest = concat blocks"
    by auto
  with f b toks show ?case
    by (intro exI[of _ "b # blocks"]) simp
qed

lemma encode_fields_scalar:
  "list_all is_scalar (map fst fs) \<Longrightarrow> encode_fields fs = Inr (map snd fs)"
proof (induction fs)
  case Nil
  show ?case by simp
next
  case (Cons f fs)
  then show ?case
    by (cases f; cases "fst f") (auto simp: then_tokens_def)
qed

lemma scalar_tokens: "is_scalar kd \<Longrightarrow> field_tokens kd v = Inr [v]"
  by (cases kd) auto

lemma scalar_not_optional: "is_scalar kd \<Longrightarrow> kd \<noteq> Optional_float"
  by (cases kd) auto

lemma never_fails_tokens: "never_fails kd \<Longrightarrow> \<exists>b. field_tokens kd v = Inr b"
  by (cases kd) auto

lemma encode_never_fails:
  "list_all never_fails (map fst fs) \<Longrightarrow> \<exists>toks. encode_fields fs = Inr toks"
proof (induction fs)
  case Nil
  show ?case by simp
next
  case (Cons f fs)
  obtain kd v where f: "f = (kd, v)" by (cases f)
  from Cons f obtain rest b where "encode_fields fs = Inr rest" "field_tokens kd v = Inr b"
    using never_fails_tokens[of kd v] by auto
  with f show ?case by (simp add: then_tokens_def)
qed

lemma positional_tokens:
  "positional kd \<Longrightarrow> \<not> (kd = Optional_float \<and> v = PNone) \<Longrightarrow> field_tokens kd v = Inr [v]"
  by (cases kd) auto

lemma encode_positional:
  assumes "list_all positional (map fst fs)"
  shows "\<exists>j\<le>length fs. encode_fields fs = Inr (take j (map snd fs)) \<and>
           (\<forall>i<length fs. fst (fs ! i) = Optional_float \<and> snd (fs ! i) = PNone \<longrightarrow> j \<le> i)"
  using assms
proof (induction fs)
  case Nil
  then show ?case by simp
next
  case (Cons f fs)
  obtain kd v where f: "f = (kd, v)" by (cases f)
  show ?case
  proof (cases "kd = Optional_float \<and> v = PNone")
    case True
    with f show ?thesis by (intro exI[of _ 0]) simp
  next
    case False
    from Cons obtain j where j: "j \<le> length fs" "encode_fields fs = Inr (take j (map snd fs))"
      "\<forall>i<length fs. fst (fs ! i) = Optional_float \<and> snd (fs ! i) = PNone \<longrightarrow> j \<le> i"
      by auto
    from Cons.prems f False have ft: "field_tokens kd v = Inr [v]"
      by (intro positional_tokens) auto
    have "\<forall>i<length (f # fs). fst ((f # fs) ! i) = Optional_float \<and> snd ((f # fs) ! i) = PNone
            \<longrightarrow> Suc j \<le> i"
    proof (intro allI impI)
      fix i assume "i < length (f # fs)"
        and "fst ((f # fs) ! i) = Optional_float \<and> snd ((f # fs) ! i) = PNone"
      with f False j(3) show "Suc j \<le> i" by (cases i) auto
    qed
    with f False j ft show ?thesis
      by (intro exI[of _ "Suc j"]) (simp add: then_tokens_def)
  qed
qed


text \<open>The encoding around a reference: the scalars before it, its tag, the rest.\<close>

lemma encode_reference:
  assumes "list_all is_scalar (take i (map fst fs))" and "i < length fs"
    and "fst (fs ! i) = Reference_field"
  shows "encode_fields fs =
           then_tokens (Inr (take i (map snd fs)))
             (then_tokens (attr_tag (snd (fs ! i))) (encode_fields (drop (Suc i) fs)))"
  using assms
proof (induction fs arbitrary: i)
  case Nil
  then show ?case by simp
next
  case (Cons f fs)
  obtain kd v where f: "f = (kd, v)" by (cases f)
  show ?case
  proof (cases i)
    case 0
    with Cons.prems f show ?thesis
      by (simp add: then_tokens_def split: sum.splits)
  next
    case (Suc i')
    with Cons.prems f have sc: "is_scalar kd" by simp
    from Cons.IH[of i'] Cons.prems Suc have
      "encode_fields fs =
         then_tokens (Inr (take i' (map snd fs)))
           (then_tokens (attr_tag (snd (fs ! i'))) (encode_fields (drop (Suc i') fs)))"
      by simp
    with f Suc sc show ?thesis
      by (simp add: scalar_tokens scalar_not_optional then_tokens_def split: sum.splits)
  qed
qed

lemma coerce_reference_update:
  assumes "coerce_fields (zip ks a) = Inr vals" and "i < length ks" and "i < length a"
    and "ks ! i = Reference_field"
  shows "vals ! i = a ! i \<and> coerce_fields (zip ks (a[i := w])) = Inr (vals[i := w])"
  using assms
proof (induction ks arbitrary: a vals i)
  case Nil
  then show ?case by simp
next
  case (Cons kd ks)
  from Cons.prems(3) obtain x xs where a: "a = x # xs" by (cases a) auto
  show ?case
  proof (cases i)
    case 0
    with Cons.prems a show ?thesis by (auto split: sum.splits)
  next
    case (Suc i')
    with Cons.prems a obtain v vs where vals: "vals = v # vs"
      and v: "coerce_field kd x = Inr v" and vs: "coerce_fields (zip ks xs) = Inr vs"
      by (auto split: sum.splits)
    from Cons.IH[OF vs, of i'] Cons.prems a Suc have
      "vs ! i' = xs ! i' \<and> coerce_fields (zip ks (xs[i' := w])) = Inr (vs[i' := w])"
      by simp
    with a Suc vals v show ?thesis by simp
  qed
qed

lemma reference_layout_nth:
  assumes "reference_layout ks" and "i < length ks" and "ks ! i = Reference_field"
  shows "list_all is_scalar (take i ks) \<and> list_all never_fails (drop (Suc i) ks)"
  using assms
proof (induction ks arbitrary: i)
  case Nil
  then show ?case by simp
next
  case (Cons kd ks)
  show ?case
  proof (cases i)
    case 0
    with Cons.prems show ?thesis by simp
  next
    case (Suc i')
    with Cons.prems have i': "i' < length ks" "ks ! i' = Reference_field" by simp_all
    then have mem: "Reference_field \<in> set ks" by (metis nth_mem)
    have nf: "\<not> list_all never_fails ks"
      using mem by (auto simp: list_all_iff intro!: bexI[of _ Reference_field])
    from Cons.prems(1) nf mem have sc: "is_scalar kd" and lay: "reference_layout ks"
      by (auto split: if_splits)
    from Cons.IH[OF lay i'] sc Suc show ?thesis by simp
  qed
qed


section \<open>Facts about the classes\<close>

lemma all_required_cases:
  assumes "all_required k"
  shows "k \<noteq> BarSlip_cls" and "Optional_float \<notin> set (kinds k)"
  using assms
  by (cases k; simp add: all_required_def defaulted_def kinds_def signature_def)+

lemma flag_cases:
  assumes "list_ex is_flag (kinds k)"
  shows "k \<noteq> BarSlip_cls" and "Optional_float \<notin> set (kinds k)"
  using assms
  by (cases k; simp add: kinds_def signature_def)+

lemma optional_cases:
  assumes "Optional_float \<in> set (kinds k)"
  shows "k \<noteq> BarSlip_cls" and "\<not> in_standard k" and "list_all positional (kinds k)"
    and "\<exists>nm. op_item op_type k = Inr [PStr nm]"
  using assms
  by (cases k; simp add: kinds_def signature_def in_standard_def op_item_def class_op_type_def item_def)+

lemma reference_layout_all: "reference_layout (kinds k)"
  by (cases k; simp add: kinds_def signature_def)

lemma reference_cases:
  assumes "Reference_field \<in> set (kinds k)"
  shows "k \<noteq> BarSlip_cls" and "\<not> in_standard k"
    and "\<exists>nm. op_item op_type k = Inr [PStr nm]"
  using assms
  by (cases k; simp add: kinds_def signature_def in_standard_def op_item_def class_op_type_def item_def)+

lemma BarSlip_coerce:
  assumes "length a = 15"
    and "coerce_fields (zip (map snd (signature BarSlip_cls)) a) = Inl e"
  shows "coerce_fields (zip (map snd (assigned BarSlip_cls (signature BarSlip_cls)))
           (assigned BarSlip_cls a)) = Inl e"
proof -
  from map_nth[of a] assms(1) have
    "a = [a ! 0, a ! 1, a ! 2, a ! 3, a ! 4, a ! 5, a ! 6, a ! 7, a ! 8, a ! 9, a ! 10,
          a ! 11, a ! 12, a ! 13, a ! 14]"
    by (simp add: upt_conv_Cons eval_nat_numeral)
  then obtain a0 a1 a2 a3 a4 a5 a6 a7 a8 a9 a10 a11 a12 a13 a14 where
    "a = [a0, a1, a2, a3, a4, a5, a6, a7, a8, a9, a10, a11, a12, a13, a14]"
    by blast
  with assms(2) show ?thesis
    by (simp add: signature_def assigned_def split: sum.splits)
qed

lemma reference_encoding:
  assumes "length a = length (signature k)" and "i < length a"
    and "kinds k ! i = Reference_field"
    and "coerce_fields (zip (kinds k) a) = Inr vals"
  shows "\<exists>rest. \<forall>w.
           coerce_fields (zip (kinds k) (a[i := w])) = Inr (vals[i := w]) \<and>
           encode_fields (zip (kinds k) (vals[i := w])) =
             (case py_tag_of w of Inl e \<Rightarrow> Inl e | Inr t \<Rightarrow> Inr (take i vals @ t # rest))"
proof -
  from assms(1,2) have ik: "i < length (kinds k)" by (simp add: kinds_def)
  from assms(1,4) have lv: "length vals = length (kinds k)"
    by (auto dest: coerce_fields_length simp: kinds_def)
  from reference_layout_nth[OF reference_layout_all ik assms(3)]
  have sc: "list_all is_scalar (take i (kinds k))"
    and nf: "list_all never_fails (drop (Suc i) (kinds k))"
    by simp_all
  from nf lv have "list_all never_fails (map fst (drop (Suc i) (zip (kinds k) vals)))"
    by (simp add: drop_zip)
  from encode_never_fails[OF this] obtain rest where
    rest: "encode_fields (drop (Suc i) (zip (kinds k) vals)) = Inr rest"
    by blast
  have "coerce_fields (zip (kinds k) (a[i := w])) = Inr (vals[i := w]) \<and>
        encode_fields (zip (kinds k) (vals[i := w])) =
          (case py_tag_of w of Inl e \<Rightarrow> Inl e | Inr t \<Rightarrow> Inr (take i vals @ t # rest))" for w
  proof
    from coerce_reference_update[OF assms(4) ik assms(2,3)]
    show "coerce_fields (zip (kinds k) (a[i := w])) = Inr (vals[i := w])" by simp
    let ?fs = "zip (kinds k) (vals[i := w])"
    from sc lv ik have 1: "list_all is_scalar (take i (map fst ?fs))"
      by (simp add: take_map[symmetric])
    from lv ik have 2: "i < length ?fs" by simp
    from lv ik assms(3) have 3: "fst (?fs ! i) = Reference_field" by simp
    from lv ik have 4: "snd (?fs ! i) = w" by simp
    from lv ik have 5: "take i (map snd ?fs) = take i vals"
      by (simp add: take_map[symmetric])
    from lv ik have 6: "drop (Suc i) ?fs = drop (Suc i) (zip (kinds k) vals)"
      by (simp add: drop_zip)
    from encode_reference[OF 1 2 3] 4 5 6 rest
    show "encode_fields ?fs =
        (case py_tag_of w of Inl e \<Rightarrow> Inl e | Inr t \<Rightarrow> Inr (take i vals @ t # rest))"
      by (simp add: then_tokens_def attr_tag_def split: sum.splits)
  qed
  then show ?thesis by blast
qed

lemma py_tag_of_error: "py_tag_of x = Inl e \<Longrightarrow> e = AttributeError"
  by (cases x) (auto split: option.splits)

lemma constructed_has_tag:
  assumes "construct op_type c s = (Inr obj, s')"
  shows "\<exists>t. py_tag_of obj = Inr t"
proof (cases c)
  case (Call k a)
  with assms show ?thesis by (auto elim!: construct_Inr)
qed


text \<open>
  The classes of \<^verbatim>\<open>other.py\<close> and \<^verbatim>\<open>layer.py\<close> take the tag from the counter
  they have just advanced.
\<close>

lemma construct_n_mat:
  assumes "\<not> in_standard k" and "construct op_type (Call k a) s = (Inr obj, s')"
  shows "\<exists>n. n_mat s = Some n \<and> py_tag_of obj = Inr (PInt (n + 1)) \<and> n_mat s' = Some (n + 1)"
  using assms(2)
  by (elim construct_Inr)
     (use assms(1) in \<open>auto simp: counter_of_def next_tag_N_mat split: option.splits\<close>)

text \<open>
  So the tags of a sequence of constructions of \<^verbatim>\<open>other.py\<close> and
  \<^verbatim>\<open>layer.py\<close> that all succeed are consecutive, from the counter onwards.
\<close>

lemma run_length: "length (fst (run op_type cs s)) = length cs"
proof (induction cs arbitrary: s)
  case Nil
  show ?case by simp
next
  case (Cons c cs)
  obtain r s1 where r: "construct op_type c s = (r, s1)" by (cases "construct op_type c s")
  obtain rs s2 where rs: "run op_type cs s1 = (rs, s2)" by (cases "run op_type cs s1")
  from Cons[of s1] r rs show ?case by simp
qed

lemma successes_length: "length (successes rs) \<le> length rs"
  by (induction rs rule: successes.induct) auto

lemma other_py_tags_consecutive:
  assumes "list_all (\<lambda>c. case c of Call k a \<Rightarrow> \<not> in_standard k) cs"
    and "n_mat s = Some n"
    and "length (successes (fst (run op_type cs s))) = length cs"
  shows "map py_tag_of (successes (fst (run op_type cs s))) =
           map (\<lambda>i. Inr (PInt i)) [n + 1..n + int (length cs)]"
  using assms
proof (induction cs arbitrary: s n)
  case Nil
  then show ?case by simp
next
  case (Cons c cs)
  obtain k a where c: "c = Call k a" by (cases c)
  obtain r s1 where r: "construct op_type (Call k a) s = (r, s1)"
    by (cases "construct op_type (Call k a) s")
  obtain rs s2 where rs: "run op_type cs s1 = (rs, s2)" by (cases "run op_type cs s1")
  from run_length[of op_type cs s1] rs have lrs: "length rs = length cs" by simp
  from Cons.prems(3) c r rs lrs successes_length[of rs] obtain obj where
    obj: "r = Inr obj" and full: "length (successes rs) = length cs"
    by (cases r) auto
  from Cons.prems(1) c have std: "\<not> in_standard k" by simp
  from construct_n_mat[OF std r[unfolded obj]] Cons.prems(2) have
    tag: "py_tag_of obj = Inr (PInt (n + 1))" and n1: "n_mat s1 = Some (n + 1)"
    by auto
  from Cons.IH[OF _ n1] Cons.prems(1) rs full have
    "map py_tag_of (successes rs) = map (\<lambda>i. Inr (PInt i)) [n + 1 + 1..n + 1 + int (length cs)]"
    by simp
  moreover have "[n + 1..n + int (length (c # cs))] = (n + 1) # [n + 1 + 1..n + 1 + int (length cs)]"
    by (subst upto_rec1) (simp_all add: algebra_simps)
  ultimately show ?case using c r rs obj tag
    by simp
qed

text \<open>
  The classes of \<^verbatim>\<open>standard.py\<close> advance \<^verbatim>\<open>n_mats\<close> and take the tag from
  \<^verbatim>\<open>mats\<close>, which no constructor changes.
\<close>

lemma construct_n_mats:
  assumes "in_standard k" and "construct op_type (Call k a) s = (Inr obj, s')"
  shows "\<exists>n t. n_mats s = Some n \<and> mats s = Some t \<and> py_tag_of obj = Inr t \<and>
               n_mats s' = Some (n + 1) \<and> mats s' = Some t"
  using assms(2)
  by (elim construct_Inr)
     (use assms(1) in \<open>auto simp: counter_of_def next_tag_N_mats split: option.splits\<close>)

lemma standard_constructions_share_tag:
  assumes "in_standard k" and "in_standard k'"
    and "construct op_type (Call k a) s = (Inr obj1, s1)"
    and "construct op_type (Call k' a') s1 = (Inr obj2, s2)"
  shows "py_tag_of obj1 = py_tag_of obj2"
  using construct_n_mats[OF assms(1,3)] construct_n_mats[OF assms(2,4)] by auto

text \<open>Evaluation of the constructors on given arguments.\<close>

lemmas eval_simps =
  construct_def signature_def bnd_def lift_def ret_def osi_incr_n_mat_def osi_get_n_mat_def
  osi_incr_n_mats_def osi_get_mats_def to_process_def item_def star_def attr_tag_def
  class_attr_def py_iadd_def OpenSeesObject_def fresh_osi_def kinds_def obj_parameters_def

section \<open>The properties\<close>

text \<open>
  C1. Constructing an Elastic material with \<^verbatim>\<open>big_e = 2.0e8\<close>, \<^verbatim>\<open>eta = 0.0\<close> and
  \<^verbatim>\<open>eneg\<close> left at its default \<^verbatim>\<open>None\<close> is claimed to succeed with the tokens
  \<^verbatim>\<open>["Elastic", 1, 2.0e8, 0.0]\<close>. The constructor converts \<^verbatim>\<open>eneg\<close> with
  \<^verbatim>\<open>float(eneg)\<close> without testing for \<^verbatim>\<open>None\<close>: on every context, and whatever
  the inherited \<^verbatim>\<open>op_type\<close> is, the construction raises TypeError and leaves the
  context as it was.
\<close>

theorem Elastic_absent_eneg_raises:
  "Elastic op_type (PFloat 200000000) (PFloat 0) PNone s = (Inl TypeError, s)"
  by (simp add: Elastic_def bnd_def lift_def)

text \<open>
  C2. The tags of successive constructions within one category are claimed to be the
  consecutive integers from 1. The constructors of \<^verbatim>\<open>standard.py\<close> advance
  \<^verbatim>\<open>osi.n_mats\<close> and then read the tag from \<^verbatim>\<open>osi.mats\<close>: two Elastic
  materials constructed one after the other (with \<^verbatim>\<open>eneg\<close> given, so that the
  conversion succeeds) both get the value \<open>v\<close> of \<^verbatim>\<open>osi.mats\<close> as their tag,
  whatever the counter \<open>n\<close> is.
\<close>

theorem Elastic_tag_repeats:
  "map py_tag_of (successes (fst (run (Some op)
     [Call Elastic_cls [PFloat 200000000, PFloat 0, PFloat 100000000],
      Call Elastic_cls [PFloat 200000000, PFloat 0, PFloat 100000000]]
     \<lparr>n_mat = m, n_mats = Some n, mats = Some v, dispatched = d\<rparr>))) =
   [Inr v, Inr v]"
  by (simp add: eval_simps Elastic_def)

text \<open>
  C3. Tag counters are claimed to be separate for each category, so that constructing a
  layer does not advance the counter of the uniaxial materials. Against this: on a
  fresh context a Straight layer moves \<^verbatim>\<open>osi.n_mat\<close> from 0 to 1, and the
  Hardening material that gets tag 1 when constructed alone gets tag 2 when constructed
  after the layer.
\<close>

theorem layer_advances_material_counter:
  "n_mat fresh_osi = Some 0 \<and>
   n_mat (snd (construct None
     (Call Straight_cls [PInt 4, PFloat 1, PList [PFloat 0, PFloat 0], PList [PFloat 1, PFloat 0]])
     fresh_osi)) = Some 1 \<and>
   map py_tag_of (successes (fst (run None
     [Call Hardening_cls [PFloat 1, PFloat 1, PFloat 1, PFloat 1, PFloat 0]] fresh_osi)))
     = [Inr (PInt 1)] \<and>
   map py_tag_of (successes (fst (run None
     [Call Straight_cls [PInt 4, PFloat 1, PList [PFloat 0, PFloat 0], PList [PFloat 1, PFloat 0]],
      Call Hardening_cls [PFloat 1, PFloat 1, PFloat 1, PFloat 1, PFloat 0]] fresh_osi)))
     = [Inr (PInt 1), Inr (PInt 2)]"
  by (simp add: eval_simps Straight_def Hardening_def)

text \<open>
  C3, as amended. The layers of \<^verbatim>\<open>layer.py\<close> draw their tags from
  \<^verbatim>\<open>osi.n_mat\<close>, the counter of \<^verbatim>\<open>other.py\<close>: a layer constructed at counter
  \<open>n\<close> gets tag \<open>n + 1\<close> and advances the counter, and the object of
  \<^verbatim>\<open>other.py\<close> or \<^verbatim>\<open>layer.py\<close> constructed next gets tag \<open>n + 2\<close>. The two
  never collide.
\<close>

theorem layers_share_the_material_counter:
  assumes "is_layer k" and "\<not> in_standard k'"
    and "construct op_type (Call k a) s = (Inr layer, s1)"
    and "construct op_type (Call k' a') s1 = (Inr other, s2)"
  shows "\<exists>n. n_mat s = Some n \<and> py_tag_of layer = Inr (PInt (n + 1)) \<and>
             n_mat s1 = Some (n + 1) \<and> py_tag_of other = Inr (PInt (n + 2))"
proof -
  from assms(1) have "\<not> in_standard k"
    by (auto simp: is_layer_def in_standard_def)
  from construct_n_mat[OF this assms(3)] construct_n_mat[OF assms(2) assms(4)]
  show ?thesis by auto
qed

theorem layers_share_the_material_counter_witness:
  "is_layer Straight_cls \<and> \<not> in_standard Hardening_cls \<and>
   construct None
     (Call Straight_cls [PInt 4, PFloat 1, PList [PFloat 0, PFloat 0], PList [PFloat 1, PFloat 0]])
     fresh_osi =
     (Inr (OpenSeesObject (PInt 1)
            [PStr ''straight'', PInt 1, PInt 4, PFloat 1, PFloat 0, PFloat 0, PFloat 1, PFloat 0]
            [(''num_fiber'', PInt 4), (''area_fiber'', PFloat 1),
             (''start'', PList [PFloat 0, PFloat 0]), (''end'', PList [PFloat 1, PFloat 0])]),
      \<lparr>n_mat = Some 1, n_mats = Some 0, mats = Some (PInt 0),
       dispatched =
         [[PStr ''straight'', PInt 1, PInt 4, PFloat 1, PFloat 0, PFloat 0, PFloat 1, PFloat 0]]\<rparr>) \<and>
   construct None (Call Hardening_cls [PFloat 1, PFloat 1, PFloat 1, PFloat 1, PFloat 0])
     \<lparr>n_mat = Some 1, n_mats = Some 0, mats = Some (PInt 0),
      dispatched =
        [[PStr ''straight'', PInt 1, PInt 4, PFloat 1, PFloat 0, PFloat 0, PFloat 1, PFloat 0]]\<rparr> =
     (Inr (OpenSeesObject (PInt 2)
            [PStr ''Hardening'', PInt 2, PFloat 1, PFloat 1, PFloat 1, PFloat 1, PFloat 0]
            [(''big_e'', PFloat 1), (''sigma_y'', PFloat 1), (''h_iso'', PFloat 1),
             (''h_kin'', PFloat 1), (''eta'', PFloat 0)]),
      \<lparr>n_mat = Some 2, n_mats = Some 0, mats = Some (PInt 0),
       dispatched =
         [[PStr ''straight'', PInt 1, PInt 4, PFloat 1, PFloat 0, PFloat 0, PFloat 1, PFloat 0],
          [PStr ''Hardening'', PInt 2, PFloat 1, PFloat 1, PFloat 1, PFloat 1, PFloat 0]]\<rparr>) \<and>
   (\<exists>n. n_mat fresh_osi = Some n \<and>
        py_tag_of (OpenSeesObject (PInt 1)
            [PStr ''straight'', PInt 1, PInt 4, PFloat 1, PFloat 0, PFloat 0, PFloat 1, PFloat 0]
            [(''num_fiber'', PInt 4), (''area_fiber'', PFloat 1),
             (''start'', PList [PFloat 0, PFloat 0]), (''end'', PList [PFloat 1, PFloat 0])]) =
          Inr (PInt (n + 1)) \<and>
        py_tag_of (OpenSeesObject (PInt 2)
            [PStr ''Hardening'', PInt 2, PFloat 1, PFloat 1, PFloat 1, PFloat 1, PFloat 0]
            [(''big_e'', PFloat 1), (''sigma_y'', PFloat 1), (''h_iso'', PFloat 1),
             (''h_kin'', PFloat 1), (''eta'', PFloat 0)]) = Inr (PInt (n + 2)))"
proof -
  have h1: "is_layer Straight_cls" by (simp add: is_layer_def)
  have h2: "\<not> in_standard Hardening_cls" by (simp add: in_standard_def)
  have h3: "construct None
     (Call Straight_cls [PInt 4, PFloat 1, PList [PFloat 0, PFloat 0], PList [PFloat 1, PFloat 0]])
     fresh_osi =
     (Inr (OpenSeesObject (PInt 1)
            [PStr ''straight'', PInt 1, PInt 4, PFloat 1, PFloat 0, PFloat 0, PFloat 1, PFloat 0]
            [(''num_fiber'', PInt 4), (''area_fiber'', PFloat 1),
             (''start'', PList [PFloat 0, PFloat 0]), (''end'', PList [PFloat 1, PFloat 0])]),
      \<lparr>n_mat = Some 1, n_mats = Some 0, mats = Some (PInt 0),
       dispatched =
         [[PStr ''straight'', PInt 1, PInt 4, PFloat 1, PFloat 0, PFloat 0, PFloat 1, PFloat 0]]\<rparr>)"
    by (simp add: eval_simps Straight_def)
  have h4: "construct None (Call Hardening_cls [PFloat 1, PFloat 1, PFloat 1, PFloat 1, PFloat 0])
     \<lparr>n_mat = Some 1, n_mats = Some 0, mats = Some (PInt 0),
      dispatched =
        [[PStr ''straight'', PInt 1, PInt 4, PFloat 1, PFloat 0, PFloat 0, PFloat 1, PFloat 0]]\<rparr> =
     (Inr (OpenSeesObject (PInt 2)
            [PStr ''Hardening'', PInt 2, PFloat 1, PFloat 1, PFloat 1, PFloat 1, PFloat 0]
            [(''big_e'', PFloat 1), (''sigma_y'', PFloat 1), (''h_iso'', PFloat 1),
             (''h_kin'', PFloat 1), (''eta'', PFloat 0)]),
      \<lparr>n_mat = Some 2, n_mats = Some 0, mats = Some (PInt 0),
       dispatched =
         [[PStr ''straight'', PInt 1, PInt 4, PFloat 1, PFloat 0, PFloat 0, PFloat 1, PFloat 0],
          [PStr ''Hardening'', PInt 2, PFloat 1, PFloat 1, PFloat 1, PFloat 1, PFloat 0]]\<rparr>)"
    by (simp add: eval_simps Hardening_def)
  from layers_share_the_material_counter[OF h1 h2 h3 h4] h1 h2 h3 h4 show ?thesis
    by auto
qed

text \<open>
  C4. For every class all of whose parameters are required, the parameter list of a
  constructed object is the \<^verbatim>\<open>op_type\<close>, then the tag, then the tokens of the
  converted fields in the order of the signature, and nothing else: each field
  contributes its own block (a scalar itself, a packet its elements, a reference the
  tag referred to). When all fields are scalars the list is
  \<^verbatim>\<open>[op_type, tag, field1, field2, ...]\<close>.
\<close>

theorem required_fields_in_declared_order:
  assumes "all_required k"
    and "construct op_type (Call k a) s = (Inr obj, s')"
  shows "\<exists>op tag vals blocks.
           op_item op_type k = Inr [op] \<and>
           py_tag_of obj = Inr tag \<and>
           coerce_fields (zip (kinds k) a) = Inr vals \<and>
           map (\<lambda>(kd, v). field_tokens kd v) (zip (kinds k) vals) = map Inr blocks \<and>
           obj_parameters obj = op # tag # concat blocks \<and>
           (list_all is_scalar (kinds k) \<longrightarrow> obj_parameters obj = op # tag # vals)"
proof -
  from assms(1) have k: "k \<noteq> BarSlip_cls" and opt: "Optional_float \<notin> set (kinds k)"
    by (rule all_required_cases)+
  from assms(2) obtain vals tag s1 op toks where
    len: "length a = length (signature k)"
    and co: "coerce_fields (zip (kinds k) a) = Inr vals"
    and op: "op_item op_type k = Inr [op]"
    and en: "encode_fields (zip (kinds k) vals) = Inr toks"
    and obj: "obj = OpenSeesObject tag (op # tag # toks) (zip (map fst (signature k)) vals)"
    by (elim construct_Inr) (simp add: assigned_id[OF k] kinds_def)
  from co len have lv: "length vals = length (kinds k)"
    by (auto dest: coerce_fields_length simp: kinds_def)
  from opt have "Optional_float \<notin> fst ` set (zip (kinds k) vals)"
    by (auto dest: set_zip_leftD)
  from encode_fields_blocks[OF en this] obtain blocks where
    bl: "map (\<lambda>(kd, v). field_tokens kd v) (zip (kinds k) vals) = map Inr blocks"
    and toks: "toks = concat blocks"
    by blast
  have "list_all is_scalar (kinds k) \<longrightarrow> toks = vals"
  proof
    assume "list_all is_scalar (kinds k)"
    with lv have "encode_fields (zip (kinds k) vals) = Inr (map snd (zip (kinds k) vals))"
      by (intro encode_fields_scalar) simp
    with en lv show "toks = vals" by simp
  qed
  with op co bl toks obj show ?thesis by auto
qed

theorem required_fields_in_declared_order_witness:
  "all_required Viscous_cls \<and>
   construct None (Call Viscous_cls [PFloat 2, PInt 1]) fresh_osi =
     (Inr (OpenSeesObject (PInt 1) [PStr ''Viscous'', PInt 1, PFloat 2, PFloat 1]
            [(''big_c'', PFloat 2), (''alpha'', PFloat 1)]),
      \<lparr>n_mat = Some 1, n_mats = Some 0, mats = Some (PInt 0),
       dispatched = [[PStr ''Viscous'', PInt 1, PFloat 2, PFloat 1]]\<rparr>) \<and>
   (\<exists>op tag vals blocks.
      op_item None Viscous_cls = Inr [op] \<and>
      py_tag_of (OpenSeesObject (PInt 1) [PStr ''Viscous'', PInt 1, PFloat 2, PFloat 1]
                  [(''big_c'', PFloat 2), (''alpha'', PFloat 1)]) = Inr tag \<and>
      coerce_fields (zip (kinds Viscous_cls) [PFloat 2, PInt 1]) = Inr vals \<and>
      map (\<lambda>(kd, v). field_tokens kd v) (zip (kinds Viscous_cls) vals) = map Inr blocks \<and>
      obj_parameters (OpenSeesObject (PInt 1) [PStr ''Viscous'', PInt 1, PFloat 2, PFloat 1]
                       [(''big_c'', PFloat 2), (''alpha'', PFloat 1)]) = op # tag # concat blocks \<and>
      (list_all is_scalar (kinds Viscous_cls) \<longrightarrow>
         obj_parameters (OpenSeesObject (PInt 1) [PStr ''Viscous'', PInt 1, PFloat 2, PFloat 1]
                          [(''big_c'', PFloat 2), (''alpha'', PFloat 1)]) = op # tag # vals))"
proof -
  have h1: "all_required Viscous_cls"
    by (simp add: all_required_def defaulted_def)
  have h2: "construct None (Call Viscous_cls [PFloat 2, PInt 1]) fresh_osi =
     (Inr (OpenSeesObject (PInt 1) [PStr ''Viscous'', PInt 1, PFloat 2, PFloat 1]
            [(''big_c'', PFloat 2), (''alpha'', PFloat 1)]),
      \<lparr>n_mat = Some 1, n_mats = Some 0, mats = Some (PInt 0),
       dispatched = [[PStr ''Viscous'', PInt 1, PFloat 2, PFloat 1]]\<rparr>)"
    by (simp add: eval_simps Viscous_def int_to_double_def)
  from required_fields_in_declared_order[OF h1 h2] h1 h2 show ?thesis
    by simp
qed

text \<open>
  C5. A later positional optional field given after an absent one is claimed to make
  the construction fail with ParameterOrderError. Against this: Cast with
  \<^verbatim>\<open>a1 = None\<close> and \<^verbatim>\<open>a3 = 5.0\<close> on a fresh context succeeds; its parameters end
  with the ten required fields, and \<^verbatim>\<open>a2\<close>, \<^verbatim>\<open>a3\<close> and \<^verbatim>\<open>a4\<close> are left out.
\<close>

theorem Cast_later_optional_skipped:
  "map obj_parameters (successes [fst (construct None
     (Call Cast_cls [PInt 2, PFloat 1, PFloat 1, PFloat 1, PFloat 1, PFloat 1, PFloat 1, PFloat 1,
                     PFloat 1, PFloat 1, PNone, PFloat 1, PFloat 5, PFloat 1]) fresh_osi)]) =
   [[PStr ''Cast'', PInt 1, PInt 2, PFloat 1, PFloat 1, PFloat 1, PFloat 1, PFloat 1, PFloat 1,
     PFloat 1, PFloat 1, PFloat 1]]"
  by (simp add: eval_simps Cast_def)

text \<open>
  C5, as amended. For a class with positional optional fields (Cast, ElasticBilin,
  SelfCentering), when the conversions succeed and the counter is there, a call whose
  optional field \<open>i\<close> is absent succeeds: the object is dispatched, and its
  parameters are the \<^verbatim>\<open>op_type\<close>, the tag and the converted fields up to some
  position \<open>j \<le> i\<close>. A field given after the absent one is left out without an
  error.
\<close>

theorem absent_optional_ends_parameters:
  assumes "length a = length (signature k)"
    and "coerce_fields (zip (kinds k) a) = Inr vals"
    and "n_mat s = Some n"
    and "i < length a"
    and "kinds k ! i = Optional_float"
    and "a ! i = PNone"
  shows "\<exists>obj op j. j \<le> i \<and>
           construct op_type (Call k a) s =
             (Inr obj, s\<lparr>n_mat := Some (n + 1),
                          dispatched := dispatched s @ [obj_parameters obj]\<rparr>) \<and>
           op_item op_type k = Inr [op] \<and>
           obj_parameters obj = op # PInt (n + 1) # take j vals"
proof -
  from assms(1,4) have ik: "i < length (kinds k)" by (simp add: kinds_def)
  with assms(5) have "Optional_float \<in> set (kinds k)" by (metis nth_mem)
  from optional_cases(1-3)[OF this] optional_cases(4)[OF this, of op_type] obtain nm where
    k: "k \<noteq> BarSlip_cls" and std: "\<not> in_standard k" and pos: "list_all positional (kinds k)"
    and op: "op_item op_type k = Inr [PStr nm]"
    by auto
  from assms(1,2) have lv: "length vals = length (kinds k)"
    by (auto dest: coerce_fields_length simp: kinds_def)
  from coerce_fields_nth[OF assms(2), of i] ik assms(1,5,6) have vi: "vals ! i = PNone"
    by (simp add: kinds_def)
  from pos lv have "list_all positional (map fst (zip (kinds k) vals))" by simp
  from encode_positional[OF this] lv obtain j where
    j: "encode_fields (zip (kinds k) vals) = Inr (take j vals)"
    and ji: "\<forall>i<length (kinds k). kinds k ! i = Optional_float \<and> vals ! i = PNone \<longrightarrow> j \<le> i"
    by auto
  from ji ik assms(5) vi have "j \<le> i" by simp
  moreover
  have "construct op_type (Call k a) s =
      (Inr (OpenSeesObject (PInt (n + 1)) (PStr nm # PInt (n + 1) # take j vals)
              (zip (map fst (signature k)) vals)),
       s\<lparr>n_mat := Some (n + 1),
         dispatched := dispatched s @ [PStr nm # PInt (n + 1) # take j vals]\<rparr>)"
    using assms(1,2,3) j op std
    by (simp add: construct_command command_of_def assigned_id[OF k] command_unfold
        counter_of_def next_tag_N_mat item_def kinds_def)
  ultimately show ?thesis using op
    by (intro exI[of _ "OpenSeesObject (PInt (n + 1)) (PStr nm # PInt (n + 1) # take j vals)
              (zip (map fst (signature k)) vals)"] exI[of _ "PStr nm"] exI[of _ j]) simp
qed

theorem absent_optional_ends_parameters_witness:
  "length [PFloat 1, PFloat 2, PFloat 3, PNone, PFloat 4, PNone] = length (signature ElasticBilin_cls) \<and>
   coerce_fields (zip (kinds ElasticBilin_cls) [PFloat 1, PFloat 2, PFloat 3, PNone, PFloat 4, PNone]) =
     Inr [PFloat 1, PFloat 2, PFloat 3, PNone, PFloat 4, PNone] \<and>
   n_mat fresh_osi = Some 0 \<and>
   3 < length [PFloat 1, PFloat 2, PFloat 3, PNone, PFloat 4, PNone] \<and>
   kinds ElasticBilin_cls ! 3 = Optional_float \<and>
   [PFloat 1, PFloat 2, PFloat 3, PNone, PFloat 4, PNone] ! 3 = PNone \<and>
   (\<exists>obj op j. j \<le> 3 \<and>
      construct None (Call ElasticBilin_cls [PFloat 1, PFloat 2, PFloat 3, PNone, PFloat 4, PNone])
        fresh_osi =
        (Inr obj, fresh_osi\<lparr>n_mat := Some (0 + 1),
                     dispatched := dispatched fresh_osi @ [obj_parameters obj]\<rparr>) \<and>
      op_item None ElasticBilin_cls = Inr [op] \<and>
      obj_parameters obj =
        op # PInt (0 + 1) # take j [PFloat 1, PFloat 2, PFloat 3, PNone, PFloat 4, PNone])"
proof -
  have h1: "length [PFloat 1, PFloat 2, PFloat 3, PNone, PFloat 4, PNone] =
      length (signature ElasticBilin_cls)"
    by (simp add: signature_def)
  have h2: "coerce_fields (zip (kinds ElasticBilin_cls)
      [PFloat 1, PFloat 2, PFloat 3, PNone, PFloat 4, PNone]) =
      Inr [PFloat 1, PFloat 2, PFloat 3, PNone, PFloat 4, PNone]"
    by (simp add: kinds_def signature_def)
  have h3: "n_mat fresh_osi = Some 0" by (simp add: fresh_osi_def)
  have h4: "3 < length [PFloat 1, PFloat 2, PFloat 3, PNone, PFloat 4, PNone]" by simp
  have h5: "kinds ElasticBilin_cls ! 3 = Optional_float" by (simp add: kinds_def signature_def)
  have h6: "[PFloat 1, PFloat 2, PFloat 3, PNone, PFloat 4, PNone] ! 3 = PNone" by simp
  from absent_optional_ends_parameters[OF h1 h2 h3 h4 h5 h6] h1 h2 h3 h4 h5 h6
  show ?thesis by blast
qed

text \<open>
  C6. For every class with flagged optional blocks, the parameter list of a constructed
  object is the \<^verbatim>\<open>op_type\<close>, the tag, and then one block for each field in the order
  of the signature. The block of a flagged field is empty when the field is absent and
  otherwise the flag immediately followed by the value or the elements (see
  \<open>field_tokens\<close>); no block depends on another field. The witness is the scenario of
  the claim: \<^verbatim>\<open>stress = [0, 1, 2]\<close> gives \<^verbatim>\<open>"-stress", 0, 1, 2\<close> at the end, and the
  absent \<^verbatim>\<open>strain\<close> gives nothing.
\<close>

theorem flagged_blocks_in_declared_order:
  assumes "list_ex is_flag (kinds k)"
    and "construct op_type (Call k a) s = (Inr obj, s')"
  shows "\<exists>op tag vals blocks.
           op_item op_type k = Inr [op] \<and>
           py_tag_of obj = Inr tag \<and>
           coerce_fields (zip (kinds k) a) = Inr vals \<and>
           map (\<lambda>(kd, v). field_tokens kd v) (zip (kinds k) vals) = map Inr blocks \<and>
           obj_parameters obj = op # tag # concat blocks"
proof -
  from assms(1) have k: "k \<noteq> BarSlip_cls" and opt: "Optional_float \<notin> set (kinds k)"
    by (rule flag_cases)+
  from assms(2) obtain vals tag s1 op toks where
    co: "coerce_fields (zip (kinds k) a) = Inr vals"
    and op: "op_item op_type k = Inr [op]"
    and en: "encode_fields (zip (kinds k) vals) = Inr toks"
    and obj: "obj = OpenSeesObject tag (op # tag # toks) (zip (map fst (signature k)) vals)"
    by (elim construct_Inr) (simp add: assigned_id[OF k] kinds_def)
  from opt have "Optional_float \<notin> fst ` set (zip (kinds k) vals)"
    by (auto dest: set_zip_leftD)
  from encode_fields_blocks[OF en this] op co obj show ?thesis
    by auto
qed

theorem flagged_blocks_in_declared_order_witness:
  "list_ex is_flag (kinds ElasticMultiLinear_cls) \<and>
   construct None
     (Call ElasticMultiLinear_cls [PFloat 0, PNone, PList [PInt 0, PInt 1, PInt 2]]) fresh_osi =
     (Inr (OpenSeesObject (PInt 1)
            [PStr ''ElasticMultiLinear'', PInt 1, PFloat 0, PStr ''-stress'', PInt 0, PInt 1, PInt 2]
            [(''eta'', PFloat 0), (''strain'', PNone), (''stress'', PList [PInt 0, PInt 1, PInt 2])]),
      \<lparr>n_mat = Some 1, n_mats = Some 0, mats = Some (PInt 0),
       dispatched =
         [[PStr ''ElasticMultiLinear'', PInt 1, PFloat 0, PStr ''-stress'', PInt 0, PInt 1, PInt 2]]\<rparr>) \<and>
   (\<exists>blocks.
      map (\<lambda>(kd, v). field_tokens kd v)
        (zip (kinds ElasticMultiLinear_cls) [PFloat 0, PNone, PList [PInt 0, PInt 1, PInt 2]]) =
        map Inr blocks \<and>
      blocks = [[PFloat 0], [], [PStr ''-stress'', PInt 0, PInt 1, PInt 2]] \<and>
      [PStr ''ElasticMultiLinear'', PInt 1, PFloat 0, PStr ''-stress'', PInt 0, PInt 1, PInt 2] =
        PStr ''ElasticMultiLinear'' # PInt 1 # concat blocks)"
proof -
  have h1: "list_ex is_flag (kinds ElasticMultiLinear_cls)"
    by (simp add: kinds_def signature_def)
  have h2: "construct None
     (Call ElasticMultiLinear_cls [PFloat 0, PNone, PList [PInt 0, PInt 1, PInt 2]]) fresh_osi =
     (Inr (OpenSeesObject (PInt 1)
            [PStr ''ElasticMultiLinear'', PInt 1, PFloat 0, PStr ''-stress'', PInt 0, PInt 1, PInt 2]
            [(''eta'', PFloat 0), (''strain'', PNone), (''stress'', PList [PInt 0, PInt 1, PInt 2])]),
      \<lparr>n_mat = Some 1, n_mats = Some 0, mats = Some (PInt 0),
       dispatched =
         [[PStr ''ElasticMultiLinear'', PInt 1, PFloat 0, PStr ''-stress'', PInt 0, PInt 1, PInt 2]]\<rparr>)"
    by (simp add: eval_simps ElasticMultiLinear_def)
  from flagged_blocks_in_declared_order[OF h1 h2] obtain op tag vals blocks where
    "op_item None ElasticMultiLinear_cls = Inr [op]"
    "coerce_fields (zip (kinds ElasticMultiLinear_cls) [PFloat 0, PNone, PList [PInt 0, PInt 1, PInt 2]]) = Inr vals"
    "map (\<lambda>(kd, v). field_tokens kd v) (zip (kinds ElasticMultiLinear_cls) vals) = map Inr blocks"
    "[PStr ''ElasticMultiLinear'', PInt 1, PFloat 0, PStr ''-stress'', PInt 0, PInt 1, PInt 2] = op # tag # concat blocks"
    by auto
  then have "map (\<lambda>(kd, v). field_tokens kd v)
        (zip (kinds ElasticMultiLinear_cls) [PFloat 0, PNone, PList [PInt 0, PInt 1, PInt 2]]) =
        map Inr blocks \<and>
      blocks = [[PFloat 0], [], [PStr ''-stress'', PInt 0, PInt 1, PInt 2]] \<and>
      [PStr ''ElasticMultiLinear'', PInt 1, PFloat 0, PStr ''-stress'', PInt 0, PInt 1, PInt 2] =
        PStr ''ElasticMultiLinear'' # PInt 1 # concat blocks"
    by (auto simp: kinds_def signature_def then_tokens_def map_eq_Cons_conv)
  with h1 h2 show ?thesis by blast
qed

text \<open>
  C7. For every constructed object with a reference field at position \<open>i\<close> of the
  signature, the token at position \<open>i + 2\<close> of its parameters is the \<^verbatim>\<open>tag\<close> of
  the object referred to; and any other object with the same tag in its place gives the
  same parameters and the same context, whatever its other attributes are.
\<close>

theorem reference_encoded_as_tag:
  assumes "construct op_type (Call k a) s = (Inr obj, s')"
    and "i < length a"
    and "kinds k ! i = Reference_field"
  shows "\<exists>t. py_tag_of (a ! i) = Inr t \<and>
             obj_parameters obj ! (i + 2) = t \<and>
             (\<forall>other. py_tag_of other = Inr t \<longrightarrow>
                (\<exists>obj'. construct op_type (Call k (a[i := other])) s = (Inr obj', s') \<and>
                        obj_parameters obj' = obj_parameters obj))"
proof -
  from assms(1) have len: "length a = length (signature k)"
    by (elim construct_Inr)
  with assms(2) have ik: "i < length (kinds k)" by (simp add: kinds_def)
  with assms(3) have "Reference_field \<in> set (kinds k)" by (metis nth_mem)
  from reference_cases(1)[OF this] have k: "k \<noteq> BarSlip_cls" .
  from assms(1) obtain vals tag s1 op toks where
    co: "coerce_fields (zip (kinds k) a) = Inr vals"
    and nt: "next_tag (counter_of k) s = (Inr tag, s1)"
    and op: "op_item op_type k = Inr [op]"
    and en: "encode_fields (zip (kinds k) vals) = Inr toks"
    and obj: "obj = OpenSeesObject tag (op # tag # toks) (zip (map fst (signature k)) vals)"
    and s': "s' = s1\<lparr>dispatched := dispatched s1 @ [op # tag # toks]\<rparr>"
    by (elim construct_Inr) (simp add: assigned_id[OF k] kinds_def)
  from co len have lv: "length vals = length (kinds k)"
    by (auto dest: coerce_fields_length simp: kinds_def)
  from reference_encoding[OF len assms(2,3) co] obtain rest where
    upd: "\<And>w. coerce_fields (zip (kinds k) (a[i := w])) = Inr (vals[i := w])"
    and enc: "\<And>w. encode_fields (zip (kinds k) (vals[i := w])) =
             (case py_tag_of w of Inl e \<Rightarrow> Inl e | Inr t \<Rightarrow> Inr (take i vals @ t # rest))"
    by blast
  from coerce_reference_update[OF co ik assms(2,3)] have vi: "vals ! i = a ! i" by simp
  from vi have "vals[i := a ! i] = vals" by (metis list_update_id)
  with enc[of "a ! i"] en obtain t where
    t: "py_tag_of (a ! i) = Inr t" and toks: "toks = take i vals @ t # rest"
    by (cases "py_tag_of (a ! i)") auto
  from toks lv ik have "toks ! i = t"
    by (simp add: nth_append)
  with obj have nth: "obj_parameters obj ! (i + 2) = t" by simp
  have "\<exists>obj'. construct op_type (Call k (a[i := other])) s = (Inr obj', s') \<and>
          obj_parameters obj' = obj_parameters obj" if "py_tag_of other = Inr t" for other
  proof -
    from enc[of other] that toks have
      "encode_fields (zip (kinds k) (vals[i := other])) = Inr toks" by simp
    with upd[of other] len nt op obj s' show ?thesis
      by (simp add: construct_command command_of_def assigned_id[OF k] command_unfold
          kinds_def item_def)
  qed
  with t nth show ?thesis by blast
qed

theorem reference_encoded_as_tag_witness:
  "construct None
     (Call MinMax_cls
        [OpenSeesObject (PInt 3) [PStr ''Viscous'', PInt 3, PFloat 2, PFloat 1]
           [(''big_c'', PFloat 2), (''alpha'', PFloat 1)], PNone, PNone])
     \<lparr>n_mat = Some 3, n_mats = Some 0, mats = Some (PInt 0), dispatched = []\<rparr> =
     (Inr (OpenSeesObject (PInt 4) [PStr ''MinMax'', PInt 4, PInt 3]
            [(''other'', OpenSeesObject (PInt 3) [PStr ''Viscous'', PInt 3, PFloat 2, PFloat 1]
                           [(''big_c'', PFloat 2), (''alpha'', PFloat 1)]),
             (''min_strain'', PNone), (''max_strain'', PNone)]),
      \<lparr>n_mat = Some 4, n_mats = Some 0, mats = Some (PInt 0),
       dispatched = [[PStr ''MinMax'', PInt 4, PInt 3]]\<rparr>) \<and>
   0 < length [OpenSeesObject (PInt 3) [PStr ''Viscous'', PInt 3, PFloat 2, PFloat 1]
                 [(''big_c'', PFloat 2), (''alpha'', PFloat 1)], PNone, PNone] \<and>
   kinds MinMax_cls ! 0 = Reference_field \<and>
   (\<exists>t. py_tag_of (OpenSeesObject (PInt 3) [PStr ''Viscous'', PInt 3, PFloat 2, PFloat 1]
                      [(''big_c'', PFloat 2), (''alpha'', PFloat 1)]) = Inr t \<and>
        t = PInt 3 \<and>
        (\<forall>other. py_tag_of other = Inr t \<longrightarrow>
           (\<exists>obj'. construct None (Call MinMax_cls [other, PNone, PNone])
                     \<lparr>n_mat = Some 3, n_mats = Some 0, mats = Some (PInt 0), dispatched = []\<rparr> =
                     (Inr obj', \<lparr>n_mat = Some 4, n_mats = Some 0, mats = Some (PInt 0),
                                 dispatched = [[PStr ''MinMax'', PInt 4, PInt 3]]\<rparr>) \<and>
                   obj_parameters obj' = [PStr ''MinMax'', PInt 4, PInt 3])))"
proof -
  let ?ref = "OpenSeesObject (PInt 3) [PStr ''Viscous'', PInt 3, PFloat 2, PFloat 1]
           [(''big_c'', PFloat 2), (''alpha'', PFloat 1)]"
  let ?s = "\<lparr>n_mat = Some 3, n_mats = Some 0, mats = Some (PInt 0), dispatched = []\<rparr>"
  have h1: "construct None (Call MinMax_cls [?ref, PNone, PNone]) ?s =
     (Inr (OpenSeesObject (PInt 4) [PStr ''MinMax'', PInt 4, PInt 3]
            [(''other'', ?ref), (''min_strain'', PNone), (''max_strain'', PNone)]),
      \<lparr>n_mat = Some 4, n_mats = Some 0, mats = Some (PInt 0),
       dispatched = [[PStr ''MinMax'', PInt 4, PInt 3]]\<rparr>)"
    by (simp add: eval_simps MinMax_def)
  have h2: "0 < length [?ref, PNone, PNone]" by simp
  have h3: "kinds MinMax_cls ! 0 = Reference_field" by (simp add: kinds_def signature_def)
  from reference_encoded_as_tag[OF h1 h2 h3] h1 h2 h3 show ?thesis
    by simp
qed

text \<open>
  C8. An unresolved reference is claimed to raise ReferenceError, and a reference to an
  object of another context ContextMismatchError. Against this: PathIndependent with
  \<^verbatim>\<open>None\<close> as its reference raises AttributeError; and PathIndependent on a fresh
  context, given a Viscous material constructed on another context (where it got tag
  7), succeeds and encodes the tag 7.
\<close>

theorem PathIndependent_unresolved_reference:
  "construct None (Call PathIndependent_cls [PNone]) fresh_osi =
     (Inl AttributeError, fresh_osi\<lparr>n_mat := Some 1\<rparr>) \<and>
   map obj_parameters (successes [fst (construct None
     (Call PathIndependent_cls
        [hd (successes [fst (construct None (Call Viscous_cls [PFloat 2, PFloat 1])
               \<lparr>n_mat = Some 6, n_mats = Some 0, mats = Some (PInt 0), dispatched = []\<rparr>)])])
     fresh_osi)]) =
   [[PStr ''PathIndependent'', PInt 1, PInt 7]]"
  by (simp add: eval_simps PathIndependent_def Viscous_def)

text \<open>
  C8, as amended. For a class with a reference field, when the conversions succeed and
  the counter is there: if the value referred to has no \<^verbatim>\<open>tag\<close> attribute the
  construction raises AttributeError after the counter was advanced and before anything
  is dispatched; if the value is an object constructed on any context whatever, the
  construction succeeds and encodes that object's tag.
\<close>

theorem unresolved_reference_raises_AttributeError:
  assumes "length a = length (signature k)"
    and "i < length a"
    and "kinds k ! i = Reference_field"
    and "coerce_fields (zip (kinds k) a) = Inr vals"
    and "n_mat s = Some n"
  shows "(py_tag_of (a ! i) = Inl AttributeError \<longrightarrow>
            construct op_type (Call k a) s = (Inl AttributeError, s\<lparr>n_mat := Some (n + 1)\<rparr>)) \<and>
         (\<forall>op0 c0 s0 s0'. construct op0 c0 s0 = (Inr (a ! i), s0') \<longrightarrow>
            (\<exists>obj. construct op_type (Call k a) s =
                     (Inr obj, s\<lparr>n_mat := Some (n + 1),
                                  dispatched := dispatched s @ [obj_parameters obj]\<rparr>) \<and>
                   py_tag_of (a ! i) = Inr (obj_parameters obj ! (i + 2))))"
proof -
  from assms(1,2) have ik: "i < length (kinds k)" by (simp add: kinds_def)
  with assms(3) have "Reference_field \<in> set (kinds k)" by (metis nth_mem)
  from reference_cases(1,2)[OF this] reference_cases(3)[OF this, of op_type] obtain nm where
    k: "k \<noteq> BarSlip_cls" and std: "\<not> in_standard k"
    and op: "op_item op_type k = Inr [PStr nm]"
    by auto
  from assms(1,4) have lv: "length vals = length (kinds k)"
    by (auto dest: coerce_fields_length simp: kinds_def)
  from coerce_reference_update[OF assms(4) ik assms(2,3)] have vi: "vals ! i = a ! i" by simp
  then have same: "vals[i := a ! i] = vals" by (metis list_update_id)
  from reference_encoding[OF assms(1-4)] same obtain rest where
    enc: "encode_fields (zip (kinds k) vals) =
             (case py_tag_of (a ! i) of Inl e \<Rightarrow> Inl e | Inr t \<Rightarrow> Inr (take i vals @ t # rest))"
    by metis
  have run: "construct op_type (Call k a) s =
      (case py_tag_of (a ! i) of
         Inl e \<Rightarrow> (Inl e, s\<lparr>n_mat := Some (n + 1)\<rparr>)
       | Inr t \<Rightarrow>
           (Inr (OpenSeesObject (PInt (n + 1)) (PStr nm # PInt (n + 1) # take i vals @ t # rest)
                   (zip (map fst (signature k)) vals)),
            s\<lparr>n_mat := Some (n + 1),
              dispatched := dispatched s @ [PStr nm # PInt (n + 1) # take i vals @ t # rest]\<rparr>))"
    using assms(1,4,5) enc op std
    by (simp add: construct_command command_of_def assigned_id[OF k] command_unfold
        counter_of_def next_tag_N_mat item_def kinds_def split: sum.splits)
  have a: "py_tag_of (a ! i) = Inl AttributeError \<longrightarrow>
      construct op_type (Call k a) s = (Inl AttributeError, s\<lparr>n_mat := Some (n + 1)\<rparr>)"
    using run by simp
  have b: "\<exists>obj. construct op_type (Call k a) s =
                     (Inr obj, s\<lparr>n_mat := Some (n + 1),
                                  dispatched := dispatched s @ [obj_parameters obj]\<rparr>) \<and>
                   py_tag_of (a ! i) = Inr (obj_parameters obj ! (i + 2))"
    if "construct op0 c0 s0 = (Inr (a ! i), s0')" for op0 c0 s0 s0'
  proof -
    from constructed_has_tag[OF that] obtain t where t: "py_tag_of (a ! i) = Inr t" by blast
    from lv ik have "(take i vals @ t # rest) ! i = t" by (simp add: nth_append)
    with run t show ?thesis by simp
  qed
  from a b show ?thesis by blast
qed

theorem unresolved_reference_raises_AttributeError_witness:
  "length [PNone] = length (signature PathIndependent_cls) \<and>
   0 < length [PNone] \<and>
   kinds PathIndependent_cls ! 0 = Reference_field \<and>
   coerce_fields (zip (kinds PathIndependent_cls) [PNone]) = Inr [PNone] \<and>
   n_mat fresh_osi = Some 0 \<and>
   py_tag_of ([PNone] ! 0) = Inl AttributeError \<and>
   construct None (Call PathIndependent_cls [PNone]) fresh_osi =
     (Inl AttributeError, fresh_osi\<lparr>n_mat := Some (0 + 1)\<rparr>) \<and>
   construct None (Call Viscous_cls [PFloat 2, PFloat 1])
     \<lparr>n_mat = Some 6, n_mats = Some 0, mats = Some (PInt 0), dispatched = []\<rparr> =
     (Inr (OpenSeesObject (PInt 7) [PStr ''Viscous'', PInt 7, PFloat 2, PFloat 1]
            [(''big_c'', PFloat 2), (''alpha'', PFloat 1)]),
      \<lparr>n_mat = Some 7, n_mats = Some 0, mats = Some (PInt 0),
       dispatched = [[PStr ''Viscous'', PInt 7, PFloat 2, PFloat 1]]\<rparr>) \<and>
   (\<exists>obj. construct None
            (Call PathIndependent_cls
               [OpenSeesObject (PInt 7) [PStr ''Viscous'', PInt 7, PFloat 2, PFloat 1]
                  [(''big_c'', PFloat 2), (''alpha'', PFloat 1)]]) fresh_osi =
            (Inr obj, fresh_osi\<lparr>n_mat := Some (0 + 1),
                         dispatched := dispatched fresh_osi @ [obj_parameters obj]\<rparr>) \<and>
          obj_parameters obj ! (0 + 2) = PInt 7)"
proof -
  let ?ref = "OpenSeesObject (PInt 7) [PStr ''Viscous'', PInt 7, PFloat 2, PFloat 1]
            [(''big_c'', PFloat 2), (''alpha'', PFloat 1)]"
  let ?sA = "\<lparr>n_mat = Some 6, n_mats = Some 0, mats = Some (PInt 0), dispatched = []\<rparr>"
  have h1: "length [x] = length (signature PathIndependent_cls)" for x :: pyval
    by (simp add: signature_def)
  have h2: "0 < length [x]" for x :: pyval by simp
  have h3: "kinds PathIndependent_cls ! 0 = Reference_field"
    by (simp add: kinds_def signature_def)
  have h4: "coerce_fields (zip (kinds PathIndependent_cls) [x]) = Inr [x]" for x
    by (simp add: kinds_def signature_def)
  have h5: "n_mat fresh_osi = Some 0" by (simp add: fresh_osi_def)
  have h6: "py_tag_of ([PNone] ! 0) = Inl AttributeError" by simp
  have h7: "construct None (Call Viscous_cls [PFloat 2, PFloat 1]) ?sA =
     (Inr ([?ref] ! 0),
      \<lparr>n_mat = Some 7, n_mats = Some 0, mats = Some (PInt 0),
       dispatched = [[PStr ''Viscous'', PInt 7, PFloat 2, PFloat 1]]\<rparr>)"
    by (simp add: eval_simps Viscous_def)
  from unresolved_reference_raises_AttributeError[OF h1 h2 h3 h4 h5, of PNone None] h6
  have a: "construct None (Call PathIndependent_cls [PNone]) fresh_osi =
     (Inl AttributeError, fresh_osi\<lparr>n_mat := Some (0 + 1)\<rparr>)"
    by blast
  from unresolved_reference_raises_AttributeError[OF h1 h2 h3 h4 h5, of ?ref None] h7
  have b: "\<exists>obj. construct None (Call PathIndependent_cls [?ref]) fresh_osi =
            (Inr obj, fresh_osi\<lparr>n_mat := Some (0 + 1),
                         dispatched := dispatched fresh_osi @ [obj_parameters obj]\<rparr>) \<and>
          py_tag_of ([?ref] ! 0) = Inr (obj_parameters obj ! (0 + 2))"
    by blast
  from a b h1[of PNone] h2[of PNone] h3 h4[of PNone] h5 h6 h7 show ?thesis
    by auto
qed

text \<open>
  C9. For every sequence of constructions against one context (none of which leaves the
  model), the parameter lists handed to the dispatch backend during the sequence are
  exactly the parameter lists of the objects constructed, one for each, in the order of
  construction; a construction that raises hands over nothing.
\<close>

theorem dispatch_follows_construction_order:
  assumes "Inl NotModelled \<notin> set (fst (run op_type cs s))"
  shows "dispatched (snd (run op_type cs s)) =
     dispatched s @ map obj_parameters (successes (fst (run op_type cs s)))"
proof (induction cs arbitrary: s)
  case Nil
  show ?case by simp
next
  case (Cons c cs)
  obtain r s1 where c: "construct op_type c s = (r, s1)" by (cases "construct op_type c s")
  obtain rs s2 where r: "run op_type cs s1 = (rs, s2)" by (cases "run op_type cs s1")
  from Cons.IH[of s1] r have "dispatched s2 = dispatched s1 @ map obj_parameters (successes rs)"
    by simp
  with construct_dispatched[OF c] c r show ?case
    by (cases r) simp_all
qed

theorem dispatch_follows_construction_order_witness:
  "Inl NotModelled \<notin> set (fst (run None
     [Call Straight_cls [PInt 4, PFloat 1, PList [PFloat 0, PFloat 0], PList [PFloat 1, PFloat 0]],
      Call PathIndependent_cls [PNone],
      Call Hardening_cls [PFloat 1, PFloat 1, PFloat 1, PFloat 1, PFloat 0]] fresh_osi)) \<and>
   dispatched (snd (run None
     [Call Straight_cls [PInt 4, PFloat 1, PList [PFloat 0, PFloat 0], PList [PFloat 1, PFloat 0]],
      Call PathIndependent_cls [PNone],
      Call Hardening_cls [PFloat 1, PFloat 1, PFloat 1, PFloat 1, PFloat 0]] fresh_osi)) =
   [[PStr ''straight'', PInt 1, PInt 4, PFloat 1, PFloat 0, PFloat 0, PFloat 1, PFloat 0],
    [PStr ''Hardening'', PInt 3, PFloat 1, PFloat 1, PFloat 1, PFloat 1, PFloat 0]]"
proof -
  have h: "Inl NotModelled \<notin> set (fst (run None
     [Call Straight_cls [PInt 4, PFloat 1, PList [PFloat 0, PFloat 0], PList [PFloat 1, PFloat 0]],
      Call PathIndependent_cls [PNone],
      Call Hardening_cls [PFloat 1, PFloat 1, PFloat 1, PFloat 1, PFloat 0]] fresh_osi))"
    by (simp add: eval_simps Straight_def Hardening_def PathIndependent_def)
  have "successes (fst (run None
     [Call Straight_cls [PInt 4, PFloat 1, PList [PFloat 0, PFloat 0], PList [PFloat 1, PFloat 0]],
      Call PathIndependent_cls [PNone],
      Call Hardening_cls [PFloat 1, PFloat 1, PFloat 1, PFloat 1, PFloat 0]] fresh_osi)) =
    [OpenSeesObject (PInt 1)
            [PStr ''straight'', PInt 1, PInt 4, PFloat 1, PFloat 0, PFloat 0, PFloat 1, PFloat 0]
            [(''num_fiber'', PInt 4), (''area_fiber'', PFloat 1),
             (''start'', PList [PFloat 0, PFloat 0]), (''end'', PList [PFloat 1, PFloat 0])],
     OpenSeesObject (PInt 3)
            [PStr ''Hardening'', PInt 3, PFloat 1, PFloat 1, PFloat 1, PFloat 1, PFloat 0]
            [(''big_e'', PFloat 1), (''sigma_y'', PFloat 1), (''h_iso'', PFloat 1),
             (''h_kin'', PFloat 1), (''eta'', PFloat 0)]]"
    by (simp add: eval_simps Straight_def Hardening_def PathIndependent_def)
  with dispatch_follows_construction_order[OF h] h
  show ?thesis by (simp add: fresh_osi_def)
qed

text \<open>
  C10. Every constructor converts its fields before it touches the context: when one of
  the conversions of a call raises, the construction ends with that exception (the
  first one, in the order of the signature) and the context is unchanged, counter and
  dispatch log included.
\<close>

theorem failed_conversion_leaves_context:
  assumes "length a = length (signature k)"
    and "coerce_fields (zip (kinds k) a) = Inl e"
    and "e \<noteq> NotModelled"
  shows "construct op_type (Call k a) s = (Inl e, s)"
proof -
  have "coerce_fields (zip (map snd (assigned k (signature k))) (assigned k a)) = Inl e"
  proof (cases "k = BarSlip_cls")
    case True
    with assms show ?thesis
      by (intro BarSlip_coerce[unfolded True[symmetric]]) (simp_all add: kinds_def arity)
  next
    case False
    with assms(2) show ?thesis by (simp add: assigned_id kinds_def)
  qed
  with assms(1) show ?thesis
    by (simp add: construct_command command_of_def command_coerce_Inl)
qed

theorem failed_conversion_leaves_context_witness:
  "length [PStr ''abc'', PFloat 1, PFloat 1, PFloat 1, PFloat 0] = length (signature Hardening_cls) \<and>
   coerce_fields (zip (kinds Hardening_cls) [PStr ''abc'', PFloat 1, PFloat 1, PFloat 1, PFloat 0]) =
     Inl ValueError \<and>
   ValueError \<noteq> NotModelled \<and>
   construct None (Call Hardening_cls [PStr ''abc'', PFloat 1, PFloat 1, PFloat 1, PFloat 0])
     fresh_osi = (Inl ValueError, fresh_osi)"
proof -
  have h1: "length [PStr ''abc'', PFloat 1, PFloat 1, PFloat 1, PFloat 0] =
      length (signature Hardening_cls)"
    by (simp add: signature_def)
  have h2: "coerce_fields (zip (kinds Hardening_cls)
      [PStr ''abc'', PFloat 1, PFloat 1, PFloat 1, PFloat 0]) = Inl ValueError"
    by (simp add: kinds_def signature_def str_to_number_def non_numeric_text_def)
  have h3: "ValueError \<noteq> NotModelled" by simp
  from failed_conversion_leaves_context[OF h1 h2 h3] h1 h2 h3 show ?thesis
    by blast
qed

end
